theory Spec2Isabelle
  imports Complex_Main
begin

section \<open>Python floats\<close>

text \<open>
  A Python float is modelled as a real number or one of the three non-finite values.
  In the operations of this section arithmetic on finite values is exact; rounding and
  overflow are added in the section on float arithmetic below.
  Comparisons follow IEEE 754: every comparison with NaN is false.
\<close>

datatype pyfloat = Fin real | PInf | NInf | NaN

fun isfinite :: "pyfloat \<Rightarrow> bool" where
  "isfinite (Fin r) = True"
| "isfinite PInf = False"
| "isfinite NInf = False"
| "isfinite NaN = False"

fun pf_less :: "pyfloat \<Rightarrow> pyfloat \<Rightarrow> bool" where
  "pf_less NaN b = False"
| "pf_less a NaN = False"
| "pf_less (Fin a) (Fin b) = (a < b)"
| "pf_less (Fin a) PInf = True"
| "pf_less (Fin a) NInf = False"
| "pf_less PInf b = False"
| "pf_less NInf (Fin b) = True"
| "pf_less NInf PInf = True"
| "pf_less NInf NInf = False"

fun pf_le :: "pyfloat \<Rightarrow> pyfloat \<Rightarrow> bool" where
  "pf_le NaN b = False"
| "pf_le a NaN = False"
| "pf_le (Fin a) (Fin b) = (a \<le> b)"
| "pf_le (Fin a) PInf = True"
| "pf_le (Fin a) NInf = False"
| "pf_le PInf (Fin b) = False"
| "pf_le PInf PInf = True"
| "pf_le PInf NInf = False"
| "pf_le NInf b = True"

fun pf_abs :: "pyfloat \<Rightarrow> pyfloat" where
  "pf_abs (Fin r) = Fin \<bar>r\<bar>"
| "pf_abs PInf = PInf"
| "pf_abs NInf = PInf"
| "pf_abs NaN = NaN"

fun pf_neg :: "pyfloat \<Rightarrow> pyfloat" where
  "pf_neg (Fin r) = Fin (- r)"
| "pf_neg PInf = NInf"
| "pf_neg NInf = PInf"
| "pf_neg NaN = NaN"

fun pf_add :: "pyfloat \<Rightarrow> pyfloat \<Rightarrow> pyfloat" where
  "pf_add NaN b = NaN"
| "pf_add a NaN = NaN"
| "pf_add (Fin a) (Fin b) = Fin (a + b)"
| "pf_add (Fin a) PInf = PInf"
| "pf_add (Fin a) NInf = NInf"
| "pf_add PInf NInf = NaN"
| "pf_add PInf b = PInf"
| "pf_add NInf PInf = NaN"
| "pf_add NInf b = NInf"

definition pf_sub :: "pyfloat \<Rightarrow> pyfloat \<Rightarrow> pyfloat" where
  "pf_sub a b = pf_add a (pf_neg b)"

text \<open>The sign of an infinite product; zero times infinity is NaN.\<close>

definition inf_of_sign :: "real \<Rightarrow> pyfloat" where
  "inf_of_sign r = (if r > 0 then PInf else if r < 0 then NInf else NaN)"

fun pf_mul :: "pyfloat \<Rightarrow> pyfloat \<Rightarrow> pyfloat" where
  "pf_mul NaN b = NaN"
| "pf_mul a NaN = NaN"
| "pf_mul (Fin a) (Fin b) = Fin (a * b)"
| "pf_mul (Fin a) PInf = inf_of_sign a"
| "pf_mul (Fin a) NInf = inf_of_sign (- a)"
| "pf_mul PInf (Fin b) = inf_of_sign b"
| "pf_mul NInf (Fin b) = inf_of_sign (- b)"
| "pf_mul PInf PInf = PInf"
| "pf_mul PInf NInf = NInf"
| "pf_mul NInf PInf = NInf"
| "pf_mul NInf NInf = PInf"

text \<open>
  \<open>math.sqrt\<close>: raises ValueError on a negative argument and on minus infinity
  (\<open>None\<close>), passes NaN and plus infinity through.
\<close>

fun pf_sqrt :: "pyfloat \<Rightarrow> pyfloat option" where
  "pf_sqrt (Fin r) = (if r < 0 then None else Some (Fin (sqrt r)))"
| "pf_sqrt PInf = Some PInf"
| "pf_sqrt NInf = None"
| "pf_sqrt NaN = Some NaN"

text \<open>
  The builtin \<open>max\<close> over a non-empty iterable keeps the first item and replaces it
  by a later one only when \<open>item > current\<close>; callers guard the empty case.
\<close>

definition py_max :: "pyfloat list \<Rightarrow> pyfloat" where
  "py_max xs = foldl (\<lambda>m x. if pf_less m x then x else m) (hd xs) (tl xs)"

section \<open>Gesture classifier (muscle\_click.py)\<close>

record MuscleClickConfig =
  left_threshold :: real
  right_threshold :: real
  hold_threshold :: real
  right_double_max_gap_sec :: real
  cooldown_sec :: real
  use_separate_muscles :: bool
  second_muscle_threshold :: real
  hold_threshold_sec :: real
  use_duration_detection :: bool

definition default_click_config :: MuscleClickConfig where
  "default_click_config =
     \<lparr> left_threshold = 150, right_threshold = 250, hold_threshold = 225,
       right_double_max_gap_sec = 1.5, cooldown_sec = 0.5,
       use_separate_muscles = False, second_muscle_threshold = 200,
       hold_threshold_sec = 0.3, use_duration_detection = True \<rparr>"

record CallibriEnvelopeData =
  Sample :: pyfloat

record CallibriSignalData =
  Samples :: "pyfloat list"

text \<open>
  The calls made on pyautogui: \<open>click(button="left")\<close>, \<open>click(button="right")\<close>,
  \<open>mouseDown(button="left")\<close> and \<open>mouseUp(button="left")\<close>.
\<close>

datatype action = LeftClick | RightClick | DragStart | DragEnd

record detector =
  last_click_ts :: real
  debug_printed_env :: bool
  debug_printed_sig :: bool
  last_right_peak_ts :: "real option"
  contraction_start_time :: "real option"
  is_holding :: bool
  is_dragging :: bool
  muscle_buffer :: "pyfloat list"
  buffer_max_size :: nat

definition detector_init :: detector where
  "detector_init =
     \<lparr> last_click_ts = 0, debug_printed_env = False, debug_printed_sig = False,
       last_right_peak_ts = None, contraction_start_time = None,
       is_holding = False, is_dragging = False, muscle_buffer = [],
       buffer_max_size = 10 \<rparr>"

text \<open>Scaling to microvolts: \<open>abs(x) * 1e6\<close>.\<close>

definition microvolts :: "pyfloat \<Rightarrow> pyfloat" where
  "microvolts x = pf_mul (pf_abs x) (Fin 1000000)"

definition envelope_value :: "CallibriEnvelopeData list \<Rightarrow> pyfloat" where
  "envelope_value data = py_max (map (\<lambda>d. microvolts (Sample d)) data)"

text \<open>
  \<open>update_from_envelope\<close>; \<open>now\<close> is the reading of \<open>time.time()\<close> the call
  obtains. The result is the new detector and the action handed to pyautogui, if any.
\<close>

definition update_from_envelope ::
  "MuscleClickConfig \<Rightarrow> detector \<Rightarrow> real \<Rightarrow> CallibriEnvelopeData list
     \<Rightarrow> detector \<times> action option" where
  "update_from_envelope cfg s now data =
     (if data = [] then (s, None)
      else
        let v = envelope_value data;
            s1 = s\<lparr>debug_printed_env := True\<rparr>
        in if pf_less v (Fin (left_threshold cfg)) then (s1, None)
           else if now - last_click_ts s1 < cooldown_sec cfg then (s1, None)
           else (s1\<lparr>last_click_ts := now\<rparr>, Some LeftClick))"

definition handle_duration_based_click ::
  "MuscleClickConfig \<Rightarrow> detector \<Rightarrow> pyfloat \<Rightarrow> real \<Rightarrow> detector \<times> action option" where
  "handle_duration_based_click cfg s max_sample now =
     (if pf_le (Fin (hold_threshold cfg)) max_sample then
        (if now - last_click_ts s \<ge> cooldown_sec cfg then
           (if \<not> is_dragging s
            then (s\<lparr>last_click_ts := now, is_dragging := True\<rparr>, Some DragStart)
            else (s\<lparr>last_click_ts := now, is_dragging := False\<rparr>, Some DragEnd))
         else (s, None))
      else if pf_le (Fin (right_threshold cfg)) max_sample then
        (if now - last_click_ts s \<ge> cooldown_sec cfg
         then (s\<lparr>last_click_ts := now\<rparr>, Some RightClick)
         else (s, None))
      else if pf_le (Fin (left_threshold cfg)) max_sample then
        (if now - last_click_ts s \<ge> cooldown_sec cfg
         then (s\<lparr>last_click_ts := now\<rparr>, Some LeftClick)
         else (s, None))
      else (s, None))"

definition handle_simple_click ::
  "MuscleClickConfig \<Rightarrow> detector \<Rightarrow> pyfloat \<Rightarrow> real \<Rightarrow> detector \<times> action option" where
  "handle_simple_click cfg s max_sample now =
     (if pf_le (Fin (right_threshold cfg)) max_sample then
        (if now - last_click_ts s \<ge> cooldown_sec cfg
         then (s\<lparr>last_click_ts := now\<rparr>, Some RightClick)
         else (s, None))
      else if pf_le (Fin (left_threshold cfg)) max_sample then
        (if now - last_click_ts s \<ge> cooldown_sec cfg
         then (s\<lparr>last_click_ts := now\<rparr>, Some LeftClick)
         else (s, None))
      else (s, None))"

text \<open>The loop over the packs of one signal packet, from \<open>max_sample = 0.0\<close>.\<close>

definition signal_max :: "CallibriSignalData list \<Rightarrow> pyfloat" where
  "signal_max data =
     foldl (\<lambda>max_sample pack.
              if Samples pack = [] then max_sample
              else let local_max = py_max (map microvolts (Samples pack))
                   in if pf_less max_sample local_max then local_max else max_sample)
           (Fin 0) data"

definition update_from_signal ::
  "MuscleClickConfig \<Rightarrow> detector \<Rightarrow> real \<Rightarrow> CallibriSignalData list
     \<Rightarrow> detector \<times> action option" where
  "update_from_signal cfg s now data =
     (if data = [] then (s, None)
      else
        let max_sample = signal_max data;
            buf = muscle_buffer s @ [max_sample];
            buf' = (if length buf > buffer_max_size s then tl buf else buf);
            s1 = s\<lparr>muscle_buffer := buf', debug_printed_sig := True\<rparr>
        in if use_duration_detection cfg
           then handle_duration_based_click cfg s1 max_sample now
           else handle_simple_click cfg s1 max_sample now)"

text \<open>
  A sequence of classifier calls, each with the clock reading it obtains; the run
  collects the emitted actions with their timestamps, in order.
\<close>

datatype call =
  EnvelopeCall real "CallibriEnvelopeData list"
| SignalCall real "CallibriSignalData list"

fun call_ts :: "call \<Rightarrow> real" where
  "call_ts (EnvelopeCall now data) = now"
| "call_ts (SignalCall now data) = now"

fun classify :: "MuscleClickConfig \<Rightarrow> detector \<Rightarrow> call \<Rightarrow> detector \<times> action option" where
  "classify cfg s (EnvelopeCall now data) = update_from_envelope cfg s now data"
| "classify cfg s (SignalCall now data) = update_from_signal cfg s now data"

fun run_calls ::
  "MuscleClickConfig \<Rightarrow> detector \<Rightarrow> call list \<Rightarrow> detector \<times> (real \<times> action) list" where
  "run_calls cfg s [] = (s, [])"
| "run_calls cfg s (c # cs) =
     (case classify cfg s c of
        (s1, None) \<Rightarrow> run_calls cfg s1 cs
      | (s1, Some a) \<Rightarrow>
          (case run_calls cfg s1 cs of (s2, es) \<Rightarrow> (s2, (call_ts c, a) # es)))"

text \<open>Drag events, and lists of them that alternate from a given dragging flag.\<close>

fun is_drag :: "action \<Rightarrow> bool" where
  "is_drag DragStart = True"
| "is_drag DragEnd = True"
| "is_drag LeftClick = False"
| "is_drag RightClick = False"

fun alternates :: "bool \<Rightarrow> action list \<Rightarrow> bool" where
  "alternates d [] = True"
| "alternates d (a # as) = (a = (if d then DragEnd else DragStart) \<and> alternates (\<not> d) as)"

fun gaps :: "real \<Rightarrow> real \<Rightarrow> real list \<Rightarrow> bool" where
  "gaps cd l [] = True"
| "gaps cd l (t # ts) = (cd \<le> t - l \<and> gaps cd t ts)"

text \<open>A signal packet whose largest sample is 300 microvolts.\<close>

definition strong_pack :: "CallibriSignalData list" where
  "strong_pack = [\<lparr>Samples = [Fin 0.0001, Fin (- 0.0003)]\<rparr>]"

text \<open>An envelope packet of 900 microvolts.\<close>

definition strong_envelope :: "CallibriEnvelopeData list" where
  "strong_envelope = [\<lparr>Sample = Fin 0.0009\<rparr>]"

section \<open>Motion controllers (mems\_mouse\_mode.py)\<close>

text \<open>
  In this section the numbers a controller computes with, once a sample has passed the
  finiteness check, are exact reals: it describes the calls in which no float operation
  overflows. The calibration, dead-zone, rate-limit and ordering results are stated on
  it. The bound on the emitted displacement is not: it is stated on the float version of
  the controllers in the next section, where a NaN can reach the clamp.

  One MEMS sample as the SDK delivers it. A missing attribute, which the source catches
  as AttributeError, is \<open>None\<close>.
\<close>

record Point3D =
  X :: pyfloat
  Y :: pyfloat
  Z :: pyfloat

record MEMSData =
  Accelerometer :: "Point3D option"
  Gyroscope :: "Point3D option"

text \<open>
  What one call of \<open>update_mems\<close> shows outside the controller: nothing, the message
  that the neutral was captured, or one \<open>pyautogui.moveRel(dx, dy)\<close>.
\<close>

datatype pointer_event = Quiet | NeutralCaptured | MoveRel real real

text \<open>A gate of the pipeline either returns from \<open>update_mems\<close> or lets it go on.\<close>

datatype 'a flow = Return 'a | Continue 'a

text \<open>The clamp written out three times in the source, after \<open>max_step = ...\<close>.\<close>

definition clamp_step :: "real \<Rightarrow> real \<Rightarrow> real" where
  "clamp_step max_step d =
     (if d > max_step then max_step else if d < - max_step then - max_step else d)"

definition emit :: "real \<Rightarrow> real \<Rightarrow> pointer_event" where
  "emit dx_px dy_px = (if dx_px \<noteq> 0 \<or> dy_px \<noteq> 0 then MoveRel dx_px dy_px else Quiet)"

text \<open>\<open>if abs(v) < dz: v = 0.0\<close>\<close>

definition dead_zone :: "real \<Rightarrow> real \<Rightarrow> real" where
  "dead_zone dz v = (if \<bar>v\<bar> < dz then 0 else v)"

text \<open>\<open>v *= k; if abs(v) < eps: v = 0.0\<close>\<close>

definition brake :: "real \<Rightarrow> real \<Rightarrow> real \<Rightarrow> real" where
  "brake k eps v = (if \<bar>v * k\<bar> < eps then 0 else v * k)"

definition disp_x :: "pointer_event \<Rightarrow> real" where
  "disp_x e = (case e of MoveRel dx dy \<Rightarrow> dx | _ \<Rightarrow> 0)"

definition disp_y :: "pointer_event \<Rightarrow> real" where
  "disp_y e = (case e of MoveRel dx dy \<Rightarrow> dy | _ \<Rightarrow> 0)"

subsection \<open>MemsMouseMode\<close>

record MemsMouseConfig =
  sensitivity_x :: real
  sensitivity_y :: real
  deadzone_g :: real
  neutral_samples :: int
  update_interval_sec :: real
  max_step_px :: real
  smooth_alpha :: real
  center_window_g :: real
  recenter_alpha :: real
  still_eps_g :: real
  gyro_neutral_eps :: real
  invert_x :: bool
  invert_y :: bool
  swap_axes :: bool

definition default_mems_config :: MemsMouseConfig where
  "default_mems_config =
     \<lparr> sensitivity_x = 900, sensitivity_y = 900, deadzone_g = 0.06, neutral_samples = 100,
       update_interval_sec = 0.005, max_step_px = 40, smooth_alpha = 0.25,
       center_window_g = 0.02, recenter_alpha = 0.002, still_eps_g = 0.004,
       gyro_neutral_eps = 6, invert_x = False, invert_y = False, swap_axes = False \<rparr>"

text \<open>
  The sample counter starts at 0 and is only ever incremented, so it is a natural number.
  The gyroscope neutral is \<open>None\<close> until calibration locks; the gyroscope readings are
  not checked for finiteness, so they stay \<open>pyfloat\<close>.
\<close>

record MemsMouseMode =
  neutral_x :: real
  neutral_y :: real
  neutral_z :: real
  accum_x :: real
  accum_y :: real
  accum_z :: real
  accum_count :: nat
  vx_g :: real
  vy_g :: real
  last_ax :: real
  last_ay :: real
  neutral_gx :: "pyfloat option"
  neutral_gy :: "pyfloat option"
  neutral_gz :: "pyfloat option"
  last_update_ts :: real

definition mems_init :: MemsMouseMode where
  "mems_init =
     \<lparr> neutral_x = 0, neutral_y = 0, neutral_z = 0, accum_x = 0, accum_y = 0, accum_z = 0,
       accum_count = 0, vx_g = 0, vy_g = 0, last_ax = 0, last_ay = 0,
       neutral_gx = None, neutral_gy = None, neutral_gz = None, last_update_ts = 0 \<rparr>"

text \<open>
  Lines 90-115: the last sample of the packet, its accelerometer as three finite
  numbers and its gyroscope (zeros when the attribute is missing); \<open>None\<close> when the
  call returns without touching the controller.
\<close>

definition mems_ingress ::
  "MEMSData list \<Rightarrow> (real \<times> real \<times> real \<times> pyfloat \<times> pyfloat \<times> pyfloat) option" where
  "mems_ingress data =
     (if data = [] then None
      else
        let m = last data in
        case Accelerometer m of
          None \<Rightarrow> None
        | Some acc \<Rightarrow>
            let (gx, gy, gz) = (case Gyroscope m of
                                  None \<Rightarrow> (Fin 0, Fin 0, Fin 0)
                                | Some gyr \<Rightarrow> (X gyr, Y gyr, Z gyr))
            in (case (X acc, Y acc, Z acc) of
                  (Fin ax, Fin ay, Fin az) \<Rightarrow> Some (ax, ay, az, gx, gy, gz)
                | _ \<Rightarrow> None))"

text \<open>Lines 118-136: one calibration sample.\<close>

definition mems_calibrate ::
  "MemsMouseConfig \<Rightarrow> MemsMouseMode \<Rightarrow> real \<Rightarrow> real \<Rightarrow> real
     \<Rightarrow> pyfloat \<Rightarrow> pyfloat \<Rightarrow> pyfloat \<Rightarrow> MemsMouseMode \<times> pointer_event" where
  "mems_calibrate cfg s ax ay az gx gy gz =
     (let s1 = s\<lparr>accum_x := accum_x s + ax, accum_y := accum_y s + ay,
                  accum_z := accum_z s + az, accum_count := accum_count s + 1\<rparr>
      in if int (accum_count s1) = neutral_samples cfg then
           let n = real (accum_count s1)
           in (s1\<lparr>neutral_x := accum_x s1 / n, neutral_y := accum_y s1 / n,
                   neutral_z := accum_z s1 / n,
                   neutral_gx := Some gx, neutral_gy := Some gy, neutral_gz := Some gz\<rparr>,
               NeutralCaptured)
         else (s1, Quiet))"

text \<open>
  \<open>math.sqrt\<close> of a sum of three squares. The sum is never negative, so the ValueError
  of \<open>math.sqrt\<close> cannot arise here (lemma \<open>norm3_defined\<close>).
\<close>

definition sum_sq3 :: "pyfloat \<Rightarrow> pyfloat \<Rightarrow> pyfloat \<Rightarrow> pyfloat" where
  "sum_sq3 a b c = pf_add (pf_add (pf_mul a a) (pf_mul b b)) (pf_mul c c)"

definition norm3 :: "pyfloat \<Rightarrow> pyfloat \<Rightarrow> pyfloat \<Rightarrow> pyfloat" where
  "norm3 a b c = (case pf_sqrt (sum_sq3 a b c) of Some d \<Rightarrow> d | None \<Rightarrow> NaN)"

text \<open>Lines 146-155: is the gyroscope within \<open>gyro_neutral_eps\<close> of its neutral?\<close>

definition gyro_near_neutral ::
  "MemsMouseConfig \<Rightarrow> MemsMouseMode \<Rightarrow> pyfloat \<Rightarrow> pyfloat \<Rightarrow> pyfloat \<Rightarrow> bool" where
  "gyro_near_neutral cfg s gx gy gz =
     (case (neutral_gx s, neutral_gy s, neutral_gz s) of
        (Some ngx, Some ngy, Some ngz) \<Rightarrow>
          pf_less (norm3 (pf_sub gx ngx) (pf_sub gy ngy) (pf_sub gz ngz))
                  (Fin (gyro_neutral_eps cfg))
      | _ \<Rightarrow> False)"

text \<open>Lines 146-185: the gyroscope gate and the stillness gate.\<close>

definition mems_gates ::
  "MemsMouseConfig \<Rightarrow> MemsMouseMode \<Rightarrow> real \<Rightarrow> real
     \<Rightarrow> pyfloat \<Rightarrow> pyfloat \<Rightarrow> pyfloat \<Rightarrow> MemsMouseMode flow" where
  "mems_gates cfg s ax ay gx gy gz =
     (if gyro_near_neutral cfg s gx gy gz
      then Return (s\<lparr>vx_g := 0, vy_g := 0, last_ax := ax, last_ay := ay\<rparr>)
      else if \<bar>ax - last_ax s\<bar> < still_eps_g cfg \<and> \<bar>ay - last_ay s\<bar> < still_eps_g cfg then
        let s1 = s\<lparr>vx_g := brake 0.3 (deadzone_g cfg * 0.5) (vx_g s),
                     vy_g := brake 0.3 (deadzone_g cfg * 0.5) (vy_g s)\<rparr>
        in if vx_g s1 = 0 \<and> vy_g s1 = 0
           then Return (s1\<lparr>last_ax := ax, last_ay := ay\<rparr>)
           else Continue s1
      else Continue s)"

text \<open>Lines 187-201: the deviation from the neutral, after the slow re-centering.\<close>

definition mems_recenter :: "MemsMouseConfig \<Rightarrow> MemsMouseMode \<Rightarrow> real \<Rightarrow> real \<Rightarrow> MemsMouseMode" where
  "mems_recenter cfg s ax ay =
     (if \<bar>ax - neutral_x s\<bar> < center_window_g cfg \<and> \<bar>ay - neutral_y s\<bar> < center_window_g cfg
      then let r = recenter_alpha cfg
           in s\<lparr>neutral_x := (1 - r) * neutral_x s + r * ax,
                 neutral_y := (1 - r) * neutral_y s + r * ay\<rparr>
      else s)"

text \<open>Lines 212-219, with \<open>dz\<close> the variable the closure captures.\<close>

definition joystick_curve :: "real \<Rightarrow> real \<Rightarrow> real" where
  "joystick_curve dz val =
     (if val = 0 then 0
      else
        let sign = (if val > 0 then 1 else - 1);
            mag = \<bar>val\<bar>;
            mag_eff = max 0 (mag - dz)
        in sign * (mag_eff powr 1.5))"

text \<open>Lines 187-277: dead zone, curve, smoothing, dominance, mapping and clamp.\<close>

definition mems_shape ::
  "MemsMouseConfig \<Rightarrow> MemsMouseMode \<Rightarrow> real \<Rightarrow> real \<Rightarrow> MemsMouseMode \<times> pointer_event" where
  "mems_shape cfg s ax ay =
     (let s1 = mems_recenter cfg s ax ay;
          dz = deadzone_g cfg;
          raw_dx_g = dead_zone dz (ax - neutral_x s1);
          raw_dy_g = dead_zone dz (ay - neutral_y s1);
          curved_dx = joystick_curve dz raw_dx_g;
          curved_dy = joystick_curve dz raw_dy_g;
          a = smooth_alpha cfg;
          s2 = s1\<lparr>vx_g := (1 - a) * vx_g s1 + a * curved_dx,
                    vy_g := (1 - a) * vy_g s1 + a * curved_dy\<rparr>;
          (dx_g, dy_g) =
             (if \<bar>vx_g s2\<bar> > 1.5 * \<bar>vy_g s2\<bar> then (vx_g s2, 0)
              else if \<bar>vy_g s2\<bar> > 1.5 * \<bar>vx_g s2\<bar> then (0, vy_g s2)
              else (vx_g s2, vy_g s2));
          s3 = s2\<lparr>last_ax := ax, last_ay := ay\<rparr>;
          (sx, sy) = (if swap_axes cfg then (dy_g, dx_g) else (dx_g, dy_g));
          sx1 = (if invert_x cfg then - sx else sx);
          sy1 = (if invert_y cfg then - sy else sy);
          dx_px = clamp_step (max_step_px cfg) (sx1 * sensitivity_x cfg);
          dy_px = clamp_step (max_step_px cfg) (- sy1 * sensitivity_y cfg)
      in (s3, emit dx_px dy_px))"

text \<open>
  \<open>MemsMouseMode.update_mems\<close>; \<open>now\<close> is the reading of \<open>time.time()\<close> the call
  obtains on line 139.
\<close>

definition update_mems ::
  "MemsMouseConfig \<Rightarrow> MemsMouseMode \<Rightarrow> real \<Rightarrow> MEMSData list
     \<Rightarrow> MemsMouseMode \<times> pointer_event" where
  "update_mems cfg s now data =
     (case mems_ingress data of
        None \<Rightarrow> (s, Quiet)
      | Some (ax, ay, az, gx, gy, gz) \<Rightarrow>
          if int (accum_count s) < neutral_samples cfg
          then mems_calibrate cfg s ax ay az gx gy gz
          else if now - last_update_ts s < update_interval_sec cfg then (s, Quiet)
          else
            (case mems_gates cfg (s\<lparr>last_update_ts := now\<rparr>) ax ay gx gy gz of
               Return s1 \<Rightarrow> (s1, Quiet)
             | Continue s1 \<Rightarrow> mems_shape cfg s1 ax ay))"

subsection \<open>GyroMouseOnlineMode\<close>

record GyroMouseOnlineConfig =
  sensitivity_x_on :: real
  sensitivity_y_on :: real
  neutral_samples_on :: int
  update_interval_sec_on :: real
  deadzone_deg_on :: real
  max_step_px_on :: real
  smooth_alpha_on :: real
  center_eps_deg_on :: real
  recenter_alpha_on :: real
  still_eps_deg_on :: real
  still_timeout_sec_on :: real
  emg_threshold_on :: real
  emg_smooth_alpha_on :: real

definition default_online_config :: GyroMouseOnlineConfig where
  "default_online_config =
     \<lparr> sensitivity_x_on = 8, sensitivity_y_on = 8, neutral_samples_on = 50,
       update_interval_sec_on = 0.004, deadzone_deg_on = 2, max_step_px_on = 50,
       smooth_alpha_on = 0.8, center_eps_deg_on = 1, recenter_alpha_on = 0.002,
       still_eps_deg_on = 0.5, still_timeout_sec_on = 0.1, emg_threshold_on = 5,
       emg_smooth_alpha_on = 0.4 \<rparr>"

record GyroMouseOnlineMode =
  neutral_gx_on :: real
  neutral_gz_on :: real
  accum_gx_on :: real
  accum_gz_on :: real
  accum_count_on :: nat
  vx_on :: real
  vy_on :: real
  last_update_ts_on :: real
  last_gx_on :: real
  last_gz_on :: real
  still_since_on :: real
  last_gyro_time_on :: real
  emg_smooth_on :: real
  emg_active_on :: bool

definition online_init :: GyroMouseOnlineMode where
  "online_init =
     \<lparr> neutral_gx_on = 0, neutral_gz_on = 0, accum_gx_on = 0, accum_gz_on = 0,
       accum_count_on = 0, vx_on = 0, vy_on = 0, last_update_ts_on = 0, last_gx_on = 0,
       last_gz_on = 0, still_since_on = 0, last_gyro_time_on = 0, emg_smooth_on = 0,
       emg_active_on = False \<rparr>"

text \<open>
  The ingress of both gyroscope controllers (lines 342-354 and 505-517): the X and Z
  rates of the last sample, when both are finite.
\<close>

definition gyro_ingress :: "MEMSData list \<Rightarrow> (real \<times> real) option" where
  "gyro_ingress data =
     (if data = [] then None
      else
        case Gyroscope (last data) of
          None \<Rightarrow> None
        | Some gyr \<Rightarrow>
            (case (X gyr, Z gyr) of
               (Fin gx, Fin gz) \<Rightarrow> Some (gx, gz)
             | _ \<Rightarrow> None))"

definition online_calibrate ::
  "GyroMouseOnlineConfig \<Rightarrow> GyroMouseOnlineMode \<Rightarrow> real \<Rightarrow> real
     \<Rightarrow> GyroMouseOnlineMode \<times> pointer_event" where
  "online_calibrate cfg s gx gz =
     (let s1 = s\<lparr>accum_gx_on := accum_gx_on s + gx, accum_gz_on := accum_gz_on s + gz,
                  accum_count_on := accum_count_on s + 1\<rparr>
      in if int (accum_count_on s1) = neutral_samples_on cfg then
           let n = real (accum_count_on s1)
           in (s1\<lparr>neutral_gx_on := accum_gx_on s1 / n, neutral_gz_on := accum_gz_on s1 / n\<rparr>,
               NeutralCaptured)
         else (s1, Quiet))"

text \<open>Lines 374-384: the filter of fast changes.\<close>

definition online_fast_filter ::
  "GyroMouseOnlineMode \<Rightarrow> real \<Rightarrow> real \<Rightarrow> real \<Rightarrow> GyroMouseOnlineMode flow" where
  "online_fast_filter s now gx gz =
     (if last_gyro_time_on s > 0 \<and> now - last_gyro_time_on s < 0.01
         \<and> (\<bar>gx - last_gx_on s\<bar> > 5 \<or> \<bar>gz - last_gz_on s\<bar> > 5)
      then Return (s\<lparr>last_gyro_time_on := now\<rparr>)
      else Continue (s\<lparr>last_gyro_time_on := now\<rparr>))"

text \<open>Lines 394-415: the stillness gate.\<close>

definition online_still ::
  "GyroMouseOnlineConfig \<Rightarrow> GyroMouseOnlineMode \<Rightarrow> real \<Rightarrow> real \<Rightarrow> real
     \<Rightarrow> GyroMouseOnlineMode flow" where
  "online_still cfg s now gx gz =
     (if \<bar>gx - last_gx_on s\<bar> < still_eps_deg_on cfg \<and> \<bar>gz - last_gz_on s\<bar> < still_eps_deg_on cfg then
        (if still_since_on s = 0
         then Continue (s\<lparr>still_since_on := now, last_gx_on := gx, last_gz_on := gz\<rparr>)
         else if now - still_since_on s \<ge> still_timeout_sec_on cfg
         then Return (s\<lparr>vx_on := brake 0.05 0.01 (vx_on s), vy_on := brake 0.05 0.01 (vy_on s),
                         last_gx_on := gx, last_gz_on := gz\<rparr>)
         else Continue (s\<lparr>last_gx_on := gx, last_gz_on := gz\<rparr>))
      else Continue (s\<lparr>still_since_on := 0, last_gx_on := gx, last_gz_on := gz\<rparr>))"

text \<open>Lines 418-429: the centre gate.\<close>

definition online_center ::
  "GyroMouseOnlineConfig \<Rightarrow> GyroMouseOnlineMode \<Rightarrow> real \<Rightarrow> real \<Rightarrow> GyroMouseOnlineMode flow" where
  "online_center cfg s dx_deg dy_deg =
     (if \<bar>dx_deg\<bar> < center_eps_deg_on cfg \<and> \<bar>dy_deg\<bar> < center_eps_deg_on cfg
      then Return (s\<lparr>vx_on := brake 0.02 0.01 (vx_on s), vy_on := brake 0.02 0.01 (vy_on s)\<rparr>)
      else Continue s)"

text \<open>Lines 432-463: dead zone, smoothing, the extra factor 0.95, mapping and clamp.\<close>

definition online_shape ::
  "GyroMouseOnlineConfig \<Rightarrow> GyroMouseOnlineMode \<Rightarrow> real \<Rightarrow> real
     \<Rightarrow> GyroMouseOnlineMode \<times> pointer_event" where
  "online_shape cfg s dx_deg dy_deg =
     (let dx = dead_zone (deadzone_deg_on cfg) dx_deg;
          dy = dead_zone (deadzone_deg_on cfg) dy_deg;
          a = smooth_alpha_on cfg;
          s1 = s\<lparr>vx_on := ((1 - a) * vx_on s + a * dx) * 0.95,
                  vy_on := ((1 - a) * vy_on s + a * dy) * 0.95\<rparr>;
          dx_px = clamp_step (max_step_px_on cfg) (- vx_on s1 * sensitivity_x_on cfg);
          dy_px = clamp_step (max_step_px_on cfg) (- vy_on s1 * sensitivity_y_on cfg)
      in (s1, emit dx_px dy_px))"

text \<open>The gates of lines 374-429 in order; the deviation is taken on line 390.\<close>

definition online_gates ::
  "GyroMouseOnlineConfig \<Rightarrow> GyroMouseOnlineMode \<Rightarrow> real \<Rightarrow> real \<Rightarrow> real
     \<Rightarrow> GyroMouseOnlineMode flow" where
  "online_gates cfg s now gx gz =
     (case online_fast_filter s now gx gz of
        Return s1 \<Rightarrow> Return s1
      | Continue s1 \<Rightarrow>
          (case online_still cfg s1 now gx gz of
             Return s2 \<Rightarrow> Return s2
           | Continue s2 \<Rightarrow>
               online_center cfg s2 (gz - neutral_gz_on s) (gx - neutral_gx_on s)))"

definition update_mems_on ::
  "GyroMouseOnlineConfig \<Rightarrow> GyroMouseOnlineMode \<Rightarrow> real \<Rightarrow> MEMSData list
     \<Rightarrow> GyroMouseOnlineMode \<times> pointer_event" where
  "update_mems_on cfg s now data =
     (case gyro_ingress data of
        None \<Rightarrow> (s, Quiet)
      | Some (gx, gz) \<Rightarrow>
          if int (accum_count_on s) < neutral_samples_on cfg
          then online_calibrate cfg s gx gz
          else if now - last_update_ts_on s < update_interval_sec_on cfg then (s, Quiet)
          else
            (case online_gates cfg (s\<lparr>last_update_ts_on := now\<rparr>) now gx gz of
               Return s1 \<Rightarrow> (s1, Quiet)
             | Continue s1 \<Rightarrow>
                 online_shape cfg s1 (gz - neutral_gz_on s) (gx - neutral_gx_on s)))"

subsection \<open>GyroMouseMode\<close>

text \<open>
  The class \<open>GyroMouseConfig\<close> is named by \<open>GyroMouseMode\<close> but is not declared in the
  source file. The record holds the fields \<open>GyroMouseMode\<close> reads; no default values are
  taken for them.
\<close>

record GyroMouseConfig =
  sensitivity_x_gm :: real
  sensitivity_y_gm :: real
  neutral_samples_gm :: int
  update_interval_sec_gm :: real
  deadzone_deg_gm :: real
  max_step_px_gm :: real
  smooth_alpha_gm :: real
  center_eps_deg_gm :: real
  recenter_alpha_gm :: real
  still_eps_deg_gm :: real
  still_timeout_sec_gm :: real
  emg_threshold_gm :: real
  emg_smooth_alpha_gm :: real

record GyroMouseMode =
  neutral_gx_gm :: real
  neutral_gz_gm :: real
  accum_gx_gm :: real
  accum_gz_gm :: real
  accum_count_gm :: nat
  vx_gm :: real
  vy_gm :: real
  last_update_ts_gm :: real
  last_gx_gm :: real
  last_gz_gm :: real
  still_since_gm :: real
  emg_smooth_gm :: real
  emg_active_gm :: bool

definition gyro_init :: GyroMouseMode where
  "gyro_init =
     \<lparr> neutral_gx_gm = 0, neutral_gz_gm = 0, accum_gx_gm = 0, accum_gz_gm = 0,
       accum_count_gm = 0, vx_gm = 0, vy_gm = 0, last_update_ts_gm = 0, last_gx_gm = 0,
       last_gz_gm = 0, still_since_gm = 0, emg_smooth_gm = 0, emg_active_gm = False \<rparr>"

definition gyro_calibrate ::
  "GyroMouseConfig \<Rightarrow> GyroMouseMode \<Rightarrow> real \<Rightarrow> real \<Rightarrow> GyroMouseMode \<times> pointer_event" where
  "gyro_calibrate cfg s gx gz =
     (let s1 = s\<lparr>accum_gx_gm := accum_gx_gm s + gx, accum_gz_gm := accum_gz_gm s + gz,
                  accum_count_gm := accum_count_gm s + 1\<rparr>
      in if int (accum_count_gm s1) = neutral_samples_gm cfg then
           let n = real (accum_count_gm s1)
           in (s1\<lparr>neutral_gx_gm := accum_gx_gm s1 / n, neutral_gz_gm := accum_gz_gm s1 / n\<rparr>,
               NeutralCaptured)
         else (s1, Quiet))"

text \<open>Lines 540-561: the stillness gate.\<close>

definition gyro_still ::
  "GyroMouseConfig \<Rightarrow> GyroMouseMode \<Rightarrow> real \<Rightarrow> real \<Rightarrow> real \<Rightarrow> GyroMouseMode flow" where
  "gyro_still cfg s now gx gz =
     (if \<bar>gx - last_gx_gm s\<bar> < still_eps_deg_gm cfg \<and> \<bar>gz - last_gz_gm s\<bar> < still_eps_deg_gm cfg then
        (if still_since_gm s = 0
         then Continue (s\<lparr>still_since_gm := now, last_gx_gm := gx, last_gz_gm := gz\<rparr>)
         else if now - still_since_gm s \<ge> still_timeout_sec_gm cfg
         then Return (s\<lparr>vx_gm := brake 0.2 0.1 (vx_gm s), vy_gm := brake 0.2 0.1 (vy_gm s),
                         last_gx_gm := gx, last_gz_gm := gz\<rparr>)
         else Continue (s\<lparr>last_gx_gm := gx, last_gz_gm := gz\<rparr>))
      else Continue (s\<lparr>still_since_gm := 0, last_gx_gm := gx, last_gz_gm := gz\<rparr>))"

text \<open>
  Lines 564-580: the centre gate; it returns, after re-centering the neutral, only when
  both velocities have been braked to zero.
\<close>

definition gyro_center ::
  "GyroMouseConfig \<Rightarrow> GyroMouseMode \<Rightarrow> real \<Rightarrow> real \<Rightarrow> real \<Rightarrow> real \<Rightarrow> GyroMouseMode flow" where
  "gyro_center cfg s gx gz dx_deg dy_deg =
     (if \<bar>dx_deg\<bar> < center_eps_deg_gm cfg \<and> \<bar>dy_deg\<bar> < center_eps_deg_gm cfg then
        let s1 = s\<lparr>vx_gm := brake 0.2 0.1 (vx_gm s), vy_gm := brake 0.2 0.1 (vy_gm s)\<rparr>
        in if vx_gm s1 = 0 \<and> vy_gm s1 = 0
           then let r = recenter_alpha_gm cfg
                in Return (s1\<lparr>neutral_gx_gm := (1 - r) * neutral_gx_gm s1 + r * gx,
                               neutral_gz_gm := (1 - r) * neutral_gz_gm s1 + r * gz\<rparr>)
           else Continue s1
      else Continue s)"

text \<open>Lines 594-599.\<close>

definition stick_curve :: "real \<Rightarrow> real" where
  "stick_curve val =
     (if val = 0 then 0
      else
        let sign = (if val > 0 then 1 else - 1);
            mag = \<bar>val\<bar>
        in sign * (mag powr 1.6))"

text \<open>Lines 583-619: dead zone, smoothing, then the curve, mapping and clamp.\<close>

definition gyro_shape ::
  "GyroMouseConfig \<Rightarrow> GyroMouseMode \<Rightarrow> real \<Rightarrow> real \<Rightarrow> GyroMouseMode \<times> pointer_event" where
  "gyro_shape cfg s dx_deg dy_deg =
     (let dx = dead_zone (deadzone_deg_gm cfg) dx_deg;
          dy = dead_zone (deadzone_deg_gm cfg) dy_deg;
          a = smooth_alpha_gm cfg;
          s1 = s\<lparr>vx_gm := (1 - a) * vx_gm s + a * dx,
                  vy_gm := (1 - a) * vy_gm s + a * dy\<rparr>;
          curved_dx = stick_curve (vx_gm s1);
          curved_dy = stick_curve (vy_gm s1);
          dx_px = clamp_step (max_step_px_gm cfg) (- curved_dx * sensitivity_x_gm cfg);
          dy_px = clamp_step (max_step_px_gm cfg) (- curved_dy * sensitivity_y_gm cfg)
      in (s1, emit dx_px dy_px))"

definition gyro_gates ::
  "GyroMouseConfig \<Rightarrow> GyroMouseMode \<Rightarrow> real \<Rightarrow> real \<Rightarrow> real \<Rightarrow> GyroMouseMode flow" where
  "gyro_gates cfg s now gx gz =
     (case gyro_still cfg s now gx gz of
        Return s1 \<Rightarrow> Return s1
      | Continue s1 \<Rightarrow>
          gyro_center cfg s1 gx gz (gz - neutral_gz_gm s) (gx - neutral_gx_gm s))"

definition update_mems_gm ::
  "GyroMouseConfig \<Rightarrow> GyroMouseMode \<Rightarrow> real \<Rightarrow> MEMSData list
     \<Rightarrow> GyroMouseMode \<times> pointer_event" where
  "update_mems_gm cfg s now data =
     (case gyro_ingress data of
        None \<Rightarrow> (s, Quiet)
      | Some (gx, gz) \<Rightarrow>
          if int (accum_count_gm s) < neutral_samples_gm cfg
          then gyro_calibrate cfg s gx gz
          else if now - last_update_ts_gm s < update_interval_sec_gm cfg then (s, Quiet)
          else
            (case gyro_gates cfg (s\<lparr>last_update_ts_gm := now\<rparr>) now gx gz of
               Return s1 \<Rightarrow> (s1, Quiet)
             | Continue s1 \<Rightarrow>
                 gyro_shape cfg s1 (gz - neutral_gz_gm s) (gx - neutral_gx_gm s)))"

text \<open>A run of a controller over packets, each with the clock reading of its call.\<close>

fun run_mems ::
  "MemsMouseConfig \<Rightarrow> MemsMouseMode \<Rightarrow> (real \<times> MEMSData list) list
     \<Rightarrow> MemsMouseMode \<times> pointer_event list" where
  "run_mems cfg s [] = (s, [])"
| "run_mems cfg s ((now, data) # ps) =
     (case update_mems cfg s now data of
        (s1, e) \<Rightarrow> (case run_mems cfg s1 ps of (s2, es) \<Rightarrow> (s2, e # es)))"

fun run_online ::
  "GyroMouseOnlineConfig \<Rightarrow> GyroMouseOnlineMode \<Rightarrow> (real \<times> MEMSData list) list
     \<Rightarrow> GyroMouseOnlineMode \<times> pointer_event list" where
  "run_online cfg s [] = (s, [])"
| "run_online cfg s ((now, data) # ps) =
     (case update_mems_on cfg s now data of
        (s1, e) \<Rightarrow> (case run_online cfg s1 ps of (s2, es) \<Rightarrow> (s2, e # es)))"

fun run_gyro ::
  "GyroMouseConfig \<Rightarrow> GyroMouseMode \<Rightarrow> (real \<times> MEMSData list) list
     \<Rightarrow> GyroMouseMode \<times> pointer_event list" where
  "run_gyro cfg s [] = (s, [])"
| "run_gyro cfg s ((now, data) # ps) =
     (case update_mems_gm cfg s now data of
        (s1, e) \<Rightarrow> (case run_gyro cfg s1 ps of (s2, es) \<Rightarrow> (s2, e # es)))"

text \<open>Concrete samples, configurations and locked states used to exercise the controllers.\<close>

definition mems_sample :: "real \<Rightarrow> real \<Rightarrow> real \<Rightarrow> real \<Rightarrow> real \<Rightarrow> real \<Rightarrow> MEMSData" where
  "mems_sample ax ay az gx gy gz =
     \<lparr> Accelerometer = Some \<lparr>X = Fin ax, Y = Fin ay, Z = Fin az\<rparr>,
       Gyroscope = Some \<lparr>X = Fin gx, Y = Fin gy, Z = Fin gz\<rparr> \<rparr>"

text \<open>
  \<open>MemsMouseMode\<close> after 100 samples at rest: acceleration (0, 0, 1) g, no rotation.
\<close>

definition mems_locked :: MemsMouseMode where
  "mems_locked =
     mems_init\<lparr>accum_z := 100, accum_count := 100, neutral_z := 1,
               neutral_gx := Some (Fin 0), neutral_gy := Some (Fin 0),
               neutral_gz := Some (Fin 0)\<rparr>"

text \<open>\<open>GyroMouseOnlineMode\<close> after 50 samples with no rotation.\<close>

definition online_locked :: GyroMouseOnlineMode where
  "online_locked = online_init\<lparr>accum_count_on := 50\<rparr>"

text \<open>A configuration for \<open>GyroMouseMode\<close>, and the controller after 50 samples at rest.\<close>

definition sample_gyro_config :: GyroMouseConfig where
  "sample_gyro_config =
     \<lparr> sensitivity_x_gm = 8, sensitivity_y_gm = 8, neutral_samples_gm = 50,
       update_interval_sec_gm = 0.004, deadzone_deg_gm = 1, max_step_px_gm = 50,
       smooth_alpha_gm = 0.5, center_eps_deg_gm = 1, recenter_alpha_gm = 0.002,
       still_eps_deg_gm = 0.5, still_timeout_sec_gm = 0.1, emg_threshold_gm = 5,
       emg_smooth_alpha_gm = 0.4 \<rparr>"

definition gyro_locked :: GyroMouseMode where
  "gyro_locked = gyro_init\<lparr>accum_count_gm := 50\<rparr>"

text \<open>Packets whose validated channel holds a NaN.\<close>

definition nan_accel_packet :: "MEMSData list" where
  "nan_accel_packet =
     [\<lparr> Accelerometer = Some \<lparr>X = Fin 0, Y = NaN, Z = Fin 1\<rparr>,
        Gyroscope = Some \<lparr>X = Fin 0, Y = Fin 0, Z = Fin 0\<rparr> \<rparr>]"

definition inf_gyro_packet :: "MEMSData list" where
  "inf_gyro_packet =
     [\<lparr> Accelerometer = Some \<lparr>X = Fin 0, Y = Fin 0, Z = Fin 1\<rparr>,
        Gyroscope = Some \<lparr>X = Fin 0, Y = Fin 0, Z = PInf\<rparr> \<rparr>]"

text \<open>
  The samples a run of packets gets past the ingress of a controller, in order, and the
  arithmetic mean of a list of numbers.
\<close>

fun accepted_mems :: "(real \<times> MEMSData list) list \<Rightarrow> (real \<times> real \<times> real) list" where
  "accepted_mems [] = []"
| "accepted_mems ((now, data) # ps) =
     (case mems_ingress data of
        None \<Rightarrow> accepted_mems ps
      | Some (ax, ay, az, g) \<Rightarrow> (ax, ay, az) # accepted_mems ps)"

fun accepted_gyro :: "(real \<times> MEMSData list) list \<Rightarrow> (real \<times> real) list" where
  "accepted_gyro [] = []"
| "accepted_gyro ((now, data) # ps) =
     (case gyro_ingress data of
        None \<Rightarrow> accepted_gyro ps
      | Some (gx, gz) \<Rightarrow> (gx, gz) # accepted_gyro ps)"

definition mean :: "real list \<Rightarrow> real" where
  "mean xs = sum_list xs / real (length xs)"

definition accel_xs :: "(real \<times> real \<times> real) list \<Rightarrow> real list" where
  "accel_xs as = map (\<lambda>(ax, ay, az). ax) as"

definition accel_ys :: "(real \<times> real \<times> real) list \<Rightarrow> real list" where
  "accel_ys as = map (\<lambda>(ax, ay, az). ay) as"

definition accel_zs :: "(real \<times> real \<times> real) list \<Rightarrow> real list" where
  "accel_zs as = map (\<lambda>(ax, ay, az). az) as"

text \<open>
  Calibration runs with \<open>neutral_samples = 2\<close>: two finite samples with a non-finite one,
  which is dropped, between them.
\<close>

definition calib_run_mems :: "(real \<times> MEMSData list) list" where
  "calib_run_mems =
     [(1, [mems_sample 1 2 3 0 0 0]), (2, nan_accel_packet), (3, [mems_sample 3 4 5 0 0 0])]"

definition calib_run_gyro :: "(real \<times> MEMSData list) list" where
  "calib_run_gyro =
     [(1, [mems_sample 0 0 1 1 0 2]), (2, inf_gyro_packet), (3, [mems_sample 0 0 1 3 0 4])]"

section \<open>Motion controllers in float arithmetic\<close>

text \<open>
  The definitions of the previous section take the arithmetic of the controllers as exact.
  Python computes in IEEE 754 doubles: a result too large for a double is an infinity, an
  infinity minus an infinity or times zero is NaN, and NaN fails every comparison, those
  of the clamp included. This section writes the three \<open>update_mems\<close> methods once more
  with that arithmetic, for the bound on the emitted displacement, which depends on it.

  An operation on finite operands returns the exact result passed through a rounding
  function \<open>rnd\<close>, of which nothing is assumed: what is proved for every \<open>rnd\<close> holds
  whatever the rounding and wherever the overflow sets in. An operation with a non-finite
  operand follows IEEE 754. Float literals and \<open>float(n)\<close> of the sample counter are
  taken as exact, clock readings as finite, and the two zeros of a double are one value.
\<close>

type_synonym rounding = "real \<Rightarrow> pyfloat"

text \<open>
  Exact inside the range of a double, an infinity from the overflow threshold of
  round-to-nearest on; used to run the controllers on concrete packets.
\<close>

definition ideal :: rounding where
  "ideal x = (if \<bar>x\<bar> < 2 ^ 1024 - 2 ^ 970 then Fin x else if x > 0 then PInf else NInf)"

definition fl_add :: "rounding \<Rightarrow> pyfloat \<Rightarrow> pyfloat \<Rightarrow> pyfloat" where
  "fl_add rnd a b = (case (a, b) of (Fin x, Fin y) \<Rightarrow> rnd (x + y) | _ \<Rightarrow> pf_add a b)"

definition fl_sub :: "rounding \<Rightarrow> pyfloat \<Rightarrow> pyfloat \<Rightarrow> pyfloat" where
  "fl_sub rnd a b = (case (a, b) of (Fin x, Fin y) \<Rightarrow> rnd (x - y) | _ \<Rightarrow> pf_sub a b)"

definition fl_mul :: "rounding \<Rightarrow> pyfloat \<Rightarrow> pyfloat \<Rightarrow> pyfloat" where
  "fl_mul rnd a b = (case (a, b) of (Fin x, Fin y) \<Rightarrow> rnd (x * y) | _ \<Rightarrow> pf_mul a b)"

text \<open>\<open>accum / n\<close> with \<open>n = float(self._accum_count)\<close>, a positive count.\<close>

definition fl_div_count :: "rounding \<Rightarrow> pyfloat \<Rightarrow> nat \<Rightarrow> pyfloat" where
  "fl_div_count rnd a n = (case a of Fin x \<Rightarrow> rnd (x / real n) | _ \<Rightarrow> a)"

text \<open>
  The exceptions the arithmetic of \<open>update_mems\<close> can raise. \<open>x ** p\<close> raises OverflowError
  when the power of a finite \<open>x\<close> is out of range, and passes an infinite or NaN base
  through. A negative base, for which Python returns a complex number that the next
  comparison rejects with TypeError, is never passed: the callers take \<open>abs\<close> or
  \<open>max(0.0, ...)\<close> first (lemma \<open>curves_no_type_error\<close>). \<open>math.sqrt\<close> raises
  ValueError on a negative argument.
\<close>

datatype py_error = OverflowError | ValueError | TypeError

definition fl_pow :: "rounding \<Rightarrow> pyfloat \<Rightarrow> real \<Rightarrow> py_error + pyfloat" where
  "fl_pow rnd b p =
     (case b of
        Fin x \<Rightarrow>
          if x < 0 then Inl TypeError
          else (case rnd (x powr p) of Fin y \<Rightarrow> Inr (Fin y) | _ \<Rightarrow> Inl OverflowError)
      | PInf \<Rightarrow> Inr PInf
      | NInf \<Rightarrow> Inr PInf
      | NaN \<Rightarrow> Inr NaN)"

definition fl_sqrt :: "rounding \<Rightarrow> pyfloat \<Rightarrow> py_error + pyfloat" where
  "fl_sqrt rnd a =
     (case a of
        Fin x \<Rightarrow> if x < 0 then Inl ValueError else Inr (rnd (sqrt x))
      | PInf \<Rightarrow> Inr PInf
      | NInf \<Rightarrow> Inl ValueError
      | NaN \<Rightarrow> Inr NaN)"

text \<open>
  What one call of \<open>update_mems\<close> shows outside the controller: nothing, the message that
  the neutral was captured, one \<open>pyautogui.moveRel(dx, dy)\<close>, or an exception that leaves
  the method (after the assignments made so far).
\<close>

datatype float_event = FQuiet | FNeutralCaptured | FMoveRel pyfloat pyfloat | FRaised py_error

text \<open>
  The clamp, \<open>if d > max_step: d = max_step elif d < -max_step: d = -max_step\<close>, and the
  test \<open>if dx_px != 0.0 or dy_px != 0.0\<close> before \<open>moveRel\<close>.
\<close>

definition clamp_step_fl :: "pyfloat \<Rightarrow> pyfloat \<Rightarrow> pyfloat" where
  "clamp_step_fl max_step d =
     (if pf_less max_step d then max_step
      else if pf_less d (pf_neg max_step) then pf_neg max_step else d)"

definition emit_fl :: "pyfloat \<Rightarrow> pyfloat \<Rightarrow> float_event" where
  "emit_fl dx_px dy_px =
     (if dx_px \<noteq> Fin 0 \<or> dy_px \<noteq> Fin 0 then FMoveRel dx_px dy_px else FQuiet)"

text \<open>\<open>if abs(v) < dz: v = 0.0\<close>\<close>

definition dead_zone_fl :: "pyfloat \<Rightarrow> pyfloat \<Rightarrow> pyfloat" where
  "dead_zone_fl dz v = (if pf_less (pf_abs v) dz then Fin 0 else v)"

text \<open>\<open>v *= k; if abs(v) < eps: v = 0.0\<close>\<close>

definition brake_fl :: "rounding \<Rightarrow> real \<Rightarrow> pyfloat \<Rightarrow> pyfloat \<Rightarrow> pyfloat" where
  "brake_fl rnd k eps v =
     (let w = fl_mul rnd v (Fin k) in if pf_less (pf_abs w) eps then Fin 0 else w)"

text \<open>\<open>v = (1.0 - a) * v + a * x\<close>\<close>

definition smooth_fl :: "rounding \<Rightarrow> pyfloat \<Rightarrow> pyfloat \<Rightarrow> pyfloat \<Rightarrow> pyfloat" where
  "smooth_fl rnd a v x =
     fl_add rnd (fl_mul rnd (fl_sub rnd (Fin 1) a) v) (fl_mul rnd a x)"

subsection \<open>MemsMouseMode\<close>

text \<open>Every \<open>float\<close> field of the configuration may hold any float.\<close>

record MemsMouseConfig_fl =
  sensitivity_x_fl :: pyfloat
  sensitivity_y_fl :: pyfloat
  deadzone_g_fl :: pyfloat
  neutral_samples_fl :: int
  update_interval_sec_fl :: pyfloat
  max_step_px_fl :: pyfloat
  smooth_alpha_fl :: pyfloat
  center_window_g_fl :: pyfloat
  recenter_alpha_fl :: pyfloat
  still_eps_g_fl :: pyfloat
  gyro_neutral_eps_fl :: pyfloat
  invert_x_fl :: bool
  invert_y_fl :: bool
  swap_axes_fl :: bool

definition default_mems_config_fl :: MemsMouseConfig_fl where
  "default_mems_config_fl =
     \<lparr> sensitivity_x_fl = Fin 900, sensitivity_y_fl = Fin 900, deadzone_g_fl = Fin 0.06,
       neutral_samples_fl = 100, update_interval_sec_fl = Fin 0.005, max_step_px_fl = Fin 40,
       smooth_alpha_fl = Fin 0.25, center_window_g_fl = Fin 0.02,
       recenter_alpha_fl = Fin 0.002, still_eps_g_fl = Fin 0.004,
       gyro_neutral_eps_fl = Fin 6, invert_x_fl = False, invert_y_fl = False,
       swap_axes_fl = False \<rparr>"

record MemsMouseMode_fl =
  neutral_x_fl :: pyfloat
  neutral_y_fl :: pyfloat
  neutral_z_fl :: pyfloat
  accum_x_fl :: pyfloat
  accum_y_fl :: pyfloat
  accum_z_fl :: pyfloat
  accum_count_fl :: nat
  vx_g_fl :: pyfloat
  vy_g_fl :: pyfloat
  last_ax_fl :: pyfloat
  last_ay_fl :: pyfloat
  neutral_gx_fl :: "pyfloat option"
  neutral_gy_fl :: "pyfloat option"
  neutral_gz_fl :: "pyfloat option"
  last_update_ts_fl :: real

definition mems_init_fl :: MemsMouseMode_fl where
  "mems_init_fl =
     \<lparr> neutral_x_fl = Fin 0, neutral_y_fl = Fin 0, neutral_z_fl = Fin 0, accum_x_fl = Fin 0,
       accum_y_fl = Fin 0, accum_z_fl = Fin 0, accum_count_fl = 0, vx_g_fl = Fin 0,
       vy_g_fl = Fin 0, last_ax_fl = Fin 0, last_ay_fl = Fin 0, neutral_gx_fl = None,
       neutral_gy_fl = None, neutral_gz_fl = None, last_update_ts_fl = 0 \<rparr>"

text \<open>Lines 118-136: one calibration sample.\<close>

definition mems_calibrate_fl ::
  "rounding \<Rightarrow> MemsMouseConfig_fl \<Rightarrow> MemsMouseMode_fl \<Rightarrow> real \<Rightarrow> real \<Rightarrow> real
     \<Rightarrow> pyfloat \<Rightarrow> pyfloat \<Rightarrow> pyfloat \<Rightarrow> MemsMouseMode_fl \<times> float_event" where
  "mems_calibrate_fl rnd cfg s ax ay az gx gy gz =
     (let s1 = s\<lparr>accum_x_fl := fl_add rnd (accum_x_fl s) (Fin ax),
                  accum_y_fl := fl_add rnd (accum_y_fl s) (Fin ay),
                  accum_z_fl := fl_add rnd (accum_z_fl s) (Fin az),
                  accum_count_fl := accum_count_fl s + 1\<rparr>
      in if int (accum_count_fl s1) = neutral_samples_fl cfg then
           let n = accum_count_fl s1
           in (s1\<lparr>neutral_x_fl := fl_div_count rnd (accum_x_fl s1) n,
                   neutral_y_fl := fl_div_count rnd (accum_y_fl s1) n,
                   neutral_z_fl := fl_div_count rnd (accum_z_fl s1) n,
                   neutral_gx_fl := Some gx, neutral_gy_fl := Some gy,
                   neutral_gz_fl := Some gz\<rparr>,
               FNeutralCaptured)
         else (s1, FQuiet))"

text \<open>
  Lines 146-151: \<open>dist_g\<close>, when the three gyroscope neutrals are stored. The sum of the
  squares is taken left to right.
\<close>

definition gyro_dist_fl ::
  "rounding \<Rightarrow> MemsMouseMode_fl \<Rightarrow> pyfloat \<Rightarrow> pyfloat \<Rightarrow> pyfloat
     \<Rightarrow> (py_error + pyfloat) option" where
  "gyro_dist_fl rnd s gx gy gz =
     (case (neutral_gx_fl s, neutral_gy_fl s, neutral_gz_fl s) of
        (Some ngx, Some ngy, Some ngz) \<Rightarrow>
          let dgx = fl_sub rnd gx ngx;
              dgy = fl_sub rnd gy ngy;
              dgz = fl_sub rnd gz ngz
          in Some (fl_sqrt rnd (fl_add rnd (fl_add rnd (fl_mul rnd dgx dgx) (fl_mul rnd dgy dgy))
                                       (fl_mul rnd dgz dgz)))
      | _ \<Rightarrow> None)"

text \<open>
  Lines 160-185: the stillness gate. A gate either ends the call, with the state and
  what the call showed (\<open>Inl\<close>), or lets it go on (\<open>Inr\<close>).
\<close>

definition mems_still_fl ::
  "rounding \<Rightarrow> MemsMouseConfig_fl \<Rightarrow> MemsMouseMode_fl \<Rightarrow> real \<Rightarrow> real
     \<Rightarrow> (MemsMouseMode_fl \<times> float_event) + MemsMouseMode_fl" where
  "mems_still_fl rnd cfg s ax ay =
     (if pf_less (pf_abs (fl_sub rnd (Fin ax) (last_ax_fl s))) (still_eps_g_fl cfg)
         \<and> pf_less (pf_abs (fl_sub rnd (Fin ay) (last_ay_fl s))) (still_eps_g_fl cfg)
      then
        let eps = fl_mul rnd (deadzone_g_fl cfg) (Fin 0.5);
            s1 = s\<lparr>vx_g_fl := brake_fl rnd 0.3 eps (vx_g_fl s),
                    vy_g_fl := brake_fl rnd 0.3 eps (vy_g_fl s)\<rparr>
        in if vx_g_fl s1 = Fin 0 \<and> vy_g_fl s1 = Fin 0
           then Inl (s1\<lparr>last_ax_fl := Fin ax, last_ay_fl := Fin ay\<rparr>, FQuiet)
           else Inr s1
      else Inr s)"

text \<open>Lines 143-185: the gyroscope gate, then the stillness gate.\<close>

definition mems_gates_fl ::
  "rounding \<Rightarrow> MemsMouseConfig_fl \<Rightarrow> MemsMouseMode_fl \<Rightarrow> real \<Rightarrow> real
     \<Rightarrow> pyfloat \<Rightarrow> pyfloat \<Rightarrow> pyfloat
     \<Rightarrow> (MemsMouseMode_fl \<times> float_event) + MemsMouseMode_fl" where
  "mems_gates_fl rnd cfg s ax ay gx gy gz =
     (case gyro_dist_fl rnd s gx gy gz of
        None \<Rightarrow> mems_still_fl rnd cfg s ax ay
      | Some (Inl err) \<Rightarrow> Inl (s, FRaised err)
      | Some (Inr dist_g) \<Rightarrow>
          if pf_less dist_g (gyro_neutral_eps_fl cfg)
          then Inl (s\<lparr>vx_g_fl := Fin 0, vy_g_fl := Fin 0, last_ax_fl := Fin ax,
                       last_ay_fl := Fin ay\<rparr>, FQuiet)
          else mems_still_fl rnd cfg s ax ay)"

text \<open>Lines 187-201: the slow re-centering of the neutral.\<close>

definition mems_recenter_fl ::
  "rounding \<Rightarrow> MemsMouseConfig_fl \<Rightarrow> MemsMouseMode_fl \<Rightarrow> real \<Rightarrow> real \<Rightarrow> MemsMouseMode_fl" where
  "mems_recenter_fl rnd cfg s ax ay =
     (if pf_less (pf_abs (fl_sub rnd (Fin ax) (neutral_x_fl s))) (center_window_g_fl cfg)
         \<and> pf_less (pf_abs (fl_sub rnd (Fin ay) (neutral_y_fl s))) (center_window_g_fl cfg)
      then let r = recenter_alpha_fl cfg
           in s\<lparr>neutral_x_fl := smooth_fl rnd r (neutral_x_fl s) (Fin ax),
                 neutral_y_fl := smooth_fl rnd r (neutral_y_fl s) (Fin ay)\<rparr>
      else s)"

text \<open>
  Lines 212-219. \<open>max(0.0, x)\<close> keeps 0.0 unless \<open>x > 0.0\<close>, so it is 0.0 on NaN.
\<close>

definition joystick_curve_fl :: "rounding \<Rightarrow> pyfloat \<Rightarrow> pyfloat \<Rightarrow> py_error + pyfloat" where
  "joystick_curve_fl rnd dz val =
     (if val = Fin 0 then Inr (Fin 0)
      else
        let sign = (if pf_less (Fin 0) val then 1 else - 1);
            mag = pf_abs val;
            d = fl_sub rnd mag dz;
            mag_eff = (if pf_less (Fin 0) d then d else Fin 0)
        in (case fl_pow rnd mag_eff 1.5 of
              Inl err \<Rightarrow> Inl err
            | Inr p \<Rightarrow> Inr (fl_mul rnd (Fin sign) p)))"

text \<open>Lines 226-277: smoothing, dominance, mapping, clamp and the call of \<open>moveRel\<close>.\<close>

definition mems_output_fl ::
  "rounding \<Rightarrow> MemsMouseConfig_fl \<Rightarrow> MemsMouseMode_fl \<Rightarrow> real \<Rightarrow> real \<Rightarrow> pyfloat \<Rightarrow> pyfloat
     \<Rightarrow> MemsMouseMode_fl \<times> float_event" where
  "mems_output_fl rnd cfg s ax ay curved_dx curved_dy =
     (let a = smooth_alpha_fl cfg;
          s2 = s\<lparr>vx_g_fl := smooth_fl rnd a (vx_g_fl s) curved_dx,
                  vy_g_fl := smooth_fl rnd a (vy_g_fl s) curved_dy\<rparr>;
          (dx_g, dy_g) =
             (if pf_less (fl_mul rnd (Fin 1.5) (pf_abs (vy_g_fl s2))) (pf_abs (vx_g_fl s2))
              then (vx_g_fl s2, Fin 0)
              else if pf_less (fl_mul rnd (Fin 1.5) (pf_abs (vx_g_fl s2))) (pf_abs (vy_g_fl s2))
              then (Fin 0, vy_g_fl s2)
              else (vx_g_fl s2, vy_g_fl s2));
          s3 = s2\<lparr>last_ax_fl := Fin ax, last_ay_fl := Fin ay\<rparr>;
          (sx, sy) = (if swap_axes_fl cfg then (dy_g, dx_g) else (dx_g, dy_g));
          sx1 = (if invert_x_fl cfg then pf_neg sx else sx);
          sy1 = (if invert_y_fl cfg then pf_neg sy else sy);
          dx_px = clamp_step_fl (max_step_px_fl cfg) (fl_mul rnd sx1 (sensitivity_x_fl cfg));
          dy_px = clamp_step_fl (max_step_px_fl cfg)
                    (fl_mul rnd (pf_neg sy1) (sensitivity_y_fl cfg))
      in (s3, emit_fl dx_px dy_px))"

text \<open>Lines 187-277: re-centering, dead zone, curve, then the output stage.\<close>

definition mems_shape_fl ::
  "rounding \<Rightarrow> MemsMouseConfig_fl \<Rightarrow> MemsMouseMode_fl \<Rightarrow> real \<Rightarrow> real
     \<Rightarrow> MemsMouseMode_fl \<times> float_event" where
  "mems_shape_fl rnd cfg s ax ay =
     (let s1 = mems_recenter_fl rnd cfg s ax ay;
          dz = deadzone_g_fl cfg;
          raw_dx_g = dead_zone_fl dz (fl_sub rnd (Fin ax) (neutral_x_fl s1));
          raw_dy_g = dead_zone_fl dz (fl_sub rnd (Fin ay) (neutral_y_fl s1))
      in (case joystick_curve_fl rnd dz raw_dx_g of
            Inl err \<Rightarrow> (s1, FRaised err)
          | Inr curved_dx \<Rightarrow>
              (case joystick_curve_fl rnd dz raw_dy_g of
                 Inl err \<Rightarrow> (s1, FRaised err)
               | Inr curved_dy \<Rightarrow> mems_output_fl rnd cfg s1 ax ay curved_dx curved_dy)))"

text \<open>
  \<open>MemsMouseMode.update_mems\<close>; \<open>now\<close> is the reading of \<open>time.time()\<close> the call
  obtains on line 139.
\<close>

definition update_mems_fl ::
  "rounding \<Rightarrow> MemsMouseConfig_fl \<Rightarrow> MemsMouseMode_fl \<Rightarrow> real \<Rightarrow> MEMSData list
     \<Rightarrow> MemsMouseMode_fl \<times> float_event" where
  "update_mems_fl rnd cfg s now data =
     (case mems_ingress data of
        None \<Rightarrow> (s, FQuiet)
      | Some (ax, ay, az, gx, gy, gz) \<Rightarrow>
          if int (accum_count_fl s) < neutral_samples_fl cfg
          then mems_calibrate_fl rnd cfg s ax ay az gx gy gz
          else if pf_less (rnd (now - last_update_ts_fl s)) (update_interval_sec_fl cfg)
          then (s, FQuiet)
          else
            (case mems_gates_fl rnd cfg (s\<lparr>last_update_ts_fl := now\<rparr>) ax ay gx gy gz of
               Inl r \<Rightarrow> r
             | Inr s1 \<Rightarrow> mems_shape_fl rnd cfg s1 ax ay))"

subsection \<open>GyroMouseOnlineMode\<close>

record GyroMouseOnlineConfig_fl =
  sensitivity_x_onf :: pyfloat
  sensitivity_y_onf :: pyfloat
  neutral_samples_onf :: int
  update_interval_sec_onf :: pyfloat
  deadzone_deg_onf :: pyfloat
  max_step_px_onf :: pyfloat
  smooth_alpha_onf :: pyfloat
  center_eps_deg_onf :: pyfloat
  recenter_alpha_onf :: pyfloat
  still_eps_deg_onf :: pyfloat
  still_timeout_sec_onf :: pyfloat
  emg_threshold_onf :: pyfloat
  emg_smooth_alpha_onf :: pyfloat

definition default_online_config_fl :: GyroMouseOnlineConfig_fl where
  "default_online_config_fl =
     \<lparr> sensitivity_x_onf = Fin 8, sensitivity_y_onf = Fin 8, neutral_samples_onf = 50,
       update_interval_sec_onf = Fin 0.004, deadzone_deg_onf = Fin 2,
       max_step_px_onf = Fin 50, smooth_alpha_onf = Fin 0.8, center_eps_deg_onf = Fin 1,
       recenter_alpha_onf = Fin 0.002, still_eps_deg_onf = Fin 0.5,
       still_timeout_sec_onf = Fin 0.1, emg_threshold_onf = Fin 5,
       emg_smooth_alpha_onf = Fin 0.4 \<rparr>"

record GyroMouseOnlineMode_fl =
  neutral_gx_onf :: pyfloat
  neutral_gz_onf :: pyfloat
  accum_gx_onf :: pyfloat
  accum_gz_onf :: pyfloat
  accum_count_onf :: nat
  vx_onf :: pyfloat
  vy_onf :: pyfloat
  last_update_ts_onf :: real
  last_gx_onf :: pyfloat
  last_gz_onf :: pyfloat
  still_since_onf :: real
  last_gyro_time_onf :: real
  emg_smooth_onf :: pyfloat
  emg_active_onf :: bool

definition online_init_fl :: GyroMouseOnlineMode_fl where
  "online_init_fl =
     \<lparr> neutral_gx_onf = Fin 0, neutral_gz_onf = Fin 0, accum_gx_onf = Fin 0,
       accum_gz_onf = Fin 0, accum_count_onf = 0, vx_onf = Fin 0, vy_onf = Fin 0,
       last_update_ts_onf = 0, last_gx_onf = Fin 0, last_gz_onf = Fin 0, still_since_onf = 0,
       last_gyro_time_onf = 0, emg_smooth_onf = Fin 0, emg_active_onf = False \<rparr>"

definition online_calibrate_fl ::
  "rounding \<Rightarrow> GyroMouseOnlineConfig_fl \<Rightarrow> GyroMouseOnlineMode_fl \<Rightarrow> real \<Rightarrow> real
     \<Rightarrow> GyroMouseOnlineMode_fl \<times> float_event" where
  "online_calibrate_fl rnd cfg s gx gz =
     (let s1 = s\<lparr>accum_gx_onf := fl_add rnd (accum_gx_onf s) (Fin gx),
                  accum_gz_onf := fl_add rnd (accum_gz_onf s) (Fin gz),
                  accum_count_onf := accum_count_onf s + 1\<rparr>
      in if int (accum_count_onf s1) = neutral_samples_onf cfg then
           let n = accum_count_onf s1
           in (s1\<lparr>neutral_gx_onf := fl_div_count rnd (accum_gx_onf s1) n,
                   neutral_gz_onf := fl_div_count rnd (accum_gz_onf s1) n\<rparr>,
               FNeutralCaptured)
         else (s1, FQuiet))"

text \<open>Lines 374-384: the filter of fast changes.\<close>

definition online_fast_filter_fl ::
  "rounding \<Rightarrow> GyroMouseOnlineMode_fl \<Rightarrow> real \<Rightarrow> real \<Rightarrow> real
     \<Rightarrow> (GyroMouseOnlineMode_fl \<times> float_event) + GyroMouseOnlineMode_fl" where
  "online_fast_filter_fl rnd s now gx gz =
     (if last_gyro_time_onf s > 0
         \<and> pf_less (rnd (now - last_gyro_time_onf s)) (Fin 0.01)
         \<and> (pf_less (Fin 5) (pf_abs (fl_sub rnd (Fin gx) (last_gx_onf s)))
              \<or> pf_less (Fin 5) (pf_abs (fl_sub rnd (Fin gz) (last_gz_onf s))))
      then Inl (s\<lparr>last_gyro_time_onf := now\<rparr>, FQuiet)
      else Inr (s\<lparr>last_gyro_time_onf := now\<rparr>))"

text \<open>Lines 394-415: the stillness gate.\<close>

definition online_still_fl ::
  "rounding \<Rightarrow> GyroMouseOnlineConfig_fl \<Rightarrow> GyroMouseOnlineMode_fl \<Rightarrow> real \<Rightarrow> real \<Rightarrow> real
     \<Rightarrow> (GyroMouseOnlineMode_fl \<times> float_event) + GyroMouseOnlineMode_fl" where
  "online_still_fl rnd cfg s now gx gz =
     (if pf_less (pf_abs (fl_sub rnd (Fin gx) (last_gx_onf s))) (still_eps_deg_onf cfg)
         \<and> pf_less (pf_abs (fl_sub rnd (Fin gz) (last_gz_onf s))) (still_eps_deg_onf cfg)
      then
        (if still_since_onf s = 0
         then Inr (s\<lparr>still_since_onf := now, last_gx_onf := Fin gx, last_gz_onf := Fin gz\<rparr>)
         else if pf_le (still_timeout_sec_onf cfg) (rnd (now - still_since_onf s))
         then Inl (s\<lparr>vx_onf := brake_fl rnd 0.05 (Fin 0.01) (vx_onf s),
                      vy_onf := brake_fl rnd 0.05 (Fin 0.01) (vy_onf s),
                      last_gx_onf := Fin gx, last_gz_onf := Fin gz\<rparr>, FQuiet)
         else Inr (s\<lparr>last_gx_onf := Fin gx, last_gz_onf := Fin gz\<rparr>))
      else Inr (s\<lparr>still_since_onf := 0, last_gx_onf := Fin gx, last_gz_onf := Fin gz\<rparr>))"

text \<open>Lines 418-429: the centre gate.\<close>

definition online_center_fl ::
  "rounding \<Rightarrow> GyroMouseOnlineConfig_fl \<Rightarrow> GyroMouseOnlineMode_fl \<Rightarrow> pyfloat \<Rightarrow> pyfloat
     \<Rightarrow> (GyroMouseOnlineMode_fl \<times> float_event) + GyroMouseOnlineMode_fl" where
  "online_center_fl rnd cfg s dx_deg dy_deg =
     (if pf_less (pf_abs dx_deg) (center_eps_deg_onf cfg)
         \<and> pf_less (pf_abs dy_deg) (center_eps_deg_onf cfg)
      then Inl (s\<lparr>vx_onf := brake_fl rnd 0.02 (Fin 0.01) (vx_onf s),
                   vy_onf := brake_fl rnd 0.02 (Fin 0.01) (vy_onf s)\<rparr>, FQuiet)
      else Inr s)"

text \<open>Lines 432-463: dead zone, smoothing, the factor 0.95, mapping and clamp.\<close>

definition online_shape_fl ::
  "rounding \<Rightarrow> GyroMouseOnlineConfig_fl \<Rightarrow> GyroMouseOnlineMode_fl \<Rightarrow> pyfloat \<Rightarrow> pyfloat
     \<Rightarrow> GyroMouseOnlineMode_fl \<times> float_event" where
  "online_shape_fl rnd cfg s dx_deg dy_deg =
     (let dx = dead_zone_fl (deadzone_deg_onf cfg) dx_deg;
          dy = dead_zone_fl (deadzone_deg_onf cfg) dy_deg;
          a = smooth_alpha_onf cfg;
          s1 = s\<lparr>vx_onf := fl_mul rnd (smooth_fl rnd a (vx_onf s) dx) (Fin 0.95),
                  vy_onf := fl_mul rnd (smooth_fl rnd a (vy_onf s) dy) (Fin 0.95)\<rparr>;
          dx_px = clamp_step_fl (max_step_px_onf cfg)
                    (fl_mul rnd (pf_neg (vx_onf s1)) (sensitivity_x_onf cfg));
          dy_px = clamp_step_fl (max_step_px_onf cfg)
                    (fl_mul rnd (pf_neg (vy_onf s1)) (sensitivity_y_onf cfg))
      in (s1, emit_fl dx_px dy_px))"

definition update_mems_on_fl ::
  "rounding \<Rightarrow> GyroMouseOnlineConfig_fl \<Rightarrow> GyroMouseOnlineMode_fl \<Rightarrow> real \<Rightarrow> MEMSData list
     \<Rightarrow> GyroMouseOnlineMode_fl \<times> float_event" where
  "update_mems_on_fl rnd cfg s now data =
     (case gyro_ingress data of
        None \<Rightarrow> (s, FQuiet)
      | Some (gx, gz) \<Rightarrow>
          if int (accum_count_onf s) < neutral_samples_onf cfg
          then online_calibrate_fl rnd cfg s gx gz
          else if pf_less (rnd (now - last_update_ts_onf s)) (update_interval_sec_onf cfg)
          then (s, FQuiet)
          else
            (case online_fast_filter_fl rnd (s\<lparr>last_update_ts_onf := now\<rparr>) now gx gz of
               Inl r \<Rightarrow> r
             | Inr s1 \<Rightarrow>
                 let dx_deg = fl_sub rnd (Fin gz) (neutral_gz_onf s1);
                     dy_deg = fl_sub rnd (Fin gx) (neutral_gx_onf s1)
                 in (case online_still_fl rnd cfg s1 now gx gz of
                       Inl r \<Rightarrow> r
                     | Inr s2 \<Rightarrow>
                         (case online_center_fl rnd cfg s2 dx_deg dy_deg of
                            Inl r \<Rightarrow> r
                          | Inr s3 \<Rightarrow> online_shape_fl rnd cfg s3 dx_deg dy_deg))))"

subsection \<open>GyroMouseMode\<close>

record GyroMouseConfig_fl =
  sensitivity_x_gmf :: pyfloat
  sensitivity_y_gmf :: pyfloat
  neutral_samples_gmf :: int
  update_interval_sec_gmf :: pyfloat
  deadzone_deg_gmf :: pyfloat
  max_step_px_gmf :: pyfloat
  smooth_alpha_gmf :: pyfloat
  center_eps_deg_gmf :: pyfloat
  recenter_alpha_gmf :: pyfloat
  still_eps_deg_gmf :: pyfloat
  still_timeout_sec_gmf :: pyfloat
  emg_threshold_gmf :: pyfloat
  emg_smooth_alpha_gmf :: pyfloat

record GyroMouseMode_fl =
  neutral_gx_gmf :: pyfloat
  neutral_gz_gmf :: pyfloat
  accum_gx_gmf :: pyfloat
  accum_gz_gmf :: pyfloat
  accum_count_gmf :: nat
  vx_gmf :: pyfloat
  vy_gmf :: pyfloat
  last_update_ts_gmf :: real
  last_gx_gmf :: pyfloat
  last_gz_gmf :: pyfloat
  still_since_gmf :: real
  emg_smooth_gmf :: pyfloat
  emg_active_gmf :: bool

definition gyro_init_fl :: GyroMouseMode_fl where
  "gyro_init_fl =
     \<lparr> neutral_gx_gmf = Fin 0, neutral_gz_gmf = Fin 0, accum_gx_gmf = Fin 0,
       accum_gz_gmf = Fin 0, accum_count_gmf = 0, vx_gmf = Fin 0, vy_gmf = Fin 0,
       last_update_ts_gmf = 0, last_gx_gmf = Fin 0, last_gz_gmf = Fin 0, still_since_gmf = 0,
       emg_smooth_gmf = Fin 0, emg_active_gmf = False \<rparr>"

definition gyro_calibrate_fl ::
  "rounding \<Rightarrow> GyroMouseConfig_fl \<Rightarrow> GyroMouseMode_fl \<Rightarrow> real \<Rightarrow> real
     \<Rightarrow> GyroMouseMode_fl \<times> float_event" where
  "gyro_calibrate_fl rnd cfg s gx gz =
     (let s1 = s\<lparr>accum_gx_gmf := fl_add rnd (accum_gx_gmf s) (Fin gx),
                  accum_gz_gmf := fl_add rnd (accum_gz_gmf s) (Fin gz),
                  accum_count_gmf := accum_count_gmf s + 1\<rparr>
      in if int (accum_count_gmf s1) = neutral_samples_gmf cfg then
           let n = accum_count_gmf s1
           in (s1\<lparr>neutral_gx_gmf := fl_div_count rnd (accum_gx_gmf s1) n,
                   neutral_gz_gmf := fl_div_count rnd (accum_gz_gmf s1) n\<rparr>,
               FNeutralCaptured)
         else (s1, FQuiet))"

text \<open>Lines 540-561: the stillness gate.\<close>

definition gyro_still_fl ::
  "rounding \<Rightarrow> GyroMouseConfig_fl \<Rightarrow> GyroMouseMode_fl \<Rightarrow> real \<Rightarrow> real \<Rightarrow> real
     \<Rightarrow> (GyroMouseMode_fl \<times> float_event) + GyroMouseMode_fl" where
  "gyro_still_fl rnd cfg s now gx gz =
     (if pf_less (pf_abs (fl_sub rnd (Fin gx) (last_gx_gmf s))) (still_eps_deg_gmf cfg)
         \<and> pf_less (pf_abs (fl_sub rnd (Fin gz) (last_gz_gmf s))) (still_eps_deg_gmf cfg)
      then
        (if still_since_gmf s = 0
         then Inr (s\<lparr>still_since_gmf := now, last_gx_gmf := Fin gx, last_gz_gmf := Fin gz\<rparr>)
         else if pf_le (still_timeout_sec_gmf cfg) (rnd (now - still_since_gmf s))
         then Inl (s\<lparr>vx_gmf := brake_fl rnd 0.2 (Fin 0.1) (vx_gmf s),
                      vy_gmf := brake_fl rnd 0.2 (Fin 0.1) (vy_gmf s),
                      last_gx_gmf := Fin gx, last_gz_gmf := Fin gz\<rparr>, FQuiet)
         else Inr (s\<lparr>last_gx_gmf := Fin gx, last_gz_gmf := Fin gz\<rparr>))
      else Inr (s\<lparr>still_since_gmf := 0, last_gx_gmf := Fin gx, last_gz_gmf := Fin gz\<rparr>))"

text \<open>
  Lines 564-580: the centre gate; it returns, after re-centering the neutral, only when
  both velocities have been braked to zero.
\<close>

definition gyro_center_fl ::
  "rounding \<Rightarrow> GyroMouseConfig_fl \<Rightarrow> GyroMouseMode_fl \<Rightarrow> real \<Rightarrow> real \<Rightarrow> pyfloat \<Rightarrow> pyfloat
     \<Rightarrow> (GyroMouseMode_fl \<times> float_event) + GyroMouseMode_fl" where
  "gyro_center_fl rnd cfg s gx gz dx_deg dy_deg =
     (if pf_less (pf_abs dx_deg) (center_eps_deg_gmf cfg)
         \<and> pf_less (pf_abs dy_deg) (center_eps_deg_gmf cfg)
      then
        let s1 = s\<lparr>vx_gmf := brake_fl rnd 0.2 (Fin 0.1) (vx_gmf s),
                    vy_gmf := brake_fl rnd 0.2 (Fin 0.1) (vy_gmf s)\<rparr>
        in if vx_gmf s1 = Fin 0 \<and> vy_gmf s1 = Fin 0
           then let r = recenter_alpha_gmf cfg
                in Inl (s1\<lparr>neutral_gx_gmf := smooth_fl rnd r (neutral_gx_gmf s1) (Fin gx),
                            neutral_gz_gmf := smooth_fl rnd r (neutral_gz_gmf s1) (Fin gz)\<rparr>,
                        FQuiet)
           else Inr s1
      else Inr s)"

text \<open>Lines 594-599.\<close>

definition stick_curve_fl :: "rounding \<Rightarrow> pyfloat \<Rightarrow> py_error + pyfloat" where
  "stick_curve_fl rnd val =
     (if val = Fin 0 then Inr (Fin 0)
      else
        let sign = (if pf_less (Fin 0) val then 1 else - 1);
            mag = pf_abs val
        in (case fl_pow rnd mag 1.6 of
              Inl err \<Rightarrow> Inl err
            | Inr p \<Rightarrow> Inr (fl_mul rnd (Fin sign) p)))"

text \<open>Lines 583-619: dead zone, smoothing, then the curve, mapping and clamp.\<close>

definition gyro_shape_fl ::
  "rounding \<Rightarrow> GyroMouseConfig_fl \<Rightarrow> GyroMouseMode_fl \<Rightarrow> pyfloat \<Rightarrow> pyfloat
     \<Rightarrow> GyroMouseMode_fl \<times> float_event" where
  "gyro_shape_fl rnd cfg s dx_deg dy_deg =
     (let dx = dead_zone_fl (deadzone_deg_gmf cfg) dx_deg;
          dy = dead_zone_fl (deadzone_deg_gmf cfg) dy_deg;
          a = smooth_alpha_gmf cfg;
          s1 = s\<lparr>vx_gmf := smooth_fl rnd a (vx_gmf s) dx,
                  vy_gmf := smooth_fl rnd a (vy_gmf s) dy\<rparr>
      in (case stick_curve_fl rnd (vx_gmf s1) of
            Inl err \<Rightarrow> (s1, FRaised err)
          | Inr curved_dx \<Rightarrow>
              (case stick_curve_fl rnd (vy_gmf s1) of
                 Inl err \<Rightarrow> (s1, FRaised err)
               | Inr curved_dy \<Rightarrow>
                   let dx_px = clamp_step_fl (max_step_px_gmf cfg)
                                 (fl_mul rnd (pf_neg curved_dx) (sensitivity_x_gmf cfg));
                       dy_px = clamp_step_fl (max_step_px_gmf cfg)
                                 (fl_mul rnd (pf_neg curved_dy) (sensitivity_y_gmf cfg))
                   in (s1, emit_fl dx_px dy_px))))"

definition update_mems_gm_fl ::
  "rounding \<Rightarrow> GyroMouseConfig_fl \<Rightarrow> GyroMouseMode_fl \<Rightarrow> real \<Rightarrow> MEMSData list
     \<Rightarrow> GyroMouseMode_fl \<times> float_event" where
  "update_mems_gm_fl rnd cfg s now data =
     (case gyro_ingress data of
        None \<Rightarrow> (s, FQuiet)
      | Some (gx, gz) \<Rightarrow>
          if int (accum_count_gmf s) < neutral_samples_gmf cfg
          then gyro_calibrate_fl rnd cfg s gx gz
          else if pf_less (rnd (now - last_update_ts_gmf s)) (update_interval_sec_gmf cfg)
          then (s, FQuiet)
          else
            let s1 = s\<lparr>last_update_ts_gmf := now\<rparr>;
                dx_deg = fl_sub rnd (Fin gz) (neutral_gz_gmf s1);
                dy_deg = fl_sub rnd (Fin gx) (neutral_gx_gmf s1)
            in (case gyro_still_fl rnd cfg s1 now gx gz of
                  Inl r \<Rightarrow> r
                | Inr s2 \<Rightarrow>
                    (case gyro_center_fl rnd cfg s2 gx gz dx_deg dy_deg of
                       Inl r \<Rightarrow> r
                     | Inr s3 \<Rightarrow> gyro_shape_fl rnd cfg s3 dx_deg dy_deg)))"

text \<open>A run of \<open>GyroMouseOnlineMode\<close> over packets, each with the clock reading of its call.\<close>

fun run_online_fl ::
  "rounding \<Rightarrow> GyroMouseOnlineConfig_fl \<Rightarrow> GyroMouseOnlineMode_fl
     \<Rightarrow> (real \<times> MEMSData list) list \<Rightarrow> GyroMouseOnlineMode_fl \<times> float_event list" where
  "run_online_fl rnd cfg s [] = (s, [])"
| "run_online_fl rnd cfg s ((now, data) # ps) =
     (case update_mems_on_fl rnd cfg s now data of
        (s1, e) \<Rightarrow> (case run_online_fl rnd cfg s1 ps of (s2, es) \<Rightarrow> (s2, e # es)))"

text \<open>
  The controllers after calibration at rest, as \<open>mems_locked\<close>, \<open>online_locked\<close> and
  \<open>gyro_locked\<close> above, and the configuration of \<open>sample_gyro_config\<close>.
\<close>

definition mems_locked_fl :: MemsMouseMode_fl where
  "mems_locked_fl =
     mems_init_fl\<lparr>accum_z_fl := Fin 100, accum_count_fl := 100, neutral_z_fl := Fin 1,
                  neutral_gx_fl := Some (Fin 0), neutral_gy_fl := Some (Fin 0),
                  neutral_gz_fl := Some (Fin 0)\<rparr>"

definition online_locked_fl :: GyroMouseOnlineMode_fl where
  "online_locked_fl = online_init_fl\<lparr>accum_count_onf := 50\<rparr>"

definition sample_gyro_config_fl :: GyroMouseConfig_fl where
  "sample_gyro_config_fl =
     \<lparr> sensitivity_x_gmf = Fin 8, sensitivity_y_gmf = Fin 8, neutral_samples_gmf = 50,
       update_interval_sec_gmf = Fin 0.004, deadzone_deg_gmf = Fin 1,
       max_step_px_gmf = Fin 50, smooth_alpha_gmf = Fin 0.5, center_eps_deg_gmf = Fin 1,
       recenter_alpha_gmf = Fin 0.002, still_eps_deg_gmf = Fin 0.5,
       still_timeout_sec_gmf = Fin 0.1, emg_threshold_gmf = Fin 5,
       emg_smooth_alpha_gmf = Fin 0.4 \<rparr>"

definition gyro_locked_fl :: GyroMouseMode_fl where
  "gyro_locked_fl = gyro_init_fl\<lparr>accum_count_gmf := 50\<rparr>"

text \<open>
  A configuration of \<open>GyroMouseOnlineMode\<close> without smoothing that calibrates on one
  sample, and three packets whose Z rates are the finite doubles \<open>- 2 ^ 1023\<close>,
  \<open>2 ^ 1023\<close> and \<open>2 ^ 1023\<close> (the largest power of two a double holds).
\<close>

definition big :: real where
  "big = 2 ^ 1023"

definition unsmoothed_online_config_fl :: GyroMouseOnlineConfig_fl where
  "unsmoothed_online_config_fl =
     default_online_config_fl\<lparr>neutral_samples_onf := 1, smooth_alpha_onf := Fin 1\<rparr>"

definition overflow_run :: "(real \<times> MEMSData list) list" where
  "overflow_run =
     [(1, [mems_sample 0 0 1 0 0 (- big)]),
      (2, [mems_sample 0 0 1 0 0 big]),
      (3, [mems_sample 0 0 1 0 0 big])]"

section \<open>Properties of the gesture classifier\<close>

lemma pf_le_trans_fin: "a \<le> b \<Longrightarrow> pf_le (Fin b) m \<Longrightarrow> pf_le (Fin a) m"
  by (cases m) auto

lemma envelope_cases:
  "update_from_envelope cfg s now data = (s1, r) \<Longrightarrow>
     (r = None \<and> last_click_ts s1 = last_click_ts s \<and> is_dragging s1 = is_dragging s)
   \<or> (r = Some LeftClick \<and> cooldown_sec cfg \<le> now - last_click_ts s \<and> last_click_ts s1 = now
        \<and> is_dragging s1 = is_dragging s)"
  by (auto simp: update_from_envelope_def Let_def split: if_splits)

lemma duration_cases:
  "handle_duration_based_click cfg s m now = (s1, r) \<Longrightarrow>
     (r = None \<and> last_click_ts s1 = last_click_ts s \<and> is_dragging s1 = is_dragging s)
   \<or> (r = Some (if is_dragging s then DragEnd else DragStart)
        \<and> cooldown_sec cfg \<le> now - last_click_ts s \<and> last_click_ts s1 = now
        \<and> is_dragging s1 = (\<not> is_dragging s))
   \<or> ((r = Some LeftClick \<or> r = Some RightClick)
        \<and> cooldown_sec cfg \<le> now - last_click_ts s \<and> last_click_ts s1 = now
        \<and> is_dragging s1 = is_dragging s)"
  by (auto simp: handle_duration_based_click_def split: if_splits)

lemma simple_cases:
  "handle_simple_click cfg s m now = (s1, r) \<Longrightarrow>
     (r = None \<and> last_click_ts s1 = last_click_ts s \<and> is_dragging s1 = is_dragging s)
   \<or> ((r = Some LeftClick \<or> r = Some RightClick)
        \<and> cooldown_sec cfg \<le> now - last_click_ts s \<and> last_click_ts s1 = now
        \<and> is_dragging s1 = is_dragging s)"
  by (auto simp: handle_simple_click_def split: if_splits)

lemma signal_cases:
  "update_from_signal cfg s now data = (s1, r) \<Longrightarrow>
     (r = None \<and> last_click_ts s1 = last_click_ts s \<and> is_dragging s1 = is_dragging s)
   \<or> (r = Some (if is_dragging s then DragEnd else DragStart)
        \<and> cooldown_sec cfg \<le> now - last_click_ts s \<and> last_click_ts s1 = now
        \<and> is_dragging s1 = (\<not> is_dragging s))
   \<or> ((r = Some LeftClick \<or> r = Some RightClick)
        \<and> cooldown_sec cfg \<le> now - last_click_ts s \<and> last_click_ts s1 = now
        \<and> is_dragging s1 = is_dragging s)"
proof -
  assume eq: "update_from_signal cfg s now data = (s1, r)"
  show ?thesis
  proof (cases "data = []")
    case True
    with eq show ?thesis by (simp add: update_from_signal_def)
  next
    case False
    define s0 where "s0 = s\<lparr>muscle_buffer :=
        (if length (muscle_buffer s @ [signal_max data]) > buffer_max_size s
         then tl (muscle_buffer s @ [signal_max data]) else muscle_buffer s @ [signal_max data]),
        debug_printed_sig := True\<rparr>"
    have s0: "last_click_ts s0 = last_click_ts s" "is_dragging s0 = is_dragging s"
      by (simp_all add: s0_def)
    show ?thesis
    proof (cases "use_duration_detection cfg")
      case True
      with False eq have "handle_duration_based_click cfg s0 (signal_max data) now = (s1, r)"
        by (simp add: update_from_signal_def Let_def s0_def)
      from duration_cases[OF this] s0 show ?thesis by auto
    next
      case nd: False
      with False eq have "handle_simple_click cfg s0 (signal_max data) now = (s1, r)"
        by (simp add: update_from_signal_def Let_def s0_def)
      from simple_cases[OF this] s0 show ?thesis by auto
    qed
  qed
qed

lemma classify_cases:
  "classify cfg s c = (s1, r) \<Longrightarrow>
     (r = None \<and> last_click_ts s1 = last_click_ts s \<and> is_dragging s1 = is_dragging s)
   \<or> (r = Some (if is_dragging s then DragEnd else DragStart)
        \<and> cooldown_sec cfg \<le> call_ts c - last_click_ts s \<and> last_click_ts s1 = call_ts c
        \<and> is_dragging s1 = (\<not> is_dragging s))
   \<or> ((r = Some LeftClick \<or> r = Some RightClick)
        \<and> cooldown_sec cfg \<le> call_ts c - last_click_ts s \<and> last_click_ts s1 = call_ts c
        \<and> is_dragging s1 = is_dragging s)"
proof (cases c)
  case (EnvelopeCall now data)
  assume "classify cfg s c = (s1, r)"
  with EnvelopeCall show ?thesis using envelope_cases[of cfg s now data s1 r] by auto
next
  case (SignalCall now data)
  assume "classify cfg s c = (s1, r)"
  with SignalCall show ?thesis using signal_cases[of cfg s now data s1 r] by auto
qed

lemma run_gaps:
  "gaps (cooldown_sec cfg) (last_click_ts s) (map fst (snd (run_calls cfg s calls)))"
proof (induction calls arbitrary: s)
  case Nil
  show ?case by simp
next
  case (Cons c cs)
  obtain s1 r where st: "classify cfg s c = (s1, r)" by (cases "classify cfg s c")
  show ?case
  proof (cases r)
    case None
    with st classify_cases[OF st] Cons[of s1] show ?thesis by simp
  next
    case (Some a)
    obtain s2 es where rr: "run_calls cfg s1 cs = (s2, es)" by (cases "run_calls cfg s1 cs")
    from Some classify_cases[OF st]
    have "cooldown_sec cfg \<le> call_ts c - last_click_ts s" "last_click_ts s1 = call_ts c"
      by auto
    with st Some rr Cons[of s1] show ?thesis by simp
  qed
qed

lemma run_alternates:
  "alternates (is_dragging s) (filter is_drag (map snd (snd (run_calls cfg s calls))))
   \<and> is_dragging (fst (run_calls cfg s calls))
       = (is_dragging s \<noteq> odd (length (filter is_drag (map snd (snd (run_calls cfg s calls))))))"
proof (induction calls arbitrary: s)
  case Nil
  show ?case by simp
next
  case (Cons c cs)
  obtain s1 r where st: "classify cfg s c = (s1, r)" by (cases "classify cfg s c")
  obtain s2 es where rr: "run_calls cfg s1 cs = (s2, es)" by (cases "run_calls cfg s1 cs")
  from classify_cases[OF st] Cons[of s1] st rr show ?case
    by (cases r) auto
qed


lemma gaps_all: "0 \<le> cd \<Longrightarrow> gaps cd l ts \<Longrightarrow> t \<in> set ts \<Longrightarrow> cd \<le> t - l"
proof (induction ts arbitrary: l)
  case Nil
  then show ?case by simp
next
  case (Cons a ts)
  show ?case
  proof (cases "t = a")
    case True
    with Cons.prems show ?thesis by simp
  next
    case False
    with Cons.prems have "t \<in> set ts" "gaps cd a ts" "cd \<le> a - l" by auto
    with Cons.IH[of a] Cons.prems(1) show ?thesis by simp
  qed
qed

lemma gaps_nth_pos:
  "0 \<le> cd \<Longrightarrow> gaps cd l ts \<Longrightarrow> i < j \<Longrightarrow> j < length ts \<Longrightarrow> cd \<le> ts ! j - ts ! i"
proof (induction ts arbitrary: l i j)
  case Nil
  then show ?case by simp
next
  case (Cons a ts)
  from Cons.prems obtain j' where j: "j = Suc j'" "j' < length ts" by (cases j) auto
  show ?case
  proof (cases i)
    case 0
    from Cons.prems have "gaps cd a ts" by simp
    from gaps_all[OF Cons.prems(1) this, of "ts ! j'"] j 0 show ?thesis by simp
  next
    case (Suc i')
    with Cons.prems j Cons.IH[of a i' j'] show ?thesis by simp
  qed
qed

lemma gaps_nth_sorted:
  "sorted ts \<Longrightarrow> gaps cd l ts \<Longrightarrow> i < j \<Longrightarrow> j < length ts \<Longrightarrow> cd \<le> ts ! j - ts ! i"
proof (induction ts arbitrary: l i j)
  case Nil
  then show ?case by simp
next
  case (Cons a ts)
  from Cons.prems obtain j' where j: "j = Suc j'" "j' < length ts" by (cases j) auto
  show ?case
  proof (cases i)
    case 0
    from j obtain b ts' where ts: "ts = b # ts'" by (cases ts) auto
    with Cons.prems have "cd \<le> b - a" by simp
    moreover from Cons.prems(1) j ts have "b \<le> ts ! j'"
      by (cases j') auto
    ultimately show ?thesis using 0 j by simp
  next
    case (Suc i')
    with Cons.prems j Cons.IH[of a i' j'] show ?thesis by simp
  qed
qed

lemma run_ts_subset:
  "set (map fst (snd (run_calls cfg s calls))) \<subseteq> set (map call_ts calls)"
proof (induction calls arbitrary: s)
  case Nil
  show ?case by simp
next
  case (Cons c cs)
  obtain s1 r where st: "classify cfg s c = (s1, r)" by (cases "classify cfg s c")
  obtain s2 es where rr: "run_calls cfg s1 cs = (s2, es)" by (cases "run_calls cfg s1 cs")
  from Cons[of s1] st rr show ?case by (cases r) auto
qed

lemma run_sorted:
  "sorted (map call_ts calls) \<Longrightarrow> sorted (map fst (snd (run_calls cfg s calls)))"
proof (induction calls arbitrary: s)
  case Nil
  show ?case by simp
next
  case (Cons c cs)
  obtain s1 r where st: "classify cfg s c = (s1, r)" by (cases "classify cfg s c")
  obtain s2 es where rr: "run_calls cfg s1 cs = (s2, es)" by (cases "run_calls cfg s1 cs")
  from Cons.prems have srt: "sorted (map call_ts cs)" and le: "\<forall>t \<in> set (map call_ts cs). call_ts c \<le> t"
    by auto
  from run_ts_subset[of cfg s1 cs] rr le have "\<forall>t \<in> set (map fst es). call_ts c \<le> t"
    by auto
  with Cons.IH[OF srt, of s1] st rr show ?case by (cases r) auto
qed

text \<open>
  Claim C2. Over any sequence of classifier calls, envelope and signal calls mixed, in
  duration-based or impulse mode and from any detector state, any two emitted actions,
  the \<open>i\<close>-th before the \<open>j\<close>-th, have timestamps at least \<open>cooldown_sec\<close>
  apart. Both paths and both drag toggles go through the one field \<open>last_click_ts\<close>.
  The clock readings are taken nondecreasing, or else the cooldown non-negative: with a
  negative cooldown and a clock that steps backwards only adjacent actions are spaced.
\<close>

theorem cooldown_between_actions:
  assumes "0 \<le> cooldown_sec cfg \<or> sorted (map call_ts calls)"
    and "i < j" and "j < length (snd (run_calls cfg s calls))"
  shows "cooldown_sec cfg
           \<le> fst (snd (run_calls cfg s calls) ! j) - fst (snd (run_calls cfg s calls) ! i)"
proof -
  let ?ts = "map fst (snd (run_calls cfg s calls))"
  have g: "gaps (cooldown_sec cfg) (last_click_ts s) ?ts" by (rule run_gaps)
  have len: "j < length ?ts" using assms(3) by simp
  have "cooldown_sec cfg \<le> ?ts ! j - ?ts ! i"
  proof (cases "0 \<le> cooldown_sec cfg")
    case True
    from gaps_nth_pos[OF True g assms(2) len] show ?thesis .
  next
    case False
    with assms(1) have "sorted (map call_ts calls)" by simp
    from gaps_nth_sorted[OF run_sorted[OF this] g assms(2) len] show ?thesis .
  qed
  with assms(2) len show ?thesis by simp
qed

lemma strong_pack_max: "signal_max strong_pack = Fin 300"
  by (simp add: strong_pack_def signal_max_def py_max_def microvolts_def)

lemma two_drags:
  "run_calls default_click_config detector_init [SignalCall 1 strong_pack, SignalCall 2 strong_pack]
     = (detector_init\<lparr>muscle_buffer := [Fin 300, Fin 300], debug_printed_sig := True,
                       last_click_ts := 2\<rparr>,
        [(1, DragStart), (2, DragEnd)])"
  by (simp add: update_from_signal_def strong_pack_max Let_def handle_duration_based_click_def
      default_click_config_def detector_init_def strong_pack_def[THEN arg_cong, of "\<lambda>x. x = []"])

theorem cooldown_between_actions_witness:
  "(0 \<le> cooldown_sec default_click_config
      \<or> sorted (map call_ts [SignalCall 1 strong_pack, SignalCall 2 strong_pack]))
   \<and> (0::nat) < 1
   \<and> 1 < length (snd (run_calls default_click_config detector_init
                        [SignalCall 1 strong_pack, SignalCall 2 strong_pack]))
   \<and> cooldown_sec default_click_config
       \<le> fst (snd (run_calls default_click_config detector_init
                      [SignalCall 1 strong_pack, SignalCall 2 strong_pack]) ! 1)
         - fst (snd (run_calls default_click_config detector_init
                      [SignalCall 1 strong_pack, SignalCall 2 strong_pack]) ! 0)"
  using cooldown_between_actions[of default_click_config
          "[SignalCall 1 strong_pack, SignalCall 2 strong_pack]" 0 1 detector_init]
  unfolding two_drags by (simp add: default_click_config_def)

lemma signal_duration_step:
  assumes "use_duration_detection cfg" and "data \<noteq> []"
    and "pf_le (Fin (hold_threshold cfg)) (signal_max data)"
    and "cooldown_sec cfg \<le> now - last_click_ts s"
  shows "is_dragging (fst (update_from_signal cfg s now data)) = (\<not> is_dragging s)
       \<and> snd (update_from_signal cfg s now data)
           = Some (if is_dragging s then DragEnd else DragStart)"
  using assms
  by (simp add: update_from_signal_def Let_def handle_duration_based_click_def)

text \<open>
  Claim C5. The drag events emitted over any sequence of classifier calls alternate,
  starting with DragStart when the detector is not dragging, so DragStart never follows
  DragStart. In duration-based mode a signal packet at or above \<open>hold_threshold\<close> that
  passes the cooldown toggles the dragging flag and emits DragStart when the flag was
  clear, DragEnd when it was set.
\<close>

theorem drag_toggles_alternate:
  "alternates (is_dragging s) (filter is_drag (map snd (snd (run_calls cfg s calls))))
   \<and> (use_duration_detection cfg \<and> data \<noteq> []
        \<and> pf_le (Fin (hold_threshold cfg)) (signal_max data)
        \<and> cooldown_sec cfg \<le> now - last_click_ts s
      \<longrightarrow> is_dragging (fst (update_from_signal cfg s now data)) = (\<not> is_dragging s)
          \<and> snd (update_from_signal cfg s now data)
              = Some (if is_dragging s then DragEnd else DragStart))"
  using run_alternates[of s cfg calls] signal_duration_step[of cfg data now s] by simp

lemma strong_pack_nonempty: "strong_pack \<noteq> []"
  by (simp add: strong_pack_def)

theorem drag_toggles_alternate_witness:
  "map snd (snd (run_calls default_click_config detector_init
                   [SignalCall 1 strong_pack, SignalCall 2 strong_pack]))
     = [DragStart, DragEnd]
   \<and> alternates (is_dragging detector_init)
        (filter is_drag (map snd (snd (run_calls default_click_config detector_init
                   [SignalCall 1 strong_pack, SignalCall 2 strong_pack]))))
   \<and> use_duration_detection default_click_config \<and> strong_pack \<noteq> []
   \<and> pf_le (Fin (hold_threshold default_click_config)) (signal_max strong_pack)
   \<and> cooldown_sec default_click_config \<le> 1 - last_click_ts detector_init
   \<and> is_dragging (fst (update_from_signal default_click_config detector_init 1 strong_pack))
   \<and> snd (update_from_signal default_click_config detector_init 1 strong_pack) = Some DragStart"
  using drag_toggles_alternate[of detector_init default_click_config
          "[SignalCall 1 strong_pack, SignalCall 2 strong_pack]" strong_pack 1]
  unfolding two_drags
  by (simp add: strong_pack_max strong_pack_nonempty default_click_config_def detector_init_def)

text \<open>
  Claim C9. In duration-based mode with \<open>hold_threshold \<le> right_threshold\<close>, as in the
  default configuration (225 and 250), neither \<open>update_from_signal\<close> nor
  \<open>_handle_duration_based_click\<close> ever emits a right click: a sample that reaches the
  right threshold has reached the hold threshold, and the hold branch returns first.
\<close>

theorem right_click_unreachable:
  assumes "use_duration_detection cfg" and "hold_threshold cfg \<le> right_threshold cfg"
  shows "snd (update_from_signal cfg s now data) \<noteq> Some RightClick
       \<and> snd (handle_duration_based_click cfg s max_sample now) \<noteq> Some RightClick"
proof -
  have "\<And>m. pf_le (Fin (right_threshold cfg)) m \<Longrightarrow> pf_le (Fin (hold_threshold cfg)) m"
    using assms(2) by (rule pf_le_trans_fin)
  then have "\<And>s m. snd (handle_duration_based_click cfg s m now) \<noteq> Some RightClick"
    by (auto simp: handle_duration_based_click_def)
  with assms(1) show ?thesis
    by (simp add: update_from_signal_def Let_def)
qed

theorem right_click_unreachable_witness:
  "use_duration_detection default_click_config
   \<and> hold_threshold default_click_config \<le> right_threshold default_click_config
   \<and> pf_le (Fin (right_threshold default_click_config)) (signal_max strong_pack)
   \<and> snd (update_from_signal default_click_config detector_init 1 strong_pack)
       \<noteq> Some RightClick
   \<and> snd (handle_duration_based_click default_click_config detector_init (Fin 300) 1)
       \<noteq> Some RightClick"
  using right_click_unreachable[of default_click_config detector_init 1 strong_pack "Fin 300"]
  by (simp add: strong_pack_max default_click_config_def)

lemma envelope_flag_frame:
  "update_from_envelope cfg (s\<lparr>is_dragging := b\<rparr>) now data
     = (fst (update_from_envelope cfg s now data)\<lparr>is_dragging := b\<rparr>,
        snd (update_from_envelope cfg s now data))"
proof (cases "data = []")
  case True
  then show ?thesis by (simp add: update_from_envelope_def)
next
  case False
  show ?thesis
  proof (cases "pf_less (envelope_value data) (Fin (left_threshold cfg))")
    case True
    with False show ?thesis by (simp add: update_from_envelope_def Let_def)
  next
    case nl: False
    show ?thesis
    proof (cases "now - last_click_ts s < cooldown_sec cfg")
      case True
      with False nl show ?thesis by (simp add: update_from_envelope_def Let_def)
    next
      case nc: False
      with False nl show ?thesis by (simp add: update_from_envelope_def Let_def)
    qed
  qed
qed

lemma envelope_left_only:
  "snd (update_from_envelope cfg s now data) = None
   \<or> snd (update_from_envelope cfg s now data) = Some LeftClick"
  by (simp add: update_from_envelope_def Let_def)

lemma envelope_keeps_flag:
  "is_dragging (fst (update_from_envelope cfg s now data)) = is_dragging s"
  by (simp add: update_from_envelope_def Let_def)

lemma envelope_fires:
  "data \<noteq> [] \<Longrightarrow> \<not> pf_less (envelope_value data) (Fin (left_threshold cfg))
   \<Longrightarrow> \<not> now - last_click_ts s < cooldown_sec cfg
   \<Longrightarrow> snd (update_from_envelope cfg s now data) = Some LeftClick"
  by (simp add: update_from_envelope_def Let_def)


text \<open>
  Claim C10. Whatever the configuration and the packet, \<open>update_from_envelope\<close> emits
  nothing or a left click; it leaves the dragging flag as it was and its result does not
  depend on the flag; and any non-empty packet whose value is not below
  \<open>left_threshold\<close>, however far above \<open>right_threshold\<close> or \<open>hold_threshold\<close>, gives a
  left click once the cooldown has passed.
\<close>

theorem envelope_only_left_click:
  "(snd (update_from_envelope cfg s now data) = None
      \<or> snd (update_from_envelope cfg s now data) = Some LeftClick)
   \<and> is_dragging (fst (update_from_envelope cfg s now data)) = is_dragging s
   \<and> update_from_envelope cfg (s\<lparr>is_dragging := b\<rparr>) now data
       = (fst (update_from_envelope cfg s now data)\<lparr>is_dragging := b\<rparr>,
          snd (update_from_envelope cfg s now data))
   \<and> (data \<noteq> [] \<and> \<not> pf_less (envelope_value data) (Fin (left_threshold cfg))
        \<and> \<not> now - last_click_ts s < cooldown_sec cfg
      \<longrightarrow> snd (update_from_envelope cfg s now data) = Some LeftClick)"
proof (intro conjI impI)
  show "snd (update_from_envelope cfg s now data) = None
      \<or> snd (update_from_envelope cfg s now data) = Some LeftClick"
    by (rule envelope_left_only)
  show "is_dragging (fst (update_from_envelope cfg s now data)) = is_dragging s"
    by (rule envelope_keeps_flag)
  show "update_from_envelope cfg (s\<lparr>is_dragging := b\<rparr>) now data
       = (fst (update_from_envelope cfg s now data)\<lparr>is_dragging := b\<rparr>,
          snd (update_from_envelope cfg s now data))"
    by (rule envelope_flag_frame)
next
  assume "data \<noteq> [] \<and> \<not> pf_less (envelope_value data) (Fin (left_threshold cfg))
        \<and> \<not> now - last_click_ts s < cooldown_sec cfg"
  then show "snd (update_from_envelope cfg s now data) = Some LeftClick"
    using envelope_fires[of data cfg now s] by blast
qed

lemma strong_envelope_value: "envelope_value strong_envelope = Fin 900"
  by (simp add: strong_envelope_def envelope_value_def py_max_def microvolts_def)

lemma strong_envelope_nonempty: "strong_envelope \<noteq> []"
  by (simp add: strong_envelope_def)

lemma default_click_fields:
  "left_threshold default_click_config = 150"
  "right_threshold default_click_config = 250"
  "hold_threshold default_click_config = 225"
  "cooldown_sec default_click_config = 1 / 2"
  "use_duration_detection default_click_config"
  by (simp_all add: default_click_config_def)

lemma detector_init_fields:
  "last_click_ts detector_init = 0" "\<not> is_dragging detector_init"
  by (simp_all add: detector_init_def)

theorem envelope_only_left_click_witness:
  "strong_envelope \<noteq> []
   \<and> pf_le (Fin (right_threshold default_click_config)) (envelope_value strong_envelope)
   \<and> pf_le (Fin (hold_threshold default_click_config)) (envelope_value strong_envelope)
   \<and> \<not> pf_less (envelope_value strong_envelope) (Fin (left_threshold default_click_config))
   \<and> \<not> 1 - last_click_ts detector_init < cooldown_sec default_click_config
   \<and> snd (update_from_envelope default_click_config detector_init 1 strong_envelope)
       = Some LeftClick"
  using envelope_only_left_click[of default_click_config detector_init 1 strong_envelope]
  by (simp add: strong_envelope_value strong_envelope_nonempty default_click_fields
      detector_init_fields)

section \<open>Properties of the motion controllers\<close>

lemma mems_ingress_sample:
  "mems_ingress [mems_sample ax ay az gx gy gz] = Some (ax, ay, az, Fin gx, Fin gy, Fin gz)"
  by (simp add: mems_ingress_def mems_sample_def)

lemma gyro_ingress_sample: "gyro_ingress [mems_sample ax ay az gx gy gz] = Some (gx, gz)"
  by (simp add: gyro_ingress_def mems_sample_def)

lemma sqrt_100: "sqrt 100 = 10"
  using real_sqrt_abs[of 10] by simp

lemma mems_step_example:
  "update_mems default_mems_config mems_locked 1 [mems_sample 1.06 0 1 10 0 0]
     = (mems_locked\<lparr>last_update_ts := 1, vx_g := 0.25, last_ax := 1.06\<rparr>, MoveRel 40 0)"
  by (simp add: update_mems_def mems_ingress_sample default_mems_config_def mems_locked_def
      mems_init_def mems_gates_def gyro_near_neutral_def norm3_def sum_sq3_def pf_sub_def
      sqrt_100 mems_shape_def mems_recenter_def dead_zone_def joystick_curve_def
      clamp_step_def emit_def Let_def)

lemma online_step_example:
  "update_mems_on default_online_config online_locked 1 [mems_sample 0 0 1 10 0 10]
     = (online_locked\<lparr>last_update_ts_on := 1, last_gyro_time_on := 1, last_gx_on := 10,
                       last_gz_on := 10, vx_on := 7.6, vy_on := 7.6\<rparr>,
        MoveRel (- 50) (- 50))"
  by (simp add: update_mems_on_def gyro_ingress_sample default_online_config_def
      online_locked_def online_init_def online_gates_def online_fast_filter_def
      online_still_def online_center_def online_shape_def dead_zone_def clamp_step_def
      emit_def Let_def)

lemma gyro_step_example:
  "update_mems_gm sample_gyro_config gyro_locked 1 [mems_sample 0 0 1 0 0 2]
     = (gyro_locked\<lparr>last_update_ts_gm := 1, last_gz_gm := 2, vx_gm := 1\<rparr>, MoveRel (- 8) 0)"
  by (simp add: update_mems_gm_def gyro_ingress_sample sample_gyro_config_def
      gyro_locked_def gyro_init_def gyro_gates_def gyro_still_def gyro_center_def
      gyro_shape_def dead_zone_def stick_curve_def clamp_step_def emit_def Let_def)

lemma mems_ingress_nonfinite:
  assumes "Accelerometer (last data) = Some acc"
    and "\<not> (isfinite (X acc) \<and> isfinite (Y acc) \<and> isfinite (Z acc))"
  shows "mems_ingress data = None"
  using assms
  by (cases "X acc"; cases "Y acc"; cases "Z acc")
     (simp_all add: mems_ingress_def Let_def split_beta)

lemma gyro_ingress_nonfinite:
  assumes "Gyroscope (last data) = Some gyr"
    and "\<not> (isfinite (X gyr) \<and> isfinite (Z gyr))"
  shows "gyro_ingress data = None"
  using assms
  by (cases "X gyr"; cases "Z gyr") (simp_all add: gyro_ingress_def)

lemma mems_ingress_malformed:
  "data = [] \<or> Accelerometer (last data) = None \<Longrightarrow> mems_ingress data = None"
  by (auto simp: mems_ingress_def)

lemma gyro_ingress_malformed:
  "data = [] \<or> Gyroscope (last data) = None \<Longrightarrow> gyro_ingress data = None"
  by (auto simp: gyro_ingress_def)

text \<open>
  Claim C6, as amended. In each motion controller a packet whose last sample has a
  non-finite value in a channel the controller validates (accelerometer X, Y, Z for
  \<open>MemsMouseMode\<close>; gyroscope X, Z for the two gyroscope controllers) is dropped: the
  state is unchanged and nothing is emitted, exactly as for an empty packet or a sample
  without the attribute.
\<close>

theorem nonfinite_sample_dropped:
  "(Accelerometer (last data) = Some acc
      \<and> \<not> (isfinite (X acc) \<and> isfinite (Y acc) \<and> isfinite (Z acc))
     \<longrightarrow> update_mems cfg s now data = (s, Quiet))
   \<and> (Gyroscope (last data) = Some gyr \<and> \<not> (isfinite (X gyr) \<and> isfinite (Z gyr))
     \<longrightarrow> update_mems_on cfgo so now data = (so, Quiet)
         \<and> update_mems_gm cfgg sg now data = (sg, Quiet))
   \<and> (data = [] \<or> Accelerometer (last data) = None
     \<longrightarrow> update_mems cfg s now data = (s, Quiet))
   \<and> (data = [] \<or> Gyroscope (last data) = None
     \<longrightarrow> update_mems_on cfgo so now data = (so, Quiet)
         \<and> update_mems_gm cfgg sg now data = (sg, Quiet))"
  using mems_ingress_nonfinite[of data acc] gyro_ingress_nonfinite[of data gyr]
    mems_ingress_malformed[of data] gyro_ingress_malformed[of data]
  by (auto simp: update_mems_def update_mems_on_def update_mems_gm_def)

theorem nonfinite_sample_dropped_witness:
  "Accelerometer (last nan_accel_packet) = Some \<lparr>X = Fin 0, Y = NaN, Z = Fin 1\<rparr>
   \<and> \<not> (isfinite (X \<lparr>X = Fin 0, Y = NaN, Z = Fin 1\<rparr>)
         \<and> isfinite (Y \<lparr>X = Fin 0, Y = NaN, Z = Fin 1\<rparr>)
         \<and> isfinite (Z \<lparr>X = Fin 0, Y = NaN, Z = Fin 1\<rparr>))
   \<and> update_mems default_mems_config mems_init 1 nan_accel_packet = (mems_init, Quiet)
   \<and> Gyroscope (last inf_gyro_packet) = Some \<lparr>X = Fin 0, Y = Fin 0, Z = PInf\<rparr>
   \<and> \<not> (isfinite (X \<lparr>X = Fin 0, Y = Fin 0, Z = PInf\<rparr>)
         \<and> isfinite (Z \<lparr>X = Fin 0, Y = Fin 0, Z = PInf\<rparr>))
   \<and> update_mems_on default_online_config online_init 1 inf_gyro_packet = (online_init, Quiet)
   \<and> update_mems_gm sample_gyro_config gyro_init 1 inf_gyro_packet = (gyro_init, Quiet)
   \<and> (([]::MEMSData list) = [] \<or> Accelerometer (last []) = None)
   \<and> update_mems default_mems_config mems_init 1 [] = (mems_init, Quiet)
   \<and> (([]::MEMSData list) = [] \<or> Gyroscope (last []) = None)
   \<and> update_mems_on default_online_config online_init 1 [] = (online_init, Quiet)
   \<and> update_mems_gm sample_gyro_config gyro_init 1 [] = (gyro_init, Quiet)"
  using nonfinite_sample_dropped[where data = nan_accel_packet
          and acc = "\<lparr>X = Fin 0, Y = NaN, Z = Fin 1\<rparr>"
          and cfg = default_mems_config and s = mems_init and now = 1]
    nonfinite_sample_dropped[where data = inf_gyro_packet
          and gyr = "\<lparr>X = Fin 0, Y = Fin 0, Z = PInf\<rparr>" and now = 1
          and cfgo = default_online_config and so = online_init
          and cfgg = sample_gyro_config and sg = gyro_init]
    nonfinite_sample_dropped[where data = "[]"
          and cfg = default_mems_config and s = mems_init and now = 1
          and cfgo = default_online_config and so = online_init
          and cfgg = sample_gyro_config and sg = gyro_init]
  by (simp add: nan_accel_packet_def inf_gyro_packet_def)

theorem nonfinite_sample_dropped_counterexample:
  "update_from_envelope default_click_config detector_init 1 [\<lparr>Sample = NaN\<rparr>]
     = (detector_init\<lparr>debug_printed_env := True, last_click_ts := 1\<rparr>, Some LeftClick)
   \<and> update_from_envelope default_click_config detector_init 1 [\<lparr>Sample = PInf\<rparr>]
     = (detector_init\<lparr>debug_printed_env := True, last_click_ts := 1\<rparr>, Some LeftClick)"
  by (simp add: update_from_envelope_def envelope_value_def py_max_def microvolts_def
      inf_of_sign_def default_click_config_def detector_init_def)

lemma mems_rate_limited:
  "\<not> int (accum_count s) < neutral_samples cfg
   \<Longrightarrow> now - last_update_ts s < update_interval_sec cfg
   \<Longrightarrow> update_mems cfg s now data = (s, Quiet)"
  by (simp add: update_mems_def split: option.splits)

lemma online_rate_limited:
  "\<not> int (accum_count_on s) < neutral_samples_on cfg
   \<Longrightarrow> now - last_update_ts_on s < update_interval_sec_on cfg
   \<Longrightarrow> update_mems_on cfg s now data = (s, Quiet)"
  by (simp add: update_mems_on_def split: option.splits)

lemma gyro_rate_limited:
  "\<not> int (accum_count_gm s) < neutral_samples_gm cfg
   \<Longrightarrow> now - last_update_ts_gm s < update_interval_sec_gm cfg
   \<Longrightarrow> update_mems_gm cfg s now data = (s, Quiet)"
  by (simp add: update_mems_gm_def split: option.splits)

text \<open>
  Claim C7, as amended. In each controller, once calibration has locked (the sample
  count has reached \<open>neutral_samples\<close>), a packet whose clock reading is less than
  \<open>update_interval_sec\<close> after the last accepted update is dropped: the controller state
  is unchanged and nothing is emitted.
\<close>

theorem rate_limited_packet_dropped:
  "(\<not> int (accum_count s) < neutral_samples cfg
      \<and> now - last_update_ts s < update_interval_sec cfg
     \<longrightarrow> update_mems cfg s now data = (s, Quiet))
   \<and> (\<not> int (accum_count_on so) < neutral_samples_on cfgo
      \<and> nowo - last_update_ts_on so < update_interval_sec_on cfgo
     \<longrightarrow> update_mems_on cfgo so nowo datao = (so, Quiet))
   \<and> (\<not> int (accum_count_gm sg) < neutral_samples_gm cfgg
      \<and> nowg - last_update_ts_gm sg < update_interval_sec_gm cfgg
     \<longrightarrow> update_mems_gm cfgg sg nowg datag = (sg, Quiet))"
  using mems_rate_limited[of s cfg now data] online_rate_limited[of so cfgo nowo datao]
    gyro_rate_limited[of sg cfgg nowg datag]
  by blast

lemma locked_counts:
  "\<not> int (accum_count (mems_locked\<lparr>last_update_ts := 1\<rparr>)) < neutral_samples default_mems_config"
  "\<not> int (accum_count_on (online_locked\<lparr>last_update_ts_on := 1\<rparr>))
       < neutral_samples_on default_online_config"
  "\<not> int (accum_count_gm (gyro_locked\<lparr>last_update_ts_gm := 1\<rparr>))
       < neutral_samples_gm sample_gyro_config"
  by (simp_all add: mems_locked_def mems_init_def default_mems_config_def online_locked_def
      online_init_def default_online_config_def gyro_locked_def gyro_init_def
      sample_gyro_config_def)

lemma locked_intervals:
  "1.001 - last_update_ts (mems_locked\<lparr>last_update_ts := 1\<rparr>)
     < update_interval_sec default_mems_config"
  "1.001 - last_update_ts_on (online_locked\<lparr>last_update_ts_on := 1\<rparr>)
     < update_interval_sec_on default_online_config"
  "1.001 - last_update_ts_gm (gyro_locked\<lparr>last_update_ts_gm := 1\<rparr>)
     < update_interval_sec_gm sample_gyro_config"
  by (simp_all add: default_mems_config_def default_online_config_def sample_gyro_config_def)

theorem rate_limited_packet_dropped_witness:
  "\<not> int (accum_count (mems_locked\<lparr>last_update_ts := 1\<rparr>)) < neutral_samples default_mems_config
   \<and> 1.001 - last_update_ts (mems_locked\<lparr>last_update_ts := 1\<rparr>)
       < update_interval_sec default_mems_config
   \<and> update_mems default_mems_config (mems_locked\<lparr>last_update_ts := 1\<rparr>) 1.001
        [mems_sample 1.06 0 1 10 0 0] = (mems_locked\<lparr>last_update_ts := 1\<rparr>, Quiet)
   \<and> update_mems_on default_online_config (online_locked\<lparr>last_update_ts_on := 1\<rparr>) 1.001
        [mems_sample 0 0 1 10 0 10] = (online_locked\<lparr>last_update_ts_on := 1\<rparr>, Quiet)
   \<and> update_mems_gm sample_gyro_config (gyro_locked\<lparr>last_update_ts_gm := 1\<rparr>) 1.001
        [mems_sample 0 0 1 0 0 2] = (gyro_locked\<lparr>last_update_ts_gm := 1\<rparr>, Quiet)"
  using rate_limited_packet_dropped[of "mems_locked\<lparr>last_update_ts := 1\<rparr>"
          default_mems_config "1.001" "[mems_sample 1.06 0 1 10 0 0]"
          "online_locked\<lparr>last_update_ts_on := 1\<rparr>" default_online_config "1.001"
          "[mems_sample 0 0 1 10 0 10]"
          "gyro_locked\<lparr>last_update_ts_gm := 1\<rparr>" sample_gyro_config "1.001"
          "[mems_sample 0 0 1 0 0 2]"]
    locked_counts locked_intervals
  by blast

theorem rate_limited_packet_dropped_counterexample:
  "0.001 - last_update_ts_on online_init < update_interval_sec_on default_online_config
   \<and> update_mems_on default_online_config online_init 0.001 [mems_sample 0 0 1 3 0 4]
       = (online_init\<lparr>accum_gx_on := 3, accum_gz_on := 4, accum_count_on := 1\<rparr>, Quiet)
   \<and> fst (run_online default_online_config online_init
             [(1000, [mems_sample 0 0 1 3 0 4]), (1000.001, [mems_sample 0 0 1 3 0 4])])
       = online_init\<lparr>accum_gx_on := 6, accum_gz_on := 8, accum_count_on := 2\<rparr>"
  by (simp add: update_mems_on_def gyro_ingress_sample online_calibrate_def
      default_online_config_def online_init_def Let_def)

lemma norm3_defined: "pf_sqrt (sum_sq3 a b c) \<noteq> None"
proof -
  have sq: "\<And>x. pf_mul x x = PInf \<or> pf_mul x x = NaN \<or> (\<exists>r\<ge>0. pf_mul x x = Fin r)"
    subgoal for x by (cases x) simp_all
    done
  have add: "\<And>u v. u = PInf \<or> u = NaN \<or> (\<exists>r\<ge>0. u = Fin r)
      \<Longrightarrow> v = PInf \<or> v = NaN \<or> (\<exists>r\<ge>0. v = Fin r)
      \<Longrightarrow> pf_add u v = PInf \<or> pf_add u v = NaN \<or> (\<exists>r\<ge>0. pf_add u v = Fin r)"
    by auto
  from add[OF add[OF sq[of a] sq[of b]] sq[of c]]
  have "sum_sq3 a b c = PInf \<or> sum_sq3 a b c = NaN \<or> (\<exists>r\<ge>0. sum_sq3 a b c = Fin r)"
    by (simp add: sum_sq3_def)
  then show ?thesis by auto
qed


subsection \<open>Calibration\<close>

lemma accel_proj:
  "accel_xs [] = []" "accel_ys [] = []" "accel_zs [] = []"
  "accel_xs ((ax, ay, az) # as) = ax # accel_xs as"
  "accel_ys ((ax, ay, az) # as) = ay # accel_ys as"
  "accel_zs ((ax, ay, az) # as) = az # accel_zs as"
  by (simp_all add: accel_xs_def accel_ys_def accel_zs_def)

lemma emit_not_captured: "emit a b \<noteq> NeutralCaptured"
  by (simp add: emit_def)

lemma mems_shape_frame:
  "accum_count (fst (mems_shape cfg s ax ay)) = accum_count s
   \<and> snd (mems_shape cfg s ax ay) \<noteq> NeutralCaptured"
  by (simp add: mems_shape_def Let_def split_beta mems_recenter_def emit_not_captured)

lemma mems_gates_frame:
  "mems_gates cfg s ax ay gx gy gz = Return s1 \<or> mems_gates cfg s ax ay gx gy gz = Continue s1
   \<Longrightarrow> accum_count s1 = accum_count s"
  by (auto simp: mems_gates_def Let_def split: if_splits)

lemma mems_step_dropped: "mems_ingress d = None \<Longrightarrow> update_mems cfg s now d = (s, Quiet)"
  by (simp add: update_mems_def)

lemma mems_step_warm:
  "mems_ingress d = Some (ax, ay, az, gx, gy, gz)
   \<Longrightarrow> int (accum_count s) + 1 < neutral_samples cfg
   \<Longrightarrow> update_mems cfg s now d
       = (s\<lparr>accum_x := accum_x s + ax, accum_y := accum_y s + ay, accum_z := accum_z s + az,
             accum_count := Suc (accum_count s)\<rparr>, Quiet)"
  by (simp add: update_mems_def mems_calibrate_def Let_def)

lemma mems_step_lock:
  "mems_ingress d = Some (ax, ay, az, gx, gy, gz)
   \<Longrightarrow> int (accum_count s) + 1 = neutral_samples cfg
   \<Longrightarrow> update_mems cfg s now d
       = (s\<lparr>accum_x := accum_x s + ax, accum_y := accum_y s + ay, accum_z := accum_z s + az,
             accum_count := Suc (accum_count s),
             neutral_x := (accum_x s + ax) / real (Suc (accum_count s)),
             neutral_y := (accum_y s + ay) / real (Suc (accum_count s)),
             neutral_z := (accum_z s + az) / real (Suc (accum_count s)),
             neutral_gx := Some gx, neutral_gy := Some gy, neutral_gz := Some gz\<rparr>,
          NeutralCaptured)"
  by (simp add: update_mems_def mems_calibrate_def Let_def)

lemma mems_step_locked:
  assumes "\<not> int (accum_count s) < neutral_samples cfg"
  shows "snd (update_mems cfg s now d) \<noteq> NeutralCaptured
       \<and> accum_count (fst (update_mems cfg s now d)) = accum_count s"
proof (cases "mems_ingress d")
  case None
  then show ?thesis by (simp add: update_mems_def)
next
  case (Some p)
  obtain ax ay az gx gy gz where p: "p = (ax, ay, az, gx, gy, gz)" by (cases p) auto
  show ?thesis
  proof (cases "now - last_update_ts s < update_interval_sec cfg")
    case True
    with assms Some p show ?thesis by (simp add: update_mems_def)
  next
    case False
    show ?thesis
    proof (cases "mems_gates cfg (s\<lparr>last_update_ts := now\<rparr>) ax ay gx gy gz")
      case (Return s1)
      with mems_gates_frame[of cfg "s\<lparr>last_update_ts := now\<rparr>" ax ay gx gy gz s1]
      have "accum_count s1 = accum_count s" by simp
      with assms Some p False Return show ?thesis by (simp add: update_mems_def)
    next
      case (Continue s1)
      with mems_gates_frame[of cfg "s\<lparr>last_update_ts := now\<rparr>" ax ay gx gy gz s1]
      have "accum_count s1 = accum_count s" by simp
      with assms Some p False Continue mems_shape_frame[of cfg s1 ax ay] show ?thesis
        by (simp add: update_mems_def)
    qed
  qed
qed

lemma mems_run_locked:
  "\<not> int (accum_count s) < neutral_samples cfg
   \<Longrightarrow> count_list (snd (run_mems cfg s ps)) NeutralCaptured = 0"
proof (induction ps arbitrary: s)
  case Nil
  show ?case by simp
next
  case (Cons p ps)
  obtain now d where p: "p = (now, d)" by (cases p)
  obtain s1 e where st: "update_mems cfg s now d = (s1, e)" by (cases "update_mems cfg s now d")
  obtain s2 es where rr: "run_mems cfg s1 ps = (s2, es)" by (cases "run_mems cfg s1 ps")
  from mems_step_locked[OF Cons.prems, of now d] st
  have "e \<noteq> NeutralCaptured" "accum_count s1 = accum_count s" by simp_all
  with Cons.IH[of s1] Cons.prems p st rr show ?case by simp
qed

lemma mems_run_idle:
  "accepted_mems ps = [] \<Longrightarrow> fst (run_mems cfg s ps) = s
     \<and> count_list (snd (run_mems cfg s ps)) NeutralCaptured = 0"
proof (induction ps)
  case Nil
  show ?case by simp
next
  case (Cons p ps)
  obtain now d where p: "p = (now, d)" by (cases p)
  from Cons.prems p have d: "mems_ingress d = None" and r: "accepted_mems ps = []"
    by (auto split: option.splits)
  obtain s2 es where rr: "run_mems cfg s ps = (s2, es)" by (cases "run_mems cfg s ps")
  from Cons.IH[OF r] rr p mems_step_dropped[OF d, of cfg s now] show ?case by simp
qed

lemma mems_run_exact:
  "int (accum_count s) + int (length (accepted_mems ps)) = neutral_samples cfg
   \<Longrightarrow> accepted_mems ps \<noteq> []
   \<Longrightarrow> neutral_x (fst (run_mems cfg s ps))
         = (accum_x s + sum_list (accel_xs (accepted_mems ps))) / real_of_int (neutral_samples cfg)
     \<and> neutral_y (fst (run_mems cfg s ps))
         = (accum_y s + sum_list (accel_ys (accepted_mems ps)))
             / real_of_int (neutral_samples cfg)
     \<and> neutral_z (fst (run_mems cfg s ps))
         = (accum_z s + sum_list (accel_zs (accepted_mems ps)))
             / real_of_int (neutral_samples cfg)
     \<and> count_list (snd (run_mems cfg s ps)) NeutralCaptured = 1"
proof (induction ps arbitrary: s)
  case Nil
  then show ?case by simp
next
  case (Cons p ps)
  obtain now d where p: "p = (now, d)" by (cases p)
  show ?case
  proof (cases "mems_ingress d")
    case None
    obtain s2 es where rr: "run_mems cfg s ps = (s2, es)" by (cases "run_mems cfg s ps")
    from None p Cons.prems have "int (accum_count s) + int (length (accepted_mems ps)) = neutral_samples cfg"
      "accepted_mems ps \<noteq> []" by simp_all
    from Cons.IH[OF this] rr p None mems_step_dropped[OF None, of cfg s now] show ?thesis
      by simp
  next
    case (Some q)
    obtain ax ay az gx gy gz where q: "q = (ax, ay, az, gx, gy, gz)" by (cases q) auto
    have acc: "accepted_mems (p # ps) = (ax, ay, az) # accepted_mems ps"
      using p Some q by simp
    show ?thesis
    proof (cases "accepted_mems ps = []")
      case True
      with Cons.prems(1) acc have n: "int (accum_count s) + 1 = neutral_samples cfg" by simp
      then have rn: "real (Suc (accum_count s)) = real_of_int (neutral_samples cfg)"
        by (metis of_int_of_nat_eq of_nat_Suc of_nat_1 of_nat_add add.commute int_ops(4) of_int_add of_int_1)
      define s1 where "s1 = fst (update_mems cfg s now d)"
      have st: "update_mems cfg s now d = (s1, NeutralCaptured)"
        and nx: "neutral_x s1 = (accum_x s + ax) / real (Suc (accum_count s))"
        and ny: "neutral_y s1 = (accum_y s + ay) / real (Suc (accum_count s))"
        and nz: "neutral_z s1 = (accum_z s + az) / real (Suc (accum_count s))"
        using mems_step_lock[OF Some[unfolded q] n, of now] by (simp_all add: s1_def)
      obtain s2 es where rr: "run_mems cfg s1 ps = (s2, es)" by (cases "run_mems cfg s1 ps")
      from mems_run_idle[OF True, of cfg s1] rr have "s2 = s1" "count_list es NeutralCaptured = 0"
        by simp_all
      with st rr p acc True nx ny nz rn show ?thesis by (simp add: accel_proj)
    next
      case False
      with Cons.prems(1) acc have n: "int (accum_count s) + 1 < neutral_samples cfg"
        by (cases "accepted_mems ps") auto
      define s1 where "s1 = s\<lparr>accum_x := accum_x s + ax, accum_y := accum_y s + ay,
        accum_z := accum_z s + az, accum_count := Suc (accum_count s)\<rparr>"
      have st: "update_mems cfg s now d = (s1, Quiet)"
        using mems_step_warm[OF Some[unfolded q] n, of now] by (simp add: s1_def)
      have "int (accum_count s1) + int (length (accepted_mems ps)) = neutral_samples cfg"
        using Cons.prems(1) acc by (simp add: s1_def)
      from Cons.IH[OF this False]
      have ih: "neutral_x (fst (run_mems cfg s1 ps))
                  = (accum_x s + ax + sum_list (accel_xs (accepted_mems ps)))
                      / real_of_int (neutral_samples cfg)"
        "neutral_y (fst (run_mems cfg s1 ps))
                  = (accum_y s + ay + sum_list (accel_ys (accepted_mems ps)))
                      / real_of_int (neutral_samples cfg)"
        "neutral_z (fst (run_mems cfg s1 ps))
                  = (accum_z s + az + sum_list (accel_zs (accepted_mems ps)))
                      / real_of_int (neutral_samples cfg)"
        "count_list (snd (run_mems cfg s1 ps)) NeutralCaptured = 1"
        by (simp_all add: s1_def)
      obtain s2 es where rr: "run_mems cfg s1 ps = (s2, es)" by (cases "run_mems cfg s1 ps")
      from ih rr st p acc show ?thesis by (simp add: accel_proj add.assoc)
    qed
  qed
qed

lemma mems_run_count:
  "int (accum_count s) < neutral_samples cfg
   \<Longrightarrow> count_list (snd (run_mems cfg s ps)) NeutralCaptured
         = (if neutral_samples cfg \<le> int (accum_count s) + int (length (accepted_mems ps))
            then 1 else 0)"
proof (induction ps arbitrary: s)
  case Nil
  then show ?case by simp
next
  case (Cons p ps)
  obtain now d where p: "p = (now, d)" by (cases p)
  show ?case
  proof (cases "mems_ingress d")
    case None
    obtain s2 es where rr: "run_mems cfg s ps = (s2, es)" by (cases "run_mems cfg s ps")
    from Cons.IH[OF Cons.prems] rr p None mems_step_dropped[OF None, of cfg s now] show ?thesis
      by simp
  next
    case (Some q)
    obtain ax ay az gx gy gz where q: "q = (ax, ay, az, gx, gy, gz)" by (cases q) auto
    have acc: "accepted_mems (p # ps) = (ax, ay, az) # accepted_mems ps"
      using p Some q by simp
    show ?thesis
    proof (cases "int (accum_count s) + 1 = neutral_samples cfg")
      case True
      define s1 where "s1 = fst (update_mems cfg s now d)"
      have st: "update_mems cfg s now d = (s1, NeutralCaptured)"
        and c1: "accum_count s1 = Suc (accum_count s)"
        using mems_step_lock[OF Some[unfolded q] True, of now] by (simp_all add: s1_def)
      from c1 True have "\<not> int (accum_count s1) < neutral_samples cfg" by simp
      from mems_run_locked[OF this, of ps]
      have z: "count_list (snd (run_mems cfg s1 ps)) NeutralCaptured = 0" .
      obtain s2 es where rr: "run_mems cfg s1 ps = (s2, es)" by (cases "run_mems cfg s1 ps")
      from z rr st p acc True show ?thesis by simp
    next
      case False
      with Cons.prems have n: "int (accum_count s) + 1 < neutral_samples cfg" by simp
      define s1 where "s1 = s\<lparr>accum_x := accum_x s + ax, accum_y := accum_y s + ay,
        accum_z := accum_z s + az, accum_count := Suc (accum_count s)\<rparr>"
      have st: "update_mems cfg s now d = (s1, Quiet)"
        using mems_step_warm[OF Some[unfolded q] n, of now] by (simp add: s1_def)
      have "int (accum_count s1) < neutral_samples cfg" using n by (simp add: s1_def)
      from Cons.IH[OF this]
      have ih: "count_list (snd (run_mems cfg s1 ps)) NeutralCaptured
         = (if neutral_samples cfg \<le> int (accum_count s) + 1 + int (length (accepted_mems ps))
            then 1 else 0)" by (simp add: s1_def)
      obtain s2 es where rr: "run_mems cfg s1 ps = (s2, es)" by (cases "run_mems cfg s1 ps")
      from ih rr st p acc show ?thesis by simp
    qed
  qed
qed

lemma online_shape_frame:
  "accum_count_on (fst (online_shape cfg s dx dy)) = accum_count_on s
   \<and> snd (online_shape cfg s dx dy) \<noteq> NeutralCaptured"
  by (simp add: online_shape_def Let_def emit_not_captured)

lemma online_gates_frame:
  "online_gates cfg s now gx gz = Return s1 \<or> online_gates cfg s now gx gz = Continue s1
   \<Longrightarrow> accum_count_on s1 = accum_count_on s"
  by (auto simp: online_gates_def online_fast_filter_def online_still_def online_center_def Let_def split: if_splits flow.splits)

lemma online_step_dropped: "gyro_ingress d = None \<Longrightarrow> update_mems_on cfg s now d = (s, Quiet)"
  by (simp add: update_mems_on_def)

lemma online_step_warm:
  "gyro_ingress d = Some (gx, gz)
   \<Longrightarrow> int (accum_count_on s) + 1 < neutral_samples_on cfg
   \<Longrightarrow> update_mems_on cfg s now d
       = (s\<lparr>accum_gx_on := accum_gx_on s + gx, accum_gz_on := accum_gz_on s + gz,
             accum_count_on := Suc (accum_count_on s)\<rparr>, Quiet)"
  by (simp add: update_mems_on_def online_calibrate_def Let_def)

lemma online_step_lock:
  "gyro_ingress d = Some (gx, gz)
   \<Longrightarrow> int (accum_count_on s) + 1 = neutral_samples_on cfg
   \<Longrightarrow> update_mems_on cfg s now d
       = (s\<lparr>accum_gx_on := accum_gx_on s + gx, accum_gz_on := accum_gz_on s + gz,
             accum_count_on := Suc (accum_count_on s),
             neutral_gx_on := (accum_gx_on s + gx) / real (Suc (accum_count_on s)),
             neutral_gz_on := (accum_gz_on s + gz) / real (Suc (accum_count_on s))\<rparr>,
          NeutralCaptured)"
  by (simp add: update_mems_on_def online_calibrate_def Let_def)

lemma online_step_locked:
  assumes "\<not> int (accum_count_on s) < neutral_samples_on cfg"
  shows "snd (update_mems_on cfg s now d) \<noteq> NeutralCaptured
       \<and> accum_count_on (fst (update_mems_on cfg s now d)) = accum_count_on s"
proof (cases "gyro_ingress d")
  case None
  then show ?thesis by (simp add: update_mems_on_def)
next
  case (Some p)
  obtain gx gz where p: "p = (gx, gz)" by (cases p) auto
  show ?thesis
  proof (cases "now - last_update_ts_on s < update_interval_sec_on cfg")
    case True
    with assms Some p show ?thesis by (simp add: update_mems_on_def)
  next
    case False
    show ?thesis
    proof (cases "online_gates cfg (s\<lparr>last_update_ts_on := now\<rparr>) now gx gz")
      case (Return s1)
      with online_gates_frame[of cfg "s\<lparr>last_update_ts_on := now\<rparr>" now gx gz s1]
      have "accum_count_on s1 = accum_count_on s" by simp
      with assms Some p False Return show ?thesis by (simp add: update_mems_on_def)
    next
      case (Continue s1)
      with online_gates_frame[of cfg "s\<lparr>last_update_ts_on := now\<rparr>" now gx gz s1]
      have "accum_count_on s1 = accum_count_on s" by simp
      with assms Some p False Continue
        online_shape_frame[of cfg s1 "gz - neutral_gz_on s" "gx - neutral_gx_on s"]
      show ?thesis by (simp add: update_mems_on_def)
    qed
  qed
qed

lemma online_run_locked:
  "\<not> int (accum_count_on s) < neutral_samples_on cfg
   \<Longrightarrow> count_list (snd (run_online cfg s ps)) NeutralCaptured = 0"
proof (induction ps arbitrary: s)
  case Nil
  show ?case by simp
next
  case (Cons p ps)
  obtain now d where p: "p = (now, d)" by (cases p)
  obtain s1 e where st: "update_mems_on cfg s now d = (s1, e)" by (cases "update_mems_on cfg s now d")
  obtain s2 es where rr: "run_online cfg s1 ps = (s2, es)" by (cases "run_online cfg s1 ps")
  from online_step_locked[OF Cons.prems, of now d] st
  have "e \<noteq> NeutralCaptured" "accum_count_on s1 = accum_count_on s" by simp_all
  with Cons.IH[of s1] Cons.prems p st rr show ?case by simp
qed

lemma online_run_idle:
  "accepted_gyro ps = [] \<Longrightarrow> fst (run_online cfg s ps) = s
     \<and> count_list (snd (run_online cfg s ps)) NeutralCaptured = 0"
proof (induction ps)
  case Nil
  show ?case by simp
next
  case (Cons p ps)
  obtain now d where p: "p = (now, d)" by (cases p)
  from Cons.prems p have d: "gyro_ingress d = None" and r: "accepted_gyro ps = []"
    by (auto split: option.splits)
  obtain s2 es where rr: "run_online cfg s ps = (s2, es)" by (cases "run_online cfg s ps")
  from Cons.IH[OF r] rr p online_step_dropped[OF d, of cfg s now] show ?case by simp
qed

lemma online_run_exact:
  "int (accum_count_on s) + int (length (accepted_gyro ps)) = neutral_samples_on cfg
   \<Longrightarrow> accepted_gyro ps \<noteq> []
   \<Longrightarrow> neutral_gx_on (fst (run_online cfg s ps))
         = (accum_gx_on s + sum_list (map fst (accepted_gyro ps)))
             / real_of_int (neutral_samples_on cfg)
     \<and> neutral_gz_on (fst (run_online cfg s ps))
         = (accum_gz_on s + sum_list (map snd (accepted_gyro ps)))
             / real_of_int (neutral_samples_on cfg)
     \<and> count_list (snd (run_online cfg s ps)) NeutralCaptured = 1"
proof (induction ps arbitrary: s)
  case Nil
  then show ?case by simp
next
  case (Cons p ps)
  obtain now d where p: "p = (now, d)" by (cases p)
  show ?case
  proof (cases "gyro_ingress d")
    case None
    obtain s2 es where rr: "run_online cfg s ps = (s2, es)" by (cases "run_online cfg s ps")
    from None p Cons.prems
    have "int (accum_count_on s) + int (length (accepted_gyro ps)) = neutral_samples_on cfg"
      "accepted_gyro ps \<noteq> []" by simp_all
    from Cons.IH[OF this] rr p None online_step_dropped[OF None, of cfg s now] show ?thesis
      by simp
  next
    case (Some q)
    obtain gx gz where q: "q = (gx, gz)" by (cases q) auto
    have acc: "accepted_gyro (p # ps) = (gx, gz) # accepted_gyro ps"
      using p Some q by simp
    show ?thesis
    proof (cases "accepted_gyro ps = []")
      case True
      with Cons.prems(1) acc have n: "int (accum_count_on s) + 1 = neutral_samples_on cfg"
        by simp
      then have rn: "real (Suc (accum_count_on s)) = real_of_int (neutral_samples_on cfg)"
        by (metis of_int_of_nat_eq of_nat_Suc of_nat_1 of_nat_add add.commute int_ops(4) of_int_add of_int_1)
      define s1 where "s1 = fst (update_mems_on cfg s now d)"
      have st: "update_mems_on cfg s now d = (s1, NeutralCaptured)"
        and nx: "neutral_gx_on s1 = (accum_gx_on s + gx) / real (Suc (accum_count_on s))"
        and nz: "neutral_gz_on s1 = (accum_gz_on s + gz) / real (Suc (accum_count_on s))"
        using online_step_lock[OF Some[unfolded q] n, of now] by (simp_all add: s1_def)
      obtain s2 es where rr: "run_online cfg s1 ps = (s2, es)" by (cases "run_online cfg s1 ps")
      from online_run_idle[OF True, of cfg s1] rr have "s2 = s1" "count_list es NeutralCaptured = 0"
        by simp_all
      with st rr p acc True nx nz rn show ?thesis by simp
    next
      case False
      with Cons.prems(1) acc have n: "int (accum_count_on s) + 1 < neutral_samples_on cfg"
        by (cases "accepted_gyro ps") auto
      define s1 where "s1 = s\<lparr>accum_gx_on := accum_gx_on s + gx,
        accum_gz_on := accum_gz_on s + gz, accum_count_on := Suc (accum_count_on s)\<rparr>"
      have st: "update_mems_on cfg s now d = (s1, Quiet)"
        using online_step_warm[OF Some[unfolded q] n, of now] by (simp add: s1_def)
      have "int (accum_count_on s1) + int (length (accepted_gyro ps)) = neutral_samples_on cfg"
        using Cons.prems(1) acc by (simp add: s1_def)
      from Cons.IH[OF this False]
      have ih: "neutral_gx_on (fst (run_online cfg s1 ps))
                  = (accum_gx_on s + gx + sum_list (map fst (accepted_gyro ps)))
                      / real_of_int (neutral_samples_on cfg)"
        "neutral_gz_on (fst (run_online cfg s1 ps))
                  = (accum_gz_on s + gz + sum_list (map snd (accepted_gyro ps)))
                      / real_of_int (neutral_samples_on cfg)"
        "count_list (snd (run_online cfg s1 ps)) NeutralCaptured = 1"
        by (simp_all add: s1_def)
      obtain s2 es where rr: "run_online cfg s1 ps = (s2, es)" by (cases "run_online cfg s1 ps")
      from ih rr st p acc show ?thesis by (simp add: add.assoc)
    qed
  qed
qed

lemma online_run_count:
  "int (accum_count_on s) < neutral_samples_on cfg
   \<Longrightarrow> count_list (snd (run_online cfg s ps)) NeutralCaptured
         = (if neutral_samples_on cfg \<le> int (accum_count_on s) + int (length (accepted_gyro ps))
            then 1 else 0)"
proof (induction ps arbitrary: s)
  case Nil
  then show ?case by simp
next
  case (Cons p ps)
  obtain now d where p: "p = (now, d)" by (cases p)
  show ?case
  proof (cases "gyro_ingress d")
    case None
    obtain s2 es where rr: "run_online cfg s ps = (s2, es)" by (cases "run_online cfg s ps")
    from Cons.IH[OF Cons.prems] rr p None online_step_dropped[OF None, of cfg s now] show ?thesis
      by simp
  next
    case (Some q)
    obtain gx gz where q: "q = (gx, gz)" by (cases q) auto
    have acc: "accepted_gyro (p # ps) = (gx, gz) # accepted_gyro ps"
      using p Some q by simp
    show ?thesis
    proof (cases "int (accum_count_on s) + 1 = neutral_samples_on cfg")
      case True
      define s1 where "s1 = fst (update_mems_on cfg s now d)"
      have st: "update_mems_on cfg s now d = (s1, NeutralCaptured)"
        and c1: "accum_count_on s1 = Suc (accum_count_on s)"
        using online_step_lock[OF Some[unfolded q] True, of now] by (simp_all add: s1_def)
      from c1 True have "\<not> int (accum_count_on s1) < neutral_samples_on cfg" by simp
      from online_run_locked[OF this, of ps]
      have z: "count_list (snd (run_online cfg s1 ps)) NeutralCaptured = 0" .
      obtain s2 es where rr: "run_online cfg s1 ps = (s2, es)" by (cases "run_online cfg s1 ps")
      from z rr st p acc True show ?thesis by simp
    next
      case False
      with Cons.prems have n: "int (accum_count_on s) + 1 < neutral_samples_on cfg" by simp
      define s1 where "s1 = s\<lparr>accum_gx_on := accum_gx_on s + gx,
        accum_gz_on := accum_gz_on s + gz, accum_count_on := Suc (accum_count_on s)\<rparr>"
      have st: "update_mems_on cfg s now d = (s1, Quiet)"
        using online_step_warm[OF Some[unfolded q] n, of now] by (simp add: s1_def)
      have "int (accum_count_on s1) < neutral_samples_on cfg" using n by (simp add: s1_def)
      from Cons.IH[OF this]
      have ih: "count_list (snd (run_online cfg s1 ps)) NeutralCaptured
         = (if neutral_samples_on cfg \<le> int (accum_count_on s) + 1 + int (length (accepted_gyro ps))
            then 1 else 0)" by (simp add: s1_def)
      obtain s2 es where rr: "run_online cfg s1 ps = (s2, es)" by (cases "run_online cfg s1 ps")
      from ih rr st p acc show ?thesis by simp
    qed
  qed
qed

lemma gyro_shape_frame:
  "accum_count_gm (fst (gyro_shape cfg s dx dy)) = accum_count_gm s
   \<and> snd (gyro_shape cfg s dx dy) \<noteq> NeutralCaptured"
  by (simp add: gyro_shape_def Let_def emit_not_captured)

lemma gyro_gates_frame:
  "gyro_gates cfg s now gx gz = Return s1 \<or> gyro_gates cfg s now gx gz = Continue s1
   \<Longrightarrow> accum_count_gm s1 = accum_count_gm s"
  by (auto simp: gyro_gates_def gyro_still_def gyro_center_def Let_def split: if_splits flow.splits)

lemma gyro_step_dropped: "gyro_ingress d = None \<Longrightarrow> update_mems_gm cfg s now d = (s, Quiet)"
  by (simp add: update_mems_gm_def)

lemma gyro_step_warm:
  "gyro_ingress d = Some (gx, gz)
   \<Longrightarrow> int (accum_count_gm s) + 1 < neutral_samples_gm cfg
   \<Longrightarrow> update_mems_gm cfg s now d
       = (s\<lparr>accum_gx_gm := accum_gx_gm s + gx, accum_gz_gm := accum_gz_gm s + gz,
             accum_count_gm := Suc (accum_count_gm s)\<rparr>, Quiet)"
  by (simp add: update_mems_gm_def gyro_calibrate_def Let_def)

lemma gyro_step_lock:
  "gyro_ingress d = Some (gx, gz)
   \<Longrightarrow> int (accum_count_gm s) + 1 = neutral_samples_gm cfg
   \<Longrightarrow> update_mems_gm cfg s now d
       = (s\<lparr>accum_gx_gm := accum_gx_gm s + gx, accum_gz_gm := accum_gz_gm s + gz,
             accum_count_gm := Suc (accum_count_gm s),
             neutral_gx_gm := (accum_gx_gm s + gx) / real (Suc (accum_count_gm s)),
             neutral_gz_gm := (accum_gz_gm s + gz) / real (Suc (accum_count_gm s))\<rparr>,
          NeutralCaptured)"
  by (simp add: update_mems_gm_def gyro_calibrate_def Let_def)

lemma gyro_step_locked:
  assumes "\<not> int (accum_count_gm s) < neutral_samples_gm cfg"
  shows "snd (update_mems_gm cfg s now d) \<noteq> NeutralCaptured
       \<and> accum_count_gm (fst (update_mems_gm cfg s now d)) = accum_count_gm s"
proof (cases "gyro_ingress d")
  case None
  then show ?thesis by (simp add: update_mems_gm_def)
next
  case (Some p)
  obtain gx gz where p: "p = (gx, gz)" by (cases p) auto
  show ?thesis
  proof (cases "now - last_update_ts_gm s < update_interval_sec_gm cfg")
    case True
    with assms Some p show ?thesis by (simp add: update_mems_gm_def)
  next
    case False
    show ?thesis
    proof (cases "gyro_gates cfg (s\<lparr>last_update_ts_gm := now\<rparr>) now gx gz")
      case (Return s1)
      with gyro_gates_frame[of cfg "s\<lparr>last_update_ts_gm := now\<rparr>" now gx gz s1]
      have "accum_count_gm s1 = accum_count_gm s" by simp
      with assms Some p False Return show ?thesis by (simp add: update_mems_gm_def)
    next
      case (Continue s1)
      with gyro_gates_frame[of cfg "s\<lparr>last_update_ts_gm := now\<rparr>" now gx gz s1]
      have "accum_count_gm s1 = accum_count_gm s" by simp
      with assms Some p False Continue
        gyro_shape_frame[of cfg s1 "gz - neutral_gz_gm s" "gx - neutral_gx_gm s"]
      show ?thesis by (simp add: update_mems_gm_def)
    qed
  qed
qed

lemma gyro_run_locked:
  "\<not> int (accum_count_gm s) < neutral_samples_gm cfg
   \<Longrightarrow> count_list (snd (run_gyro cfg s ps)) NeutralCaptured = 0"
proof (induction ps arbitrary: s)
  case Nil
  show ?case by simp
next
  case (Cons p ps)
  obtain now d where p: "p = (now, d)" by (cases p)
  obtain s1 e where st: "update_mems_gm cfg s now d = (s1, e)" by (cases "update_mems_gm cfg s now d")
  obtain s2 es where rr: "run_gyro cfg s1 ps = (s2, es)" by (cases "run_gyro cfg s1 ps")
  from gyro_step_locked[OF Cons.prems, of now d] st
  have "e \<noteq> NeutralCaptured" "accum_count_gm s1 = accum_count_gm s" by simp_all
  with Cons.IH[of s1] Cons.prems p st rr show ?case by simp
qed

lemma gyro_run_idle:
  "accepted_gyro ps = [] \<Longrightarrow> fst (run_gyro cfg s ps) = s
     \<and> count_list (snd (run_gyro cfg s ps)) NeutralCaptured = 0"
proof (induction ps)
  case Nil
  show ?case by simp
next
  case (Cons p ps)
  obtain now d where p: "p = (now, d)" by (cases p)
  from Cons.prems p have d: "gyro_ingress d = None" and r: "accepted_gyro ps = []"
    by (auto split: option.splits)
  obtain s2 es where rr: "run_gyro cfg s ps = (s2, es)" by (cases "run_gyro cfg s ps")
  from Cons.IH[OF r] rr p gyro_step_dropped[OF d, of cfg s now] show ?case by simp
qed

lemma gyro_run_exact:
  "int (accum_count_gm s) + int (length (accepted_gyro ps)) = neutral_samples_gm cfg
   \<Longrightarrow> accepted_gyro ps \<noteq> []
   \<Longrightarrow> neutral_gx_gm (fst (run_gyro cfg s ps))
         = (accum_gx_gm s + sum_list (map fst (accepted_gyro ps)))
             / real_of_int (neutral_samples_gm cfg)
     \<and> neutral_gz_gm (fst (run_gyro cfg s ps))
         = (accum_gz_gm s + sum_list (map snd (accepted_gyro ps)))
             / real_of_int (neutral_samples_gm cfg)
     \<and> count_list (snd (run_gyro cfg s ps)) NeutralCaptured = 1"
proof (induction ps arbitrary: s)
  case Nil
  then show ?case by simp
next
  case (Cons p ps)
  obtain now d where p: "p = (now, d)" by (cases p)
  show ?case
  proof (cases "gyro_ingress d")
    case None
    obtain s2 es where rr: "run_gyro cfg s ps = (s2, es)" by (cases "run_gyro cfg s ps")
    from None p Cons.prems
    have "int (accum_count_gm s) + int (length (accepted_gyro ps)) = neutral_samples_gm cfg"
      "accepted_gyro ps \<noteq> []" by simp_all
    from Cons.IH[OF this] rr p None gyro_step_dropped[OF None, of cfg s now] show ?thesis
      by simp
  next
    case (Some q)
    obtain gx gz where q: "q = (gx, gz)" by (cases q) auto
    have acc: "accepted_gyro (p # ps) = (gx, gz) # accepted_gyro ps"
      using p Some q by simp
    show ?thesis
    proof (cases "accepted_gyro ps = []")
      case True
      with Cons.prems(1) acc have n: "int (accum_count_gm s) + 1 = neutral_samples_gm cfg"
        by simp
      then have rn: "real (Suc (accum_count_gm s)) = real_of_int (neutral_samples_gm cfg)"
        by (metis of_int_of_nat_eq of_nat_Suc of_nat_1 of_nat_add add.commute int_ops(4) of_int_add of_int_1)
      define s1 where "s1 = fst (update_mems_gm cfg s now d)"
      have st: "update_mems_gm cfg s now d = (s1, NeutralCaptured)"
        and nx: "neutral_gx_gm s1 = (accum_gx_gm s + gx) / real (Suc (accum_count_gm s))"
        and nz: "neutral_gz_gm s1 = (accum_gz_gm s + gz) / real (Suc (accum_count_gm s))"
        using gyro_step_lock[OF Some[unfolded q] n, of now] by (simp_all add: s1_def)
      obtain s2 es where rr: "run_gyro cfg s1 ps = (s2, es)" by (cases "run_gyro cfg s1 ps")
      from gyro_run_idle[OF True, of cfg s1] rr have "s2 = s1" "count_list es NeutralCaptured = 0"
        by simp_all
      with st rr p acc True nx nz rn show ?thesis by simp
    next
      case False
      with Cons.prems(1) acc have n: "int (accum_count_gm s) + 1 < neutral_samples_gm cfg"
        by (cases "accepted_gyro ps") auto
      define s1 where "s1 = s\<lparr>accum_gx_gm := accum_gx_gm s + gx,
        accum_gz_gm := accum_gz_gm s + gz, accum_count_gm := Suc (accum_count_gm s)\<rparr>"
      have st: "update_mems_gm cfg s now d = (s1, Quiet)"
        using gyro_step_warm[OF Some[unfolded q] n, of now] by (simp add: s1_def)
      have "int (accum_count_gm s1) + int (length (accepted_gyro ps)) = neutral_samples_gm cfg"
        using Cons.prems(1) acc by (simp add: s1_def)
      from Cons.IH[OF this False]
      have ih: "neutral_gx_gm (fst (run_gyro cfg s1 ps))
                  = (accum_gx_gm s + gx + sum_list (map fst (accepted_gyro ps)))
                      / real_of_int (neutral_samples_gm cfg)"
        "neutral_gz_gm (fst (run_gyro cfg s1 ps))
                  = (accum_gz_gm s + gz + sum_list (map snd (accepted_gyro ps)))
                      / real_of_int (neutral_samples_gm cfg)"
        "count_list (snd (run_gyro cfg s1 ps)) NeutralCaptured = 1"
        by (simp_all add: s1_def)
      obtain s2 es where rr: "run_gyro cfg s1 ps = (s2, es)" by (cases "run_gyro cfg s1 ps")
      from ih rr st p acc show ?thesis by (simp add: add.assoc)
    qed
  qed
qed

lemma gyro_run_count:
  "int (accum_count_gm s) < neutral_samples_gm cfg
   \<Longrightarrow> count_list (snd (run_gyro cfg s ps)) NeutralCaptured
         = (if neutral_samples_gm cfg \<le> int (accum_count_gm s) + int (length (accepted_gyro ps))
            then 1 else 0)"
proof (induction ps arbitrary: s)
  case Nil
  then show ?case by simp
next
  case (Cons p ps)
  obtain now d where p: "p = (now, d)" by (cases p)
  show ?case
  proof (cases "gyro_ingress d")
    case None
    obtain s2 es where rr: "run_gyro cfg s ps = (s2, es)" by (cases "run_gyro cfg s ps")
    from Cons.IH[OF Cons.prems] rr p None gyro_step_dropped[OF None, of cfg s now] show ?thesis
      by simp
  next
    case (Some q)
    obtain gx gz where q: "q = (gx, gz)" by (cases q) auto
    have acc: "accepted_gyro (p # ps) = (gx, gz) # accepted_gyro ps"
      using p Some q by simp
    show ?thesis
    proof (cases "int (accum_count_gm s) + 1 = neutral_samples_gm cfg")
      case True
      define s1 where "s1 = fst (update_mems_gm cfg s now d)"
      have st: "update_mems_gm cfg s now d = (s1, NeutralCaptured)"
        and c1: "accum_count_gm s1 = Suc (accum_count_gm s)"
        using gyro_step_lock[OF Some[unfolded q] True, of now] by (simp_all add: s1_def)
      from c1 True have "\<not> int (accum_count_gm s1) < neutral_samples_gm cfg" by simp
      from gyro_run_locked[OF this, of ps]
      have z: "count_list (snd (run_gyro cfg s1 ps)) NeutralCaptured = 0" .
      obtain s2 es where rr: "run_gyro cfg s1 ps = (s2, es)" by (cases "run_gyro cfg s1 ps")
      from z rr st p acc True show ?thesis by simp
    next
      case False
      with Cons.prems have n: "int (accum_count_gm s) + 1 < neutral_samples_gm cfg" by simp
      define s1 where "s1 = s\<lparr>accum_gx_gm := accum_gx_gm s + gx,
        accum_gz_gm := accum_gz_gm s + gz, accum_count_gm := Suc (accum_count_gm s)\<rparr>"
      have st: "update_mems_gm cfg s now d = (s1, Quiet)"
        using gyro_step_warm[OF Some[unfolded q] n, of now] by (simp add: s1_def)
      have "int (accum_count_gm s1) < neutral_samples_gm cfg" using n by (simp add: s1_def)
      from Cons.IH[OF this]
      have ih: "count_list (snd (run_gyro cfg s1 ps)) NeutralCaptured
         = (if neutral_samples_gm cfg \<le> int (accum_count_gm s) + 1 + int (length (accepted_gyro ps))
            then 1 else 0)" by (simp add: s1_def)
      obtain s2 es where rr: "run_gyro cfg s1 ps = (s2, es)" by (cases "run_gyro cfg s1 ps")
      from ih rr st p acc show ?thesis by simp
    qed
  qed
qed

lemma mean_of_sum:
  "int (length xs) = n \<Longrightarrow> (0 + sum_list xs) / real_of_int n = mean xs"
  by (auto simp: mean_def)

lemma accel_lengths:
  "length (accel_xs as) = length as" "length (accel_ys as) = length as"
  "length (accel_zs as) = length as"
  by (simp_all add: accel_xs_def accel_ys_def accel_zs_def)

lemma init_accums:
  "accum_x mems_init = 0" "accum_y mems_init = 0" "accum_z mems_init = 0"
  "accum_count mems_init = 0"
  "accum_gx_on online_init = 0" "accum_gz_on online_init = 0" "accum_count_on online_init = 0"
  "accum_gx_gm gyro_init = 0" "accum_gz_gm gyro_init = 0" "accum_count_gm gyro_init = 0"
  by (simp_all add: mems_init_def online_init_def gyro_init_def)

lemma mems_baseline:
  assumes "1 \<le> neutral_samples cfg" and "int (length (accepted_mems ps)) = neutral_samples cfg"
  shows "neutral_x (fst (run_mems cfg mems_init ps)) = mean (accel_xs (accepted_mems ps))
       \<and> neutral_y (fst (run_mems cfg mems_init ps)) = mean (accel_ys (accepted_mems ps))
       \<and> neutral_z (fst (run_mems cfg mems_init ps)) = mean (accel_zs (accepted_mems ps))
       \<and> count_list (snd (run_mems cfg mems_init ps)) NeutralCaptured = 1"
proof -
  from assms have ne: "accepted_mems ps \<noteq> []" by auto
  from assms(2) have "int (accum_count mems_init) + int (length (accepted_mems ps)) = neutral_samples cfg"
    by (simp add: init_accums)
  from mems_run_exact[OF this ne] assms(2) show ?thesis
    by (simp add: init_accums mean_of_sum[simplified] accel_lengths)
qed

lemma online_baseline:
  assumes "1 \<le> neutral_samples_on cfg"
    and "int (length (accepted_gyro ps)) = neutral_samples_on cfg"
  shows "neutral_gx_on (fst (run_online cfg online_init ps)) = mean (map fst (accepted_gyro ps))
       \<and> neutral_gz_on (fst (run_online cfg online_init ps)) = mean (map snd (accepted_gyro ps))
       \<and> count_list (snd (run_online cfg online_init ps)) NeutralCaptured = 1"
proof -
  from assms have ne: "accepted_gyro ps \<noteq> []" by auto
  from assms(2)
  have "int (accum_count_on online_init) + int (length (accepted_gyro ps)) = neutral_samples_on cfg"
    by (simp add: init_accums)
  from online_run_exact[OF this ne] assms(2) show ?thesis
    by (simp add: init_accums mean_of_sum[simplified])
qed

lemma gyro_baseline:
  assumes "1 \<le> neutral_samples_gm cfg"
    and "int (length (accepted_gyro ps)) = neutral_samples_gm cfg"
  shows "neutral_gx_gm (fst (run_gyro cfg gyro_init ps)) = mean (map fst (accepted_gyro ps))
       \<and> neutral_gz_gm (fst (run_gyro cfg gyro_init ps)) = mean (map snd (accepted_gyro ps))
       \<and> count_list (snd (run_gyro cfg gyro_init ps)) NeutralCaptured = 1"
proof -
  from assms have ne: "accepted_gyro ps \<noteq> []" by auto
  from assms(2)
  have "int (accum_count_gm gyro_init) + int (length (accepted_gyro ps)) = neutral_samples_gm cfg"
    by (simp add: init_accums)
  from gyro_run_exact[OF this ne] assms(2) show ?thesis
    by (simp add: init_accums mean_of_sum[simplified])
qed

lemma lock_reported_once:
  "1 \<le> neutral_samples cfg \<Longrightarrow>
     count_list (snd (run_mems cfg mems_init qs)) NeutralCaptured
       = (if neutral_samples cfg \<le> int (length (accepted_mems qs)) then 1 else 0)"
  "1 \<le> neutral_samples_on cfgo \<Longrightarrow>
     count_list (snd (run_online cfgo online_init qs)) NeutralCaptured
       = (if neutral_samples_on cfgo \<le> int (length (accepted_gyro qs)) then 1 else 0)"
  "1 \<le> neutral_samples_gm cfgg \<Longrightarrow>
     count_list (snd (run_gyro cfgg gyro_init qs)) NeutralCaptured
       = (if neutral_samples_gm cfgg \<le> int (length (accepted_gyro qs)) then 1 else 0)"
  using mems_run_count[of mems_init cfg qs] online_run_count[of online_init cfgo qs]
    gyro_run_count[of gyro_init cfgg qs]
  by (simp_all add: init_accums)

text \<open>
  Claim C3. For each controller and every \<open>neutral_samples = N \<ge> 1\<close>: over a run of
  packets from the initial state that holds exactly \<open>N\<close> accepted samples (dropped
  packets may lie anywhere between them), the neutral of each calibrated axis
  (accelerometer X, Y, Z for \<open>MemsMouseMode\<close>; gyroscope X, Z for the gyroscope
  controllers) is the arithmetic mean of those \<open>N\<close> samples and the capture is reported
  once. Over any run \<open>qs\<close>, however long, the capture is reported once if the run holds at
  least \<open>N\<close> accepted samples and never otherwise.
\<close>

theorem calibration_baseline_is_mean:
  "(1 \<le> neutral_samples cfg \<and> int (length (accepted_mems ps)) = neutral_samples cfg
     \<longrightarrow> neutral_x (fst (run_mems cfg mems_init ps)) = mean (accel_xs (accepted_mems ps))
       \<and> neutral_y (fst (run_mems cfg mems_init ps)) = mean (accel_ys (accepted_mems ps))
       \<and> neutral_z (fst (run_mems cfg mems_init ps)) = mean (accel_zs (accepted_mems ps))
       \<and> count_list (snd (run_mems cfg mems_init ps)) NeutralCaptured = 1)
   \<and> (1 \<le> neutral_samples_on cfgo \<and> int (length (accepted_gyro ps)) = neutral_samples_on cfgo
     \<longrightarrow> neutral_gx_on (fst (run_online cfgo online_init ps)) = mean (map fst (accepted_gyro ps))
       \<and> neutral_gz_on (fst (run_online cfgo online_init ps)) = mean (map snd (accepted_gyro ps))
       \<and> count_list (snd (run_online cfgo online_init ps)) NeutralCaptured = 1)
   \<and> (1 \<le> neutral_samples_gm cfgg \<and> int (length (accepted_gyro ps)) = neutral_samples_gm cfgg
     \<longrightarrow> neutral_gx_gm (fst (run_gyro cfgg gyro_init ps)) = mean (map fst (accepted_gyro ps))
       \<and> neutral_gz_gm (fst (run_gyro cfgg gyro_init ps)) = mean (map snd (accepted_gyro ps))
       \<and> count_list (snd (run_gyro cfgg gyro_init ps)) NeutralCaptured = 1)
   \<and> (1 \<le> neutral_samples cfg
     \<longrightarrow> count_list (snd (run_mems cfg mems_init qs)) NeutralCaptured
           = (if neutral_samples cfg \<le> int (length (accepted_mems qs)) then 1 else 0))
   \<and> (1 \<le> neutral_samples_on cfgo
     \<longrightarrow> count_list (snd (run_online cfgo online_init qs)) NeutralCaptured
           = (if neutral_samples_on cfgo \<le> int (length (accepted_gyro qs)) then 1 else 0))
   \<and> (1 \<le> neutral_samples_gm cfgg
     \<longrightarrow> count_list (snd (run_gyro cfgg gyro_init qs)) NeutralCaptured
           = (if neutral_samples_gm cfgg \<le> int (length (accepted_gyro qs)) then 1 else 0))"
  using mems_baseline[of cfg ps] online_baseline[of cfgo ps] gyro_baseline[of cfgg ps]
    lock_reported_once(1)[of cfg qs] lock_reported_once(2)[of cfgo qs]
    lock_reported_once(3)[of cfgg qs]
  by blast

lemma dropped_packets:
  "mems_ingress nan_accel_packet = None" "gyro_ingress inf_gyro_packet = None"
  by (simp_all add: nan_accel_packet_def inf_gyro_packet_def mems_ingress_def gyro_ingress_def)

lemma calib_run_accepted:
  "accepted_mems calib_run_mems = [(1, 2, 3), (3, 4, 5)]"
  "accepted_gyro calib_run_gyro = [(1, 2), (3, 4)]"
  "accepted_gyro (calib_run_gyro @ calib_run_gyro) = [(1, 2), (3, 4), (1, 2), (3, 4)]"
  "accepted_mems (calib_run_mems @ calib_run_mems) = [(1, 2, 3), (3, 4, 5), (1, 2, 3), (3, 4, 5)]"
  by (simp_all add: calib_run_mems_def calib_run_gyro_def mems_ingress_sample
      gyro_ingress_sample dropped_packets)

theorem calibration_baseline_is_mean_witness:
  "1 \<le> neutral_samples (default_mems_config\<lparr>neutral_samples := 2\<rparr>)
   \<and> int (length (accepted_mems calib_run_mems))
       = neutral_samples (default_mems_config\<lparr>neutral_samples := 2\<rparr>)
   \<and> neutral_x (fst (run_mems (default_mems_config\<lparr>neutral_samples := 2\<rparr>) mems_init
                      calib_run_mems)) = 2
   \<and> neutral_y (fst (run_mems (default_mems_config\<lparr>neutral_samples := 2\<rparr>) mems_init
                      calib_run_mems)) = 3
   \<and> neutral_z (fst (run_mems (default_mems_config\<lparr>neutral_samples := 2\<rparr>) mems_init
                      calib_run_mems)) = 4
   \<and> count_list (snd (run_mems (default_mems_config\<lparr>neutral_samples := 2\<rparr>) mems_init
                       calib_run_mems)) NeutralCaptured = 1
   \<and> 1 \<le> neutral_samples_on (default_online_config\<lparr>neutral_samples_on := 2\<rparr>)
   \<and> int (length (accepted_gyro calib_run_gyro))
       = neutral_samples_on (default_online_config\<lparr>neutral_samples_on := 2\<rparr>)
   \<and> neutral_gx_on (fst (run_online (default_online_config\<lparr>neutral_samples_on := 2\<rparr>)
                          online_init calib_run_gyro)) = 2
   \<and> neutral_gz_on (fst (run_online (default_online_config\<lparr>neutral_samples_on := 2\<rparr>)
                          online_init calib_run_gyro)) = 3
   \<and> 1 \<le> neutral_samples_gm (sample_gyro_config\<lparr>neutral_samples_gm := 2\<rparr>)
   \<and> int (length (accepted_gyro calib_run_gyro))
       = neutral_samples_gm (sample_gyro_config\<lparr>neutral_samples_gm := 2\<rparr>)
   \<and> neutral_gx_gm (fst (run_gyro (sample_gyro_config\<lparr>neutral_samples_gm := 2\<rparr>)
                          gyro_init calib_run_gyro)) = 2
   \<and> neutral_gz_gm (fst (run_gyro (sample_gyro_config\<lparr>neutral_samples_gm := 2\<rparr>)
                          gyro_init calib_run_gyro)) = 3
   \<and> count_list (snd (run_mems (default_mems_config\<lparr>neutral_samples := 2\<rparr>) mems_init
                       (calib_run_mems @ calib_run_mems))) NeutralCaptured = 1
   \<and> count_list (snd (run_online (default_online_config\<lparr>neutral_samples_on := 2\<rparr>)
                       online_init (calib_run_gyro @ calib_run_gyro))) NeutralCaptured = 1
   \<and> count_list (snd (run_gyro (sample_gyro_config\<lparr>neutral_samples_gm := 2\<rparr>)
                       gyro_init (calib_run_gyro @ calib_run_gyro))) NeutralCaptured = 1"
  using calibration_baseline_is_mean[where cfg = "default_mems_config\<lparr>neutral_samples := 2\<rparr>"
          and ps = calib_run_mems and qs = "calib_run_mems @ calib_run_mems"]
    calibration_baseline_is_mean[where cfgo = "default_online_config\<lparr>neutral_samples_on := 2\<rparr>"
          and cfgg = "sample_gyro_config\<lparr>neutral_samples_gm := 2\<rparr>"
          and ps = calib_run_gyro and qs = "calib_run_gyro @ calib_run_gyro"]
  by (simp add: calib_run_accepted mean_def accel_proj)

subsection \<open>Dead zone\<close>

lemma disp_emit: "disp_x (emit a b) = a" "disp_y (emit a b) = b"
  by (auto simp: disp_x_def disp_y_def emit_def)

lemma disp_idle:
  "disp_x Quiet = 0" "disp_y Quiet = 0" "disp_x NeutralCaptured = 0" "disp_y NeutralCaptured = 0"
  by (simp_all add: disp_x_def disp_y_def)

lemma clamp_step_zero: "0 \<le> m \<Longrightarrow> clamp_step m 0 = 0"
  by (simp add: clamp_step_def)

lemma brake_zero: "brake k e 0 = 0"
  by (simp add: brake_def)

lemma curve_zero: "joystick_curve dz 0 = 0" "stick_curve 0 = 0"
  by (simp_all add: joystick_curve_def stick_curve_def)

lemma mems_calibrate_disp:
  "disp_x (snd (mems_calibrate cfg s ax ay az gx gy gz)) = 0"
  "disp_y (snd (mems_calibrate cfg s ax ay az gx gy gz)) = 0"
  by (simp_all add: mems_calibrate_def Let_def disp_idle)

lemma online_calibrate_disp:
  "disp_x (snd (online_calibrate cfg s gx gz)) = 0"
  "disp_y (snd (online_calibrate cfg s gx gz)) = 0"
  by (simp_all add: online_calibrate_def Let_def disp_idle)

lemma gyro_calibrate_disp:
  "disp_x (snd (gyro_calibrate cfg s gx gz)) = 0"
  "disp_y (snd (gyro_calibrate cfg s gx gz)) = 0"
  by (simp_all add: gyro_calibrate_def Let_def disp_idle)

text \<open>The gates leave the neutral alone and keep a zero velocity at zero.\<close>

lemma mems_gates_continue:
  assumes "mems_gates cfg s ax ay gx gy gz = Continue s1"
  shows "neutral_x s1 = neutral_x s" "neutral_y s1 = neutral_y s"
    "vx_g s = 0 \<Longrightarrow> vx_g s1 = 0" "vy_g s = 0 \<Longrightarrow> vy_g s1 = 0"
  using assms by (auto simp: mems_gates_def Let_def brake_zero split: if_splits)

lemma online_gates_continue:
  assumes "online_gates cfg s now gx gz = Continue s1"
  shows "vx_on s1 = vx_on s" "vy_on s1 = vy_on s"
  using assms
  by (auto simp: online_gates_def online_fast_filter_def online_still_def online_center_def
      split: if_splits flow.splits)

lemma gyro_gates_continue:
  assumes "gyro_gates cfg s now gx gz = Continue s1"
  shows "vx_gm s = 0 \<Longrightarrow> vx_gm s1 = 0" "vy_gm s = 0 \<Longrightarrow> vy_gm s1 = 0"
  using assms
  by (auto simp: gyro_gates_def gyro_still_def gyro_center_def Let_def brake_zero
      split: if_splits flow.splits)

lemma mems_recenter_neutral:
  "neutral_x s1 = neutral_x s \<Longrightarrow> neutral_y s1 = neutral_y s
   \<Longrightarrow> neutral_x (mems_recenter cfg s1 ax ay) = neutral_x (mems_recenter cfg s ax ay)
     \<and> neutral_y (mems_recenter cfg s1 ax ay) = neutral_y (mems_recenter cfg s ax ay)"
  by (simp add: mems_recenter_def Let_def)

lemma mems_recenter_velocity:
  "vx_g (mems_recenter cfg s ax ay) = vx_g s" "vy_g (mems_recenter cfg s ax ay) = vy_g s"
  by (simp_all add: mems_recenter_def Let_def)

text \<open>The shaping stage on an axis that rests in the dead zone with no velocity.\<close>

lemma mems_shape_dead_x:
  assumes "0 \<le> max_step_px cfg" and "vx_g s = 0"
    and "\<bar>ax - neutral_x (mems_recenter cfg s ax ay)\<bar> < deadzone_g cfg"
  shows "(if swap_axes cfg then disp_y else disp_x) (snd (mems_shape cfg s ax ay)) = 0"
  using assms
  by (simp add: mems_shape_def Let_def split_beta dead_zone_def curve_zero disp_emit
      clamp_step_zero mems_recenter_velocity)

lemma mems_shape_dead_y:
  assumes "0 \<le> max_step_px cfg" and "vy_g s = 0"
    and "\<bar>ay - neutral_y (mems_recenter cfg s ax ay)\<bar> < deadzone_g cfg"
  shows "(if swap_axes cfg then disp_x else disp_y) (snd (mems_shape cfg s ax ay)) = 0"
  using assms
  by (simp add: mems_shape_def Let_def split_beta dead_zone_def curve_zero disp_emit
      clamp_step_zero mems_recenter_velocity)

lemma online_shape_dead:
  assumes "0 \<le> max_step_px_on cfg"
  shows "vx_on s = 0 \<Longrightarrow> \<bar>dx\<bar> < deadzone_deg_on cfg \<Longrightarrow> disp_x (snd (online_shape cfg s dx dy)) = 0"
    and "vy_on s = 0 \<Longrightarrow> \<bar>dy\<bar> < deadzone_deg_on cfg \<Longrightarrow> disp_y (snd (online_shape cfg s dx dy)) = 0"
  using assms
  by (simp_all add: online_shape_def Let_def dead_zone_def disp_emit clamp_step_zero)

lemma gyro_shape_dead:
  assumes "0 \<le> max_step_px_gm cfg"
  shows "vx_gm s = 0 \<Longrightarrow> \<bar>dx\<bar> < deadzone_deg_gm cfg \<Longrightarrow> disp_x (snd (gyro_shape cfg s dx dy)) = 0"
    and "vy_gm s = 0 \<Longrightarrow> \<bar>dy\<bar> < deadzone_deg_gm cfg \<Longrightarrow> disp_y (snd (gyro_shape cfg s dx dy)) = 0"
  using assms
  by (simp_all add: gyro_shape_def Let_def dead_zone_def disp_emit clamp_step_zero curve_zero)

text \<open>
  Every call of \<open>update_mems\<close> either moves nothing or ends in the shaping stage, entered
  from a state the gates let through.
\<close>

lemma update_mems_cases:
  assumes "mems_ingress data = Some (ax, ay, az, gx, gy, gz)"
  shows "(disp_x (snd (update_mems cfg s now data)) = 0
            \<and> disp_y (snd (update_mems cfg s now data)) = 0)
       \<or> (\<exists>s1. mems_gates cfg (s\<lparr>last_update_ts := now\<rparr>) ax ay gx gy gz = Continue s1
              \<and> update_mems cfg s now data = mems_shape cfg s1 ax ay)"
proof (cases "int (accum_count s) < neutral_samples cfg")
  case True
  with assms show ?thesis by (simp add: update_mems_def mems_calibrate_disp)
next
  case False
  show ?thesis
  proof (cases "now - last_update_ts s < update_interval_sec cfg")
    case True
    with assms False show ?thesis by (simp add: update_mems_def disp_idle)
  next
    case late: False
    show ?thesis
    proof (cases "mems_gates cfg (s\<lparr>last_update_ts := now\<rparr>) ax ay gx gy gz")
      case (Return s1)
      with assms False late show ?thesis by (simp add: update_mems_def disp_idle)
    next
      case (Continue s1)
      with assms False late show ?thesis by (simp add: update_mems_def)
    qed
  qed
qed

lemma update_mems_on_cases:
  assumes "gyro_ingress data = Some (gx, gz)"
  shows "(disp_x (snd (update_mems_on cfg s now data)) = 0
            \<and> disp_y (snd (update_mems_on cfg s now data)) = 0)
       \<or> (\<exists>s1. online_gates cfg (s\<lparr>last_update_ts_on := now\<rparr>) now gx gz = Continue s1
              \<and> update_mems_on cfg s now data
                  = online_shape cfg s1 (gz - neutral_gz_on s) (gx - neutral_gx_on s))"
proof (cases "int (accum_count_on s) < neutral_samples_on cfg")
  case True
  with assms show ?thesis by (simp add: update_mems_on_def online_calibrate_disp)
next
  case False
  show ?thesis
  proof (cases "now - last_update_ts_on s < update_interval_sec_on cfg")
    case True
    with assms False show ?thesis by (simp add: update_mems_on_def disp_idle)
  next
    case late: False
    show ?thesis
    proof (cases "online_gates cfg (s\<lparr>last_update_ts_on := now\<rparr>) now gx gz")
      case (Return s1)
      with assms False late show ?thesis by (simp add: update_mems_on_def disp_idle)
    next
      case (Continue s1)
      with assms False late show ?thesis by (simp add: update_mems_on_def)
    qed
  qed
qed

lemma update_mems_gm_cases:
  assumes "gyro_ingress data = Some (gx, gz)"
  shows "(disp_x (snd (update_mems_gm cfg s now data)) = 0
            \<and> disp_y (snd (update_mems_gm cfg s now data)) = 0)
       \<or> (\<exists>s1. gyro_gates cfg (s\<lparr>last_update_ts_gm := now\<rparr>) now gx gz = Continue s1
              \<and> update_mems_gm cfg s now data
                  = gyro_shape cfg s1 (gz - neutral_gz_gm s) (gx - neutral_gx_gm s))"
proof (cases "int (accum_count_gm s) < neutral_samples_gm cfg")
  case True
  with assms show ?thesis by (simp add: update_mems_gm_def gyro_calibrate_disp)
next
  case False
  show ?thesis
  proof (cases "now - last_update_ts_gm s < update_interval_sec_gm cfg")
    case True
    with assms False show ?thesis by (simp add: update_mems_gm_def disp_idle)
  next
    case late: False
    show ?thesis
    proof (cases "gyro_gates cfg (s\<lparr>last_update_ts_gm := now\<rparr>) now gx gz")
      case (Return s1)
      with assms False late show ?thesis by (simp add: update_mems_gm_def disp_idle)
    next
      case (Continue s1)
      with assms False late show ?thesis by (simp add: update_mems_gm_def)
    qed
  qed
qed

lemma mems_dead_axis:
  assumes "0 \<le> max_step_px cfg" and "mems_ingress data = Some (ax, ay, az, gx, gy, gz)"
  shows "vx_g s = 0 \<Longrightarrow> \<bar>ax - neutral_x (mems_recenter cfg s ax ay)\<bar> < deadzone_g cfg
           \<Longrightarrow> (if swap_axes cfg then disp_y else disp_x) (snd (update_mems cfg s now data)) = 0"
    and "vy_g s = 0 \<Longrightarrow> \<bar>ay - neutral_y (mems_recenter cfg s ax ay)\<bar> < deadzone_g cfg
           \<Longrightarrow> (if swap_axes cfg then disp_x else disp_y) (snd (update_mems cfg s now data)) = 0"
proof -
  let ?s0 = "s\<lparr>last_update_ts := now\<rparr>"
  have n0: "neutral_x ?s0 = neutral_x s" "neutral_y ?s0 = neutral_y s" by simp_all
  {
    fix s1 assume g: "mems_gates cfg ?s0 ax ay gx gy gz = Continue s1"
    from mems_gates_continue(1,2)[OF g] n0
    have "neutral_x s1 = neutral_x s" "neutral_y s1 = neutral_y s" by simp_all
    from mems_recenter_neutral[OF this, of cfg ax ay]
    have rc: "neutral_x (mems_recenter cfg s1 ax ay) = neutral_x (mems_recenter cfg s ax ay)"
      "neutral_y (mems_recenter cfg s1 ax ay) = neutral_y (mems_recenter cfg s ax ay)"
      by simp_all
    have "vx_g s = 0 \<Longrightarrow> \<bar>ax - neutral_x (mems_recenter cfg s ax ay)\<bar> < deadzone_g cfg
        \<Longrightarrow> (if swap_axes cfg then disp_y else disp_x) (snd (mems_shape cfg s1 ax ay)) = 0"
      using mems_shape_dead_x[OF assms(1), where s = s1 and ax = ax and ay = ay] mems_gates_continue(3)[OF g] rc
      by simp
    moreover
    have "vy_g s = 0 \<Longrightarrow> \<bar>ay - neutral_y (mems_recenter cfg s ax ay)\<bar> < deadzone_g cfg
        \<Longrightarrow> (if swap_axes cfg then disp_x else disp_y) (snd (mems_shape cfg s1 ax ay)) = 0"
      using mems_shape_dead_y[OF assms(1), where s = s1 and ax = ax and ay = ay] mems_gates_continue(4)[OF g] rc
      by simp
    ultimately have
      "(vx_g s = 0 \<longrightarrow> \<bar>ax - neutral_x (mems_recenter cfg s ax ay)\<bar> < deadzone_g cfg
        \<longrightarrow> (if swap_axes cfg then disp_y else disp_x) (snd (mems_shape cfg s1 ax ay)) = 0)
       \<and> (vy_g s = 0 \<longrightarrow> \<bar>ay - neutral_y (mems_recenter cfg s ax ay)\<bar> < deadzone_g cfg
        \<longrightarrow> (if swap_axes cfg then disp_x else disp_y) (snd (mems_shape cfg s1 ax ay)) = 0)"
      by blast
  }
  note shaped = this
  from update_mems_cases[OF assms(2), of cfg s now]
  show "vx_g s = 0 \<Longrightarrow> \<bar>ax - neutral_x (mems_recenter cfg s ax ay)\<bar> < deadzone_g cfg
           \<Longrightarrow> (if swap_axes cfg then disp_y else disp_x) (snd (update_mems cfg s now data)) = 0"
    using shaped by (elim disjE exE conjE) simp_all
  from update_mems_cases[OF assms(2), of cfg s now]
  show "vy_g s = 0 \<Longrightarrow> \<bar>ay - neutral_y (mems_recenter cfg s ax ay)\<bar> < deadzone_g cfg
           \<Longrightarrow> (if swap_axes cfg then disp_x else disp_y) (snd (update_mems cfg s now data)) = 0"
    using shaped by (elim disjE exE conjE) simp_all
qed

lemma online_dead_axis:
  assumes "0 \<le> max_step_px_on cfg" and "gyro_ingress data = Some (gx, gz)"
  shows "vx_on s = 0 \<Longrightarrow> \<bar>gz - neutral_gz_on s\<bar> < deadzone_deg_on cfg
           \<Longrightarrow> disp_x (snd (update_mems_on cfg s now data)) = 0"
    and "vy_on s = 0 \<Longrightarrow> \<bar>gx - neutral_gx_on s\<bar> < deadzone_deg_on cfg
           \<Longrightarrow> disp_y (snd (update_mems_on cfg s now data)) = 0"
proof -
  {
    fix s1 assume g: "online_gates cfg (s\<lparr>last_update_ts_on := now\<rparr>) now gx gz = Continue s1"
    from online_gates_continue[OF g] have "vx_on s1 = vx_on s" "vy_on s1 = vy_on s" by simp_all
  }
  note kept = this
  from update_mems_on_cases[OF assms(2), of cfg s now]
  show "vx_on s = 0 \<Longrightarrow> \<bar>gz - neutral_gz_on s\<bar> < deadzone_deg_on cfg
           \<Longrightarrow> disp_x (snd (update_mems_on cfg s now data)) = 0"
    using kept online_shape_dead(1)[OF assms(1)] by (elim disjE exE conjE) simp_all
  from update_mems_on_cases[OF assms(2), of cfg s now]
  show "vy_on s = 0 \<Longrightarrow> \<bar>gx - neutral_gx_on s\<bar> < deadzone_deg_on cfg
           \<Longrightarrow> disp_y (snd (update_mems_on cfg s now data)) = 0"
    using kept online_shape_dead(2)[OF assms(1)] by (elim disjE exE conjE) simp_all
qed

lemma gyro_dead_axis:
  assumes "0 \<le> max_step_px_gm cfg" and "gyro_ingress data = Some (gx, gz)"
  shows "vx_gm s = 0 \<Longrightarrow> \<bar>gz - neutral_gz_gm s\<bar> < deadzone_deg_gm cfg
           \<Longrightarrow> disp_x (snd (update_mems_gm cfg s now data)) = 0"
    and "vy_gm s = 0 \<Longrightarrow> \<bar>gx - neutral_gx_gm s\<bar> < deadzone_deg_gm cfg
           \<Longrightarrow> disp_y (snd (update_mems_gm cfg s now data)) = 0"
proof -
  {
    fix s1 assume g: "gyro_gates cfg (s\<lparr>last_update_ts_gm := now\<rparr>) now gx gz = Continue s1"
    from gyro_gates_continue[OF g]
    have "vx_gm s = 0 \<longrightarrow> vx_gm s1 = 0" "vy_gm s = 0 \<longrightarrow> vy_gm s1 = 0" by simp_all
  }
  note kept = this
  from update_mems_gm_cases[OF assms(2), of cfg s now]
  show "vx_gm s = 0 \<Longrightarrow> \<bar>gz - neutral_gz_gm s\<bar> < deadzone_deg_gm cfg
           \<Longrightarrow> disp_x (snd (update_mems_gm cfg s now data)) = 0"
    using kept gyro_shape_dead(1)[OF assms(1)] by (elim disjE exE conjE) simp_all
  from update_mems_gm_cases[OF assms(2), of cfg s now]
  show "vy_gm s = 0 \<Longrightarrow> \<bar>gx - neutral_gx_gm s\<bar> < deadzone_deg_gm cfg
           \<Longrightarrow> disp_y (snd (update_mems_gm cfg s now data)) = 0"
    using kept gyro_shape_dead(2)[OF assms(1)] by (elim disjE exE conjE) simp_all
qed

lemma mems_step_carry:
  "update_mems default_mems_config
       (mems_locked\<lparr>last_update_ts := 1, vx_g := 0.25, last_ax := 1.06\<rparr>) 2
       [mems_sample 0 1.06 1 10 0 0]
     = (mems_locked\<lparr>last_update_ts := 2, vx_g := 0.1875, vy_g := 0.25, last_ax := 0,
                     last_ay := 1.06\<rparr>,
        MoveRel 40 (- 40))"
  by (simp add: update_mems_def mems_ingress_sample default_mems_config_def mems_locked_def
      mems_init_def mems_gates_def gyro_near_neutral_def norm3_def sum_sq3_def pf_sub_def
      sqrt_100 mems_shape_def mems_recenter_def dead_zone_def joystick_curve_def
      clamp_step_def emit_def Let_def)

lemma mems_step_dead_x:
  "update_mems default_mems_config mems_locked 1 [mems_sample 0.05 1.06 1 10 0 0]
     = (mems_locked\<lparr>last_update_ts := 1, vy_g := 0.25, last_ax := 0.05, last_ay := 1.06\<rparr>,
        MoveRel 0 (- 40))"
  by (simp add: update_mems_def mems_ingress_sample default_mems_config_def mems_locked_def
      mems_init_def mems_gates_def gyro_near_neutral_def norm3_def sum_sq3_def pf_sub_def
      sqrt_100 mems_shape_def mems_recenter_def dead_zone_def joystick_curve_def
      clamp_step_def emit_def Let_def)

lemma mems_step_dead_y:
  "update_mems default_mems_config mems_locked 1 [mems_sample 1.06 0.05 1 10 0 0]
     = (mems_locked\<lparr>last_update_ts := 1, vx_g := 0.25, last_ax := 1.06, last_ay := 0.05\<rparr>,
        MoveRel 40 0)"
  by (simp add: update_mems_def mems_ingress_sample default_mems_config_def mems_locked_def
      mems_init_def mems_gates_def gyro_near_neutral_def norm3_def sum_sq3_def pf_sub_def
      sqrt_100 mems_shape_def mems_recenter_def dead_zone_def joystick_curve_def
      clamp_step_def emit_def Let_def)

lemma online_step_dead_x:
  "update_mems_on default_online_config online_locked 1 [mems_sample 0 0 1 10 0 1.5]
     = (online_locked\<lparr>last_update_ts_on := 1, last_gyro_time_on := 1, last_gx_on := 10,
                       last_gz_on := 1.5, vy_on := 7.6\<rparr>,
        MoveRel 0 (- 50))"
  by (simp add: update_mems_on_def gyro_ingress_sample default_online_config_def
      online_locked_def online_init_def online_gates_def online_fast_filter_def
      online_still_def online_center_def online_shape_def dead_zone_def clamp_step_def
      emit_def Let_def)

lemma online_step_dead_y:
  "update_mems_on default_online_config online_locked 1 [mems_sample 0 0 1 1.5 0 10]
     = (online_locked\<lparr>last_update_ts_on := 1, last_gyro_time_on := 1, last_gx_on := 1.5,
                       last_gz_on := 10, vx_on := 7.6\<rparr>,
        MoveRel (- 50) 0)"
  by (simp add: update_mems_on_def gyro_ingress_sample default_online_config_def
      online_locked_def online_init_def online_gates_def online_fast_filter_def
      online_still_def online_center_def online_shape_def dead_zone_def clamp_step_def
      emit_def Let_def)

lemma gyro_step_dead_x:
  "update_mems_gm sample_gyro_config gyro_locked 1 [mems_sample 0 0 1 2 0 0.5]
     = (gyro_locked\<lparr>last_update_ts_gm := 1, last_gx_gm := 2, last_gz_gm := 0.5, vy_gm := 1\<rparr>,
        MoveRel 0 (- 8))"
  by (simp add: update_mems_gm_def gyro_ingress_sample sample_gyro_config_def
      gyro_locked_def gyro_init_def gyro_gates_def gyro_still_def gyro_center_def
      gyro_shape_def dead_zone_def stick_curve_def clamp_step_def emit_def Let_def)

lemma gyro_step_dead_y:
  "update_mems_gm sample_gyro_config gyro_locked 1 [mems_sample 0 0 1 0.5 0 2]
     = (gyro_locked\<lparr>last_update_ts_gm := 1, last_gx_gm := 0.5, last_gz_gm := 2, vx_gm := 1\<rparr>,
        MoveRel (- 8) 0)"
  by (simp add: update_mems_gm_def gyro_ingress_sample sample_gyro_config_def
      gyro_locked_def gyro_init_def gyro_gates_def gyro_still_def gyro_center_def
      gyro_shape_def dead_zone_def stick_curve_def clamp_step_def emit_def Let_def)

text \<open>
  Claim C4, as amended. In every controller variant, for every configuration with
  \<open>max_step_px \<ge> 0\<close>, every state and every accepted packet: if the velocity stored for
  an axis before the call is 0 and the magnitude of the deviation on that axis (in
  \<open>MemsMouseMode\<close> taken from the neutral after its slow re-centering) is below the
  dead-zone threshold, then the displacement emitted on the screen axis that axis drives
  is exactly 0. The statement covers every call of \<open>update_mems\<close>, so in particular every
  post-lock shaping step.
\<close>

theorem dead_zone_axis_zero:
  "(0 \<le> max_step_px cfg \<and> mems_ingress data = Some (ax, ay, az, wx, wy, wz) \<longrightarrow>
      (vx_g s = 0 \<and> \<bar>ax - neutral_x (mems_recenter cfg s ax ay)\<bar> < deadzone_g cfg \<longrightarrow>
         (if swap_axes cfg then disp_y else disp_x) (snd (update_mems cfg s now data)) = 0)
      \<and> (vy_g s = 0 \<and> \<bar>ay - neutral_y (mems_recenter cfg s ax ay)\<bar> < deadzone_g cfg \<longrightarrow>
         (if swap_axes cfg then disp_x else disp_y) (snd (update_mems cfg s now data)) = 0))
   \<and> (0 \<le> max_step_px_on cfg_on \<and> gyro_ingress data_on = Some (gx, gz) \<longrightarrow>
      (vx_on s_on = 0 \<and> \<bar>gz - neutral_gz_on s_on\<bar> < deadzone_deg_on cfg_on \<longrightarrow>
         disp_x (snd (update_mems_on cfg_on s_on now_on data_on)) = 0)
      \<and> (vy_on s_on = 0 \<and> \<bar>gx - neutral_gx_on s_on\<bar> < deadzone_deg_on cfg_on \<longrightarrow>
         disp_y (snd (update_mems_on cfg_on s_on now_on data_on)) = 0))
   \<and> (0 \<le> max_step_px_gm cfg_gm \<and> gyro_ingress data_gm = Some (hx, hz) \<longrightarrow>
      (vx_gm s_gm = 0 \<and> \<bar>hz - neutral_gz_gm s_gm\<bar> < deadzone_deg_gm cfg_gm \<longrightarrow>
         disp_x (snd (update_mems_gm cfg_gm s_gm now_gm data_gm)) = 0)
      \<and> (vy_gm s_gm = 0 \<and> \<bar>hx - neutral_gx_gm s_gm\<bar> < deadzone_deg_gm cfg_gm \<longrightarrow>
         disp_y (snd (update_mems_gm cfg_gm s_gm now_gm data_gm)) = 0))"
proof (intro conjI impI)
  assume h: "0 \<le> max_step_px cfg \<and> mems_ingress data = Some (ax, ay, az, wx, wy, wz)"
  {
    assume "vx_g s = 0 \<and> \<bar>ax - neutral_x (mems_recenter cfg s ax ay)\<bar> < deadzone_g cfg"
    with h mems_dead_axis(1)[of cfg data ax ay az wx wy wz s now]
    show "(if swap_axes cfg then disp_y else disp_x) (snd (update_mems cfg s now data)) = 0"
      by blast
  }
  {
    assume "vy_g s = 0 \<and> \<bar>ay - neutral_y (mems_recenter cfg s ax ay)\<bar> < deadzone_g cfg"
    with h mems_dead_axis(2)[of cfg data ax ay az wx wy wz s now]
    show "(if swap_axes cfg then disp_x else disp_y) (snd (update_mems cfg s now data)) = 0"
      by blast
  }
next
  assume h: "0 \<le> max_step_px_on cfg_on \<and> gyro_ingress data_on = Some (gx, gz)"
  {
    assume "vx_on s_on = 0 \<and> \<bar>gz - neutral_gz_on s_on\<bar> < deadzone_deg_on cfg_on"
    with h online_dead_axis(1)[of cfg_on data_on gx gz s_on now_on]
    show "disp_x (snd (update_mems_on cfg_on s_on now_on data_on)) = 0" by blast
  }
  {
    assume "vy_on s_on = 0 \<and> \<bar>gx - neutral_gx_on s_on\<bar> < deadzone_deg_on cfg_on"
    with h online_dead_axis(2)[of cfg_on data_on gx gz s_on now_on]
    show "disp_y (snd (update_mems_on cfg_on s_on now_on data_on)) = 0" by blast
  }
next
  assume h: "0 \<le> max_step_px_gm cfg_gm \<and> gyro_ingress data_gm = Some (hx, hz)"
  {
    assume "vx_gm s_gm = 0 \<and> \<bar>hz - neutral_gz_gm s_gm\<bar> < deadzone_deg_gm cfg_gm"
    with h gyro_dead_axis(1)[of cfg_gm data_gm hx hz s_gm now_gm]
    show "disp_x (snd (update_mems_gm cfg_gm s_gm now_gm data_gm)) = 0" by blast
  }
  {
    assume "vy_gm s_gm = 0 \<and> \<bar>hx - neutral_gx_gm s_gm\<bar> < deadzone_deg_gm cfg_gm"
    with h gyro_dead_axis(2)[of cfg_gm data_gm hx hz s_gm now_gm]
    show "disp_y (snd (update_mems_gm cfg_gm s_gm now_gm data_gm)) = 0" by blast
  }
qed

theorem dead_zone_axis_zero_witness:
  "0 \<le> max_step_px default_mems_config
   \<and> vx_g mems_locked = 0
   \<and> \<bar>0.05 - neutral_x (mems_recenter default_mems_config mems_locked 0.05 1.06)\<bar>
       < deadzone_g default_mems_config
   \<and> snd (update_mems default_mems_config mems_locked 1 [mems_sample 0.05 1.06 1 10 0 0])
       = MoveRel 0 (- 40)
   \<and> vy_g mems_locked = 0
   \<and> \<bar>0.05 - neutral_y (mems_recenter default_mems_config mems_locked 1.06 0.05)\<bar>
       < deadzone_g default_mems_config
   \<and> snd (update_mems default_mems_config mems_locked 1 [mems_sample 1.06 0.05 1 10 0 0])
       = MoveRel 40 0
   \<and> 0 \<le> max_step_px_on default_online_config
   \<and> vx_on online_locked = 0
   \<and> \<bar>1.5 - neutral_gz_on online_locked\<bar> < deadzone_deg_on default_online_config
   \<and> snd (update_mems_on default_online_config online_locked 1 [mems_sample 0 0 1 10 0 1.5])
       = MoveRel 0 (- 50)
   \<and> vy_on online_locked = 0
   \<and> \<bar>1.5 - neutral_gx_on online_locked\<bar> < deadzone_deg_on default_online_config
   \<and> snd (update_mems_on default_online_config online_locked 1 [mems_sample 0 0 1 1.5 0 10])
       = MoveRel (- 50) 0
   \<and> 0 \<le> max_step_px_gm sample_gyro_config
   \<and> vx_gm gyro_locked = 0
   \<and> \<bar>0.5 - neutral_gz_gm gyro_locked\<bar> < deadzone_deg_gm sample_gyro_config
   \<and> snd (update_mems_gm sample_gyro_config gyro_locked 1 [mems_sample 0 0 1 2 0 0.5])
       = MoveRel 0 (- 8)
   \<and> vy_gm gyro_locked = 0
   \<and> \<bar>0.5 - neutral_gx_gm gyro_locked\<bar> < deadzone_deg_gm sample_gyro_config
   \<and> snd (update_mems_gm sample_gyro_config gyro_locked 1 [mems_sample 0 0 1 0.5 0 2])
       = MoveRel (- 8) 0
   \<and> disp_x (MoveRel 0 (- 40)) = 0 \<and> disp_y (MoveRel 40 0) = 0
   \<and> disp_x (MoveRel 0 (- 50)) = 0 \<and> disp_y (MoveRel (- 50) 0) = 0
   \<and> disp_x (MoveRel 0 (- 8)) = 0 \<and> disp_y (MoveRel (- 8) 0) = 0"
  using dead_zone_axis_zero[where cfg = default_mems_config and s = mems_locked and now = 1
          and data = "[mems_sample 0.05 1.06 1 10 0 0]" and ax = "0.05" and ay = "1.06"
          and az = 1 and wx = "Fin 10" and wy = "Fin 0" and wz = "Fin 0"
          and cfg_on = default_online_config and s_on = online_locked and now_on = 1
          and data_on = "[mems_sample 0 0 1 10 0 1.5]" and gx = 10 and gz = "1.5"
          and cfg_gm = sample_gyro_config and s_gm = gyro_locked and now_gm = 1
          and data_gm = "[mems_sample 0 0 1 2 0 0.5]" and hx = 2 and hz = "0.5"]
        dead_zone_axis_zero[where cfg = default_mems_config and s = mems_locked and now = 1
          and data = "[mems_sample 1.06 0.05 1 10 0 0]" and ax = "1.06" and ay = "0.05"
          and az = 1 and wx = "Fin 10" and wy = "Fin 0" and wz = "Fin 0"
          and cfg_on = default_online_config and s_on = online_locked and now_on = 1
          and data_on = "[mems_sample 0 0 1 1.5 0 10]" and gx = "1.5" and gz = 10
          and cfg_gm = sample_gyro_config and s_gm = gyro_locked and now_gm = 1
          and data_gm = "[mems_sample 0 0 1 0.5 0 2]" and hx = "0.5" and hz = 2]
  unfolding mems_step_dead_x mems_step_dead_y online_step_dead_x online_step_dead_y
    gyro_step_dead_x gyro_step_dead_y
  by (simp add: mems_ingress_sample gyro_ingress_sample default_mems_config_def
      default_online_config_def sample_gyro_config_def mems_locked_def mems_init_def
      online_locked_def online_init_def gyro_locked_def gyro_init_def mems_recenter_def
      disp_x_def disp_y_def)

theorem dead_zone_axis_zero_counterexample:
  "int (accum_count mems_locked) \<ge> neutral_samples default_mems_config
   \<and> snd (run_mems default_mems_config mems_locked
            [(1, [mems_sample 1.06 0 1 10 0 0]), (2, [mems_sample 0 1.06 1 10 0 0])])
       = [MoveRel 40 0, MoveRel 40 (- 40)]
   \<and> \<bar>0 - neutral_x (mems_recenter default_mems_config
                         (fst (update_mems default_mems_config mems_locked 1
                                 [mems_sample 1.06 0 1 10 0 0])) 0 1.06)\<bar>
       < deadzone_g default_mems_config
   \<and> disp_x (MoveRel 40 (- 40)) \<noteq> 0"
proof -
  have run: "run_mems default_mems_config mems_locked
               [(1, [mems_sample 1.06 0 1 10 0 0]), (2, [mems_sample 0 1.06 1 10 0 0])]
             = (mems_locked\<lparr>last_update_ts := 2, vx_g := 0.1875, vy_g := 0.25, last_ax := 0,
                             last_ay := 1.06\<rparr>,
                [MoveRel 40 0, MoveRel 40 (- 40)])"
    by (simp only: run_mems.simps mems_step_example mems_step_carry prod.case)
  show ?thesis
    unfolding run mems_step_example
    by (simp add: default_mems_config_def mems_locked_def mems_init_def mems_recenter_def
        disp_x_def)
qed

subsection \<open>Order of the shaping steps\<close>

text \<open>A call that gets past the ingress, the lock, the rate limiter and the gates is the
  shaping stage run on the state the gates left.\<close>

lemma update_mems_shaped:
  assumes "mems_ingress data = Some (ax, ay, az, wx, wy, wz)"
    and "\<not> int (accum_count s) < neutral_samples cfg"
    and "\<not> now - last_update_ts s < update_interval_sec cfg"
    and "mems_gates cfg (s\<lparr>last_update_ts := now\<rparr>) ax ay wx wy wz = Continue s1"
  shows "update_mems cfg s now data = mems_shape cfg s1 ax ay"
  using assms by (simp add: update_mems_def)

lemma update_mems_on_shaped:
  assumes "gyro_ingress data = Some (gx, gz)"
    and "\<not> int (accum_count_on s) < neutral_samples_on cfg"
    and "\<not> now - last_update_ts_on s < update_interval_sec_on cfg"
    and "online_gates cfg (s\<lparr>last_update_ts_on := now\<rparr>) now gx gz = Continue s1"
  shows "update_mems_on cfg s now data
           = online_shape cfg s1 (gz - neutral_gz_on s) (gx - neutral_gx_on s)"
  using assms by (simp add: update_mems_on_def)

lemma update_mems_gm_shaped:
  assumes "gyro_ingress data = Some (gx, gz)"
    and "\<not> int (accum_count_gm s) < neutral_samples_gm cfg"
    and "\<not> now - last_update_ts_gm s < update_interval_sec_gm cfg"
    and "gyro_gates cfg (s\<lparr>last_update_ts_gm := now\<rparr>) now gx gz = Continue s1"
  shows "update_mems_gm cfg s now data
           = gyro_shape cfg s1 (gz - neutral_gz_gm s) (gx - neutral_gx_gm s)"
  using assms by (simp add: update_mems_gm_def)

text \<open>The velocities each shaping stage stores, and what it emits from them.\<close>

lemma mems_shape_velocity:
  "vx_g (fst (mems_shape cfg s ax ay))
     = (1 - smooth_alpha cfg) * vx_g s
       + smooth_alpha cfg
         * joystick_curve (deadzone_g cfg)
             (dead_zone (deadzone_g cfg) (ax - neutral_x (mems_recenter cfg s ax ay)))"
  "vy_g (fst (mems_shape cfg s ax ay))
     = (1 - smooth_alpha cfg) * vy_g s
       + smooth_alpha cfg
         * joystick_curve (deadzone_g cfg)
             (dead_zone (deadzone_g cfg) (ay - neutral_y (mems_recenter cfg s ax ay)))"
  by (simp_all add: mems_shape_def Let_def split_beta mems_recenter_velocity)

lemma online_shape_velocity:
  "vx_on (fst (online_shape cfg s dx dy))
     = ((1 - smooth_alpha_on cfg) * vx_on s
        + smooth_alpha_on cfg * dead_zone (deadzone_deg_on cfg) dx) * 0.95"
  "vy_on (fst (online_shape cfg s dx dy))
     = ((1 - smooth_alpha_on cfg) * vy_on s
        + smooth_alpha_on cfg * dead_zone (deadzone_deg_on cfg) dy) * 0.95"
  "snd (online_shape cfg s dx dy)
     = emit (clamp_step (max_step_px_on cfg)
               (- vx_on (fst (online_shape cfg s dx dy)) * sensitivity_x_on cfg))
            (clamp_step (max_step_px_on cfg)
               (- vy_on (fst (online_shape cfg s dx dy)) * sensitivity_y_on cfg))"
  by (simp_all add: online_shape_def Let_def)

lemma gyro_shape_velocity:
  "vx_gm (fst (gyro_shape cfg s dx dy))
     = (1 - smooth_alpha_gm cfg) * vx_gm s
       + smooth_alpha_gm cfg * dead_zone (deadzone_deg_gm cfg) dx"
  "vy_gm (fst (gyro_shape cfg s dx dy))
     = (1 - smooth_alpha_gm cfg) * vy_gm s
       + smooth_alpha_gm cfg * dead_zone (deadzone_deg_gm cfg) dy"
  "snd (gyro_shape cfg s dx dy)
     = emit (clamp_step (max_step_px_gm cfg)
               (- stick_curve (vx_gm (fst (gyro_shape cfg s dx dy))) * sensitivity_x_gm cfg))
            (clamp_step (max_step_px_gm cfg)
               (- stick_curve (vy_gm (fst (gyro_shape cfg s dx dy))) * sensitivity_y_gm cfg))"
  by (simp_all add: gyro_shape_def Let_def)

lemma mems_gates_example:
  "mems_gates default_mems_config (mems_locked\<lparr>last_update_ts := 1\<rparr>) 1.06 0
       (Fin 10) (Fin 0) (Fin 0)
     = Continue (mems_locked\<lparr>last_update_ts := 1\<rparr>)"
  by (simp add: default_mems_config_def mems_locked_def mems_init_def mems_gates_def
      gyro_near_neutral_def norm3_def sum_sq3_def pf_sub_def sqrt_100)

lemma online_gates_example:
  "online_gates default_online_config (online_locked\<lparr>last_update_ts_on := 1\<rparr>) 1 10 10
     = Continue (online_locked\<lparr>last_update_ts_on := 1, last_gyro_time_on := 1,
                               last_gx_on := 10, last_gz_on := 10\<rparr>)"
  by (simp add: default_online_config_def online_locked_def online_init_def online_gates_def
      online_fast_filter_def online_still_def online_center_def)

lemma gyro_gates_example:
  "gyro_gates sample_gyro_config (gyro_locked\<lparr>last_update_ts_gm := 1\<rparr>) 1 0 2
     = Continue (gyro_locked\<lparr>last_update_ts_gm := 1, last_gz_gm := 2\<rparr>)"
  by (simp add: sample_gyro_config_def gyro_locked_def gyro_init_def gyro_gates_def
      gyro_still_def gyro_center_def)

lemma two_powr_above: "(2::real) < 2 powr 1.6"
  using powr_less_mono[of 1 "1.6" "2::real"] by simp

text \<open>
  Claim C8, as amended. For a packet that reaches the shaping stage (accepted, after the
  lock, not rate-limited, let through by the gates, which leave the state \<open>s1\<close>):
  \<^item> \<open>MemsMouseMode\<close> applies the power-law curve to the dead-zone-adjusted deviation and
    then smooths the curved value into the stored velocity,
    \<open>velocity = (1 - alpha) * velocity + alpha * curved\<close>;
  \<^item> \<open>GyroMouseOnlineMode\<close> applies no curve: it smooths the dead-zone-adjusted deviation
    itself, scales the result by 0.95, stores it and emits from it;
  \<^item> \<open>GyroMouseMode\<close> smooths the dead-zone-adjusted deviation itself into the stored
    velocity and applies the power-law curve afterwards, to the smoothed velocity, for
    the emitted displacement only.
\<close>

theorem shaping_order:
  "(mems_ingress data = Some (ax, ay, az, wx, wy, wz)
      \<and> \<not> int (accum_count s) < neutral_samples cfg
      \<and> \<not> now - last_update_ts s < update_interval_sec cfg
      \<and> mems_gates cfg (s\<lparr>last_update_ts := now\<rparr>) ax ay wx wy wz = Continue s1 \<longrightarrow>
        vx_g (fst (update_mems cfg s now data))
          = (1 - smooth_alpha cfg) * vx_g s1
            + smooth_alpha cfg
              * joystick_curve (deadzone_g cfg)
                  (dead_zone (deadzone_g cfg) (ax - neutral_x (mems_recenter cfg s1 ax ay)))
      \<and> vy_g (fst (update_mems cfg s now data))
          = (1 - smooth_alpha cfg) * vy_g s1
            + smooth_alpha cfg
              * joystick_curve (deadzone_g cfg)
                  (dead_zone (deadzone_g cfg) (ay - neutral_y (mems_recenter cfg s1 ax ay))))
   \<and> (gyro_ingress data_on = Some (gx, gz)
      \<and> \<not> int (accum_count_on s_on) < neutral_samples_on cfg_on
      \<and> \<not> now_on - last_update_ts_on s_on < update_interval_sec_on cfg_on
      \<and> online_gates cfg_on (s_on\<lparr>last_update_ts_on := now_on\<rparr>) now_on gx gz
          = Continue s1_on \<longrightarrow>
        vx_on (fst (update_mems_on cfg_on s_on now_on data_on))
          = ((1 - smooth_alpha_on cfg_on) * vx_on s1_on
             + smooth_alpha_on cfg_on
               * dead_zone (deadzone_deg_on cfg_on) (gz - neutral_gz_on s_on)) * 0.95
      \<and> vy_on (fst (update_mems_on cfg_on s_on now_on data_on))
          = ((1 - smooth_alpha_on cfg_on) * vy_on s1_on
             + smooth_alpha_on cfg_on
               * dead_zone (deadzone_deg_on cfg_on) (gx - neutral_gx_on s_on)) * 0.95
      \<and> snd (update_mems_on cfg_on s_on now_on data_on)
          = emit (clamp_step (max_step_px_on cfg_on)
                    (- vx_on (fst (update_mems_on cfg_on s_on now_on data_on))
                       * sensitivity_x_on cfg_on))
                 (clamp_step (max_step_px_on cfg_on)
                    (- vy_on (fst (update_mems_on cfg_on s_on now_on data_on))
                       * sensitivity_y_on cfg_on)))
   \<and> (gyro_ingress data_gm = Some (hx, hz)
      \<and> \<not> int (accum_count_gm s_gm) < neutral_samples_gm cfg_gm
      \<and> \<not> now_gm - last_update_ts_gm s_gm < update_interval_sec_gm cfg_gm
      \<and> gyro_gates cfg_gm (s_gm\<lparr>last_update_ts_gm := now_gm\<rparr>) now_gm hx hz
          = Continue s1_gm \<longrightarrow>
        vx_gm (fst (update_mems_gm cfg_gm s_gm now_gm data_gm))
          = (1 - smooth_alpha_gm cfg_gm) * vx_gm s1_gm
            + smooth_alpha_gm cfg_gm
              * dead_zone (deadzone_deg_gm cfg_gm) (hz - neutral_gz_gm s_gm)
      \<and> vy_gm (fst (update_mems_gm cfg_gm s_gm now_gm data_gm))
          = (1 - smooth_alpha_gm cfg_gm) * vy_gm s1_gm
            + smooth_alpha_gm cfg_gm
              * dead_zone (deadzone_deg_gm cfg_gm) (hx - neutral_gx_gm s_gm)
      \<and> snd (update_mems_gm cfg_gm s_gm now_gm data_gm)
          = emit (clamp_step (max_step_px_gm cfg_gm)
                    (- stick_curve (vx_gm (fst (update_mems_gm cfg_gm s_gm now_gm data_gm)))
                       * sensitivity_x_gm cfg_gm))
                 (clamp_step (max_step_px_gm cfg_gm)
                    (- stick_curve (vy_gm (fst (update_mems_gm cfg_gm s_gm now_gm data_gm)))
                       * sensitivity_y_gm cfg_gm)))"
proof (intro conjI impI)
  assume h: "mems_ingress data = Some (ax, ay, az, wx, wy, wz)
      \<and> \<not> int (accum_count s) < neutral_samples cfg
      \<and> \<not> now - last_update_ts s < update_interval_sec cfg
      \<and> mems_gates cfg (s\<lparr>last_update_ts := now\<rparr>) ax ay wx wy wz = Continue s1"
  then have u: "update_mems cfg s now data = mems_shape cfg s1 ax ay"
    using update_mems_shaped[of data ax ay az wx wy wz s cfg now s1] by blast
  show "vx_g (fst (update_mems cfg s now data))
          = (1 - smooth_alpha cfg) * vx_g s1
            + smooth_alpha cfg
              * joystick_curve (deadzone_g cfg)
                  (dead_zone (deadzone_g cfg) (ax - neutral_x (mems_recenter cfg s1 ax ay)))"
    unfolding u by (rule mems_shape_velocity(1))
  show "vy_g (fst (update_mems cfg s now data))
          = (1 - smooth_alpha cfg) * vy_g s1
            + smooth_alpha cfg
              * joystick_curve (deadzone_g cfg)
                  (dead_zone (deadzone_g cfg) (ay - neutral_y (mems_recenter cfg s1 ax ay)))"
    unfolding u by (rule mems_shape_velocity(2))
next
  assume h: "gyro_ingress data_on = Some (gx, gz)
      \<and> \<not> int (accum_count_on s_on) < neutral_samples_on cfg_on
      \<and> \<not> now_on - last_update_ts_on s_on < update_interval_sec_on cfg_on
      \<and> online_gates cfg_on (s_on\<lparr>last_update_ts_on := now_on\<rparr>) now_on gx gz
          = Continue s1_on"
  then have u: "update_mems_on cfg_on s_on now_on data_on
      = online_shape cfg_on s1_on (gz - neutral_gz_on s_on) (gx - neutral_gx_on s_on)"
    using update_mems_on_shaped[of data_on gx gz s_on cfg_on now_on s1_on] by blast
  show "vx_on (fst (update_mems_on cfg_on s_on now_on data_on))
          = ((1 - smooth_alpha_on cfg_on) * vx_on s1_on
             + smooth_alpha_on cfg_on
               * dead_zone (deadzone_deg_on cfg_on) (gz - neutral_gz_on s_on)) * 0.95"
    unfolding u by (rule online_shape_velocity(1))
  show "vy_on (fst (update_mems_on cfg_on s_on now_on data_on))
          = ((1 - smooth_alpha_on cfg_on) * vy_on s1_on
             + smooth_alpha_on cfg_on
               * dead_zone (deadzone_deg_on cfg_on) (gx - neutral_gx_on s_on)) * 0.95"
    unfolding u by (rule online_shape_velocity(2))
  show "snd (update_mems_on cfg_on s_on now_on data_on)
          = emit (clamp_step (max_step_px_on cfg_on)
                    (- vx_on (fst (update_mems_on cfg_on s_on now_on data_on))
                       * sensitivity_x_on cfg_on))
                 (clamp_step (max_step_px_on cfg_on)
                    (- vy_on (fst (update_mems_on cfg_on s_on now_on data_on))
                       * sensitivity_y_on cfg_on))"
    unfolding u by (rule online_shape_velocity(3))
next
  assume h: "gyro_ingress data_gm = Some (hx, hz)
      \<and> \<not> int (accum_count_gm s_gm) < neutral_samples_gm cfg_gm
      \<and> \<not> now_gm - last_update_ts_gm s_gm < update_interval_sec_gm cfg_gm
      \<and> gyro_gates cfg_gm (s_gm\<lparr>last_update_ts_gm := now_gm\<rparr>) now_gm hx hz
          = Continue s1_gm"
  then have u: "update_mems_gm cfg_gm s_gm now_gm data_gm
      = gyro_shape cfg_gm s1_gm (hz - neutral_gz_gm s_gm) (hx - neutral_gx_gm s_gm)"
    using update_mems_gm_shaped[of data_gm hx hz s_gm cfg_gm now_gm s1_gm] by blast
  show "vx_gm (fst (update_mems_gm cfg_gm s_gm now_gm data_gm))
          = (1 - smooth_alpha_gm cfg_gm) * vx_gm s1_gm
            + smooth_alpha_gm cfg_gm
              * dead_zone (deadzone_deg_gm cfg_gm) (hz - neutral_gz_gm s_gm)"
    unfolding u by (rule gyro_shape_velocity(1))
  show "vy_gm (fst (update_mems_gm cfg_gm s_gm now_gm data_gm))
          = (1 - smooth_alpha_gm cfg_gm) * vy_gm s1_gm
            + smooth_alpha_gm cfg_gm
              * dead_zone (deadzone_deg_gm cfg_gm) (hx - neutral_gx_gm s_gm)"
    unfolding u by (rule gyro_shape_velocity(2))
  show "snd (update_mems_gm cfg_gm s_gm now_gm data_gm)
          = emit (clamp_step (max_step_px_gm cfg_gm)
                    (- stick_curve (vx_gm (fst (update_mems_gm cfg_gm s_gm now_gm data_gm)))
                       * sensitivity_x_gm cfg_gm))
                 (clamp_step (max_step_px_gm cfg_gm)
                    (- stick_curve (vy_gm (fst (update_mems_gm cfg_gm s_gm now_gm data_gm)))
                       * sensitivity_y_gm cfg_gm))"
    unfolding u by (rule gyro_shape_velocity(3))
qed

theorem shaping_order_witness:
  "mems_ingress [mems_sample 1.06 0 1 10 0 0] = Some (1.06, 0, 1, Fin 10, Fin 0, Fin 0)
   \<and> \<not> int (accum_count mems_locked) < neutral_samples default_mems_config
   \<and> \<not> 1 - last_update_ts mems_locked < update_interval_sec default_mems_config
   \<and> mems_gates default_mems_config (mems_locked\<lparr>last_update_ts := 1\<rparr>) 1.06 0
         (Fin 10) (Fin 0) (Fin 0)
       = Continue (mems_locked\<lparr>last_update_ts := 1\<rparr>)
   \<and> joystick_curve (deadzone_g default_mems_config)
         (dead_zone (deadzone_g default_mems_config) (1.06 - neutral_x mems_locked)) = 1
   \<and> vx_g (fst (update_mems default_mems_config mems_locked 1 [mems_sample 1.06 0 1 10 0 0]))
       = (1 - 0.25) * 0 + 0.25 * 1
   \<and> gyro_ingress [mems_sample 0 0 1 10 0 10] = Some (10, 10)
   \<and> \<not> int (accum_count_on online_locked) < neutral_samples_on default_online_config
   \<and> \<not> 1 - last_update_ts_on online_locked < update_interval_sec_on default_online_config
   \<and> online_gates default_online_config (online_locked\<lparr>last_update_ts_on := 1\<rparr>) 1 10 10
       = Continue (online_locked\<lparr>last_update_ts_on := 1, last_gyro_time_on := 1,
                                 last_gx_on := 10, last_gz_on := 10\<rparr>)
   \<and> vx_on (fst (update_mems_on default_online_config online_locked 1
                    [mems_sample 0 0 1 10 0 10]))
       = ((1 - 0.8) * 0 + 0.8 * 10) * 0.95
   \<and> gyro_ingress [mems_sample 0 0 1 0 0 2] = Some (0, 2)
   \<and> \<not> int (accum_count_gm gyro_locked) < neutral_samples_gm sample_gyro_config
   \<and> \<not> 1 - last_update_ts_gm gyro_locked < update_interval_sec_gm sample_gyro_config
   \<and> gyro_gates sample_gyro_config (gyro_locked\<lparr>last_update_ts_gm := 1\<rparr>) 1 0 2
       = Continue (gyro_locked\<lparr>last_update_ts_gm := 1, last_gz_gm := 2\<rparr>)
   \<and> vx_gm (fst (update_mems_gm sample_gyro_config gyro_locked 1 [mems_sample 0 0 1 0 0 2]))
       = (1 - 0.5) * 0 + 0.5 * 2
   \<and> snd (update_mems_gm sample_gyro_config gyro_locked 1 [mems_sample 0 0 1 0 0 2])
       = emit (clamp_step 50 (- stick_curve 1 * 8)) (clamp_step 50 (- stick_curve 0 * 8))"
  using shaping_order[where cfg = default_mems_config and s = mems_locked and now = 1
          and data = "[mems_sample 1.06 0 1 10 0 0]" and ax = "1.06" and ay = 0 and az = 1
          and wx = "Fin 10" and wy = "Fin 0" and wz = "Fin 0"
          and ?s1.0 = "mems_locked\<lparr>last_update_ts := 1\<rparr>"
          and cfg_on = default_online_config and s_on = online_locked and now_on = 1
          and data_on = "[mems_sample 0 0 1 10 0 10]" and gx = 10 and gz = 10
          and s1_on = "online_locked\<lparr>last_update_ts_on := 1, last_gyro_time_on := 1,
                                     last_gx_on := 10, last_gz_on := 10\<rparr>"
          and cfg_gm = sample_gyro_config and s_gm = gyro_locked and now_gm = 1
          and data_gm = "[mems_sample 0 0 1 0 0 2]" and hx = 0 and hz = 2
          and s1_gm = "gyro_locked\<lparr>last_update_ts_gm := 1, last_gz_gm := 2\<rparr>"]
  unfolding mems_gates_example online_gates_example gyro_gates_example
    mems_step_example online_step_example gyro_step_example
  by (simp add: mems_ingress_sample gyro_ingress_sample default_mems_config_def
      default_online_config_def sample_gyro_config_def mems_locked_def mems_init_def
      online_locked_def online_init_def gyro_locked_def gyro_init_def mems_recenter_def
      dead_zone_def joystick_curve_def stick_curve_def clamp_step_def emit_def)

theorem shaping_order_counterexample:
  "update_mems_gm sample_gyro_config gyro_locked 1 [mems_sample 0 0 1 0 0 2]
     = (gyro_locked\<lparr>last_update_ts_gm := 1, last_gz_gm := 2, vx_gm := 1\<rparr>, MoveRel (- 8) 0)
   \<and> gyro_gates sample_gyro_config (gyro_locked\<lparr>last_update_ts_gm := 1\<rparr>) 1 0 2
       = Continue (gyro_locked\<lparr>last_update_ts_gm := 1, last_gz_gm := 2\<rparr>)
   \<and> (1 - smooth_alpha_gm sample_gyro_config)
         * vx_gm (gyro_locked\<lparr>last_update_ts_gm := 1, last_gz_gm := 2\<rparr>)
       + smooth_alpha_gm sample_gyro_config
         * stick_curve (dead_zone (deadzone_deg_gm sample_gyro_config)
                          (2 - neutral_gz_gm gyro_locked))
       \<noteq> 1"
  unfolding gyro_step_example gyro_gates_example
  using two_powr_above
  by (simp add: sample_gyro_config_def gyro_locked_def gyro_init_def dead_zone_def
      stick_curve_def)

section \<open>Properties of the motion controllers in float arithmetic\<close>

lemma clamp_step_fl_bound:
  "pf_le (Fin 0) m \<Longrightarrow> clamp_step_fl m d = NaN \<or> pf_le (pf_abs (clamp_step_fl m d)) m"
  by (cases m; cases d) (auto simp: clamp_step_fl_def)

lemma emit_fl_MoveRel: "emit_fl a b = FMoveRel dx dy \<Longrightarrow> dx = a \<and> dy = b"
  by (simp add: emit_fl_def split: if_splits)

text \<open>The curves never pass a negative base to the power.\<close>

lemma curves_no_type_error:
  "joystick_curve_fl rnd dz v \<noteq> Inl TypeError" "stick_curve_fl rnd v \<noteq> Inl TypeError"
proof -
  have pow: "fl_pow rnd b p = Inl TypeError \<Longrightarrow> \<exists>x. b = Fin x \<and> x < 0" for b p
    by (auto simp: fl_pow_def split: pyfloat.splits if_splits)
  have eff: "\<not> (\<exists>x. (if pf_less (Fin 0) d then d else Fin 0) = Fin x \<and> x < 0)" for d
    by (cases d) auto
  have mag: "\<not> (\<exists>x. pf_abs w = Fin x \<and> x < 0)" for w
    by (cases w) auto
  show "joystick_curve_fl rnd dz v \<noteq> Inl TypeError"
  proof
    assume a: "joystick_curve_fl rnd dz v = Inl TypeError"
    define m where "m = (if pf_less (Fin 0) (fl_sub rnd (pf_abs v) dz)
                         then fl_sub rnd (pf_abs v) dz else Fin 0)"
    have "v \<noteq> Fin 0" using a by (auto simp: joystick_curve_fl_def)
    with a have "(case fl_pow rnd m 1.5 of Inl err \<Rightarrow> Inl err
                  | Inr p \<Rightarrow> Inr (fl_mul rnd (Fin (if pf_less (Fin 0) v then 1 else - 1)) p))
                 = (Inl TypeError :: py_error + pyfloat)"
      by (simp add: joystick_curve_fl_def Let_def m_def)
    then have "fl_pow rnd m 1.5 = Inl TypeError"
      by (cases "fl_pow rnd m 1.5") simp_all
    with pow eff[of "fl_sub rnd (pf_abs v) dz"] show False unfolding m_def by blast
  qed
  show "stick_curve_fl rnd v \<noteq> Inl TypeError"
  proof
    assume a: "stick_curve_fl rnd v = Inl TypeError"
    have "v \<noteq> Fin 0" using a by (auto simp: stick_curve_fl_def)
    with a have "(case fl_pow rnd (pf_abs v) 1.6 of Inl err \<Rightarrow> Inl err
                  | Inr p \<Rightarrow> Inr (fl_mul rnd (Fin (if pf_less (Fin 0) v then 1 else - 1)) p))
                 = (Inl TypeError :: py_error + pyfloat)"
      by (simp add: stick_curve_fl_def Let_def)
    then have "fl_pow rnd (pf_abs v) 1.6 = Inl TypeError"
      by (cases "fl_pow rnd (pf_abs v) 1.6") simp_all
    with pow mag[of v] show False by blast
  qed
qed

text \<open>Whatever a controller passes to \<open>moveRel\<close> has gone through the clamp.\<close>

lemma mems_output_fl_event:
  "\<exists>a b. snd (mems_output_fl rnd cfg s ax ay cx cy)
           = emit_fl (clamp_step_fl (max_step_px_fl cfg) a) (clamp_step_fl (max_step_px_fl cfg) b)"
  by (simp add: mems_output_fl_def Let_def split_beta) blast

lemma mems_shape_fl_event:
  assumes "snd (mems_shape_fl rnd cfg s ax ay) = FMoveRel dx dy"
  shows "\<exists>a b. dx = clamp_step_fl (max_step_px_fl cfg) a
               \<and> dy = clamp_step_fl (max_step_px_fl cfg) b"
proof -
  from assms obtain s1 cx cy where "snd (mems_output_fl rnd cfg s1 ax ay cx cy) = FMoveRel dx dy"
    by (auto simp: mems_shape_fl_def Let_def split: sum.splits)
  with mems_output_fl_event[of rnd cfg s1 ax ay cx cy] emit_fl_MoveRel show ?thesis by metis
qed

lemma online_shape_fl_event:
  assumes "snd (online_shape_fl rnd cfg s u v) = FMoveRel dx dy"
  shows "\<exists>a b. dx = clamp_step_fl (max_step_px_onf cfg) a
               \<and> dy = clamp_step_fl (max_step_px_onf cfg) b"
proof -
  have "\<exists>a b. snd (online_shape_fl rnd cfg s u v)
          = emit_fl (clamp_step_fl (max_step_px_onf cfg) a) (clamp_step_fl (max_step_px_onf cfg) b)"
    by (simp add: online_shape_fl_def Let_def) blast
  with assms emit_fl_MoveRel show ?thesis by metis
qed

lemma gyro_shape_fl_event:
  assumes "snd (gyro_shape_fl rnd cfg s u v) = FMoveRel dx dy"
  shows "\<exists>a b. dx = clamp_step_fl (max_step_px_gmf cfg) a
               \<and> dy = clamp_step_fl (max_step_px_gmf cfg) b"
proof -
  from assms obtain a b
    where "emit_fl (clamp_step_fl (max_step_px_gmf cfg) a) (clamp_step_fl (max_step_px_gmf cfg) b)
             = FMoveRel dx dy"
    by (auto simp: gyro_shape_fl_def Let_def split: sum.splits)
  with emit_fl_MoveRel show ?thesis by metis
qed

text \<open>Calibration and the gates end a call without a move.\<close>

lemma mems_calibrate_fl_event:
  "snd (mems_calibrate_fl rnd cfg s ax ay az gx gy gz) \<noteq> FMoveRel dx dy"
  by (simp add: mems_calibrate_fl_def Let_def)

lemma online_calibrate_fl_event: "snd (online_calibrate_fl rnd cfg s gx gz) \<noteq> FMoveRel dx dy"
  by (simp add: online_calibrate_fl_def Let_def)

lemma gyro_calibrate_fl_event: "snd (gyro_calibrate_fl rnd cfg s gx gz) \<noteq> FMoveRel dx dy"
  by (simp add: gyro_calibrate_fl_def Let_def)

lemma mems_still_fl_event: "mems_still_fl rnd cfg s ax ay = Inl r \<Longrightarrow> snd r \<noteq> FMoveRel dx dy"
  by (auto simp: mems_still_fl_def Let_def split: if_splits)

lemma mems_gates_fl_event:
  "mems_gates_fl rnd cfg s ax ay gx gy gz = Inl r \<Longrightarrow> snd r \<noteq> FMoveRel dx dy"
  using mems_still_fl_event[of rnd cfg s ax ay r dx dy]
  by (auto simp: mems_gates_fl_def split: option.splits sum.splits if_splits)

lemma online_gates_fl_event:
  "online_fast_filter_fl rnd s now gx gz = Inl r \<Longrightarrow> snd r \<noteq> FMoveRel dx dy"
  "online_still_fl rnd cfg s now gx gz = Inl r \<Longrightarrow> snd r \<noteq> FMoveRel dx dy"
  "online_center_fl rnd cfg s u v = Inl r \<Longrightarrow> snd r \<noteq> FMoveRel dx dy"
  by (auto simp: online_fast_filter_fl_def online_still_fl_def online_center_fl_def
      split: if_splits)

lemma gyro_gates_fl_event:
  "gyro_still_fl rnd cfg s now gx gz = Inl r \<Longrightarrow> snd r \<noteq> FMoveRel dx dy"
  "gyro_center_fl rnd cfg s gx gz u v = Inl r \<Longrightarrow> snd r \<noteq> FMoveRel dx dy"
  by (auto simp: gyro_still_fl_def gyro_center_fl_def Let_def split: if_splits)

lemma update_mems_fl_move:
  assumes "snd (update_mems_fl rnd cfg s now data) = FMoveRel dx dy"
  shows "\<exists>s1 ax ay. snd (mems_shape_fl rnd cfg s1 ax ay) = FMoveRel dx dy"
proof (cases "mems_ingress data")
  case None
  with assms show ?thesis by (simp add: update_mems_fl_def)
next
  case (Some p)
  obtain ax ay az gx gy gz where p: "p = (ax, ay, az, gx, gy, gz)" by (cases p) auto
  show ?thesis
  proof (cases "int (accum_count_fl s) < neutral_samples_fl cfg")
    case True
    with assms Some p mems_calibrate_fl_event[of rnd cfg s ax ay az gx gy gz dx dy]
    show ?thesis by (simp add: update_mems_fl_def)
  next
    case False
    show ?thesis
    proof (cases "pf_less (rnd (now - last_update_ts_fl s)) (update_interval_sec_fl cfg)")
      case True
      with assms Some p False show ?thesis by (simp add: update_mems_fl_def)
    next
      case late: False
      show ?thesis
      proof (cases "mems_gates_fl rnd cfg (s\<lparr>last_update_ts_fl := now\<rparr>) ax ay gx gy gz")
        case (Inl r)
        with assms Some p False late mems_gates_fl_event[OF Inl, of dx dy] show ?thesis
          by (simp add: update_mems_fl_def)
      next
        case (Inr s1)
        with assms Some p False late
        have "snd (mems_shape_fl rnd cfg s1 ax ay) = FMoveRel dx dy"
          by (simp add: update_mems_fl_def)
        then show ?thesis by blast
      qed
    qed
  qed
qed

lemma update_mems_on_fl_move:
  assumes "snd (update_mems_on_fl rnd cfg s now data) = FMoveRel dx dy"
  shows "\<exists>s1 u v. snd (online_shape_fl rnd cfg s1 u v) = FMoveRel dx dy"
proof (cases "gyro_ingress data")
  case None
  with assms show ?thesis by (simp add: update_mems_on_fl_def)
next
  case (Some p)
  obtain gx gz where p: "p = (gx, gz)" by (cases p) auto
  show ?thesis
  proof (cases "int (accum_count_onf s) < neutral_samples_onf cfg")
    case True
    with assms Some p online_calibrate_fl_event[of rnd cfg s gx gz dx dy] show ?thesis
      by (simp add: update_mems_on_fl_def)
  next
    case False
    show ?thesis
    proof (cases "pf_less (rnd (now - last_update_ts_onf s)) (update_interval_sec_onf cfg)")
      case True
      with assms Some p False show ?thesis by (simp add: update_mems_on_fl_def)
    next
      case late: False
      show ?thesis
      proof (cases "online_fast_filter_fl rnd (s\<lparr>last_update_ts_onf := now\<rparr>) now gx gz")
        case (Inl r)
        with assms Some p False late online_gates_fl_event(1)[OF Inl, of dx dy] show ?thesis
          by (simp add: update_mems_on_fl_def)
      next
        case f: (Inr s1)
        show ?thesis
        proof (cases "online_still_fl rnd cfg s1 now gx gz")
          case (Inl r)
          with assms Some p False late f online_gates_fl_event(2)[OF Inl, of dx dy] show ?thesis
            by (simp add: update_mems_on_fl_def Let_def)
        next
          case st: (Inr s2)
          show ?thesis
          proof (cases "online_center_fl rnd cfg s2 (fl_sub rnd (Fin gz) (neutral_gz_onf s1))
                          (fl_sub rnd (Fin gx) (neutral_gx_onf s1))")
            case (Inl r)
            with assms Some p False late f st online_gates_fl_event(3)[OF Inl, of dx dy]
            show ?thesis by (simp add: update_mems_on_fl_def Let_def)
          next
            case (Inr s3)
            with assms Some p False late f st
            have "snd (online_shape_fl rnd cfg s3 (fl_sub rnd (Fin gz) (neutral_gz_onf s1))
                         (fl_sub rnd (Fin gx) (neutral_gx_onf s1))) = FMoveRel dx dy"
              by (simp add: update_mems_on_fl_def Let_def)
            then show ?thesis by blast
          qed
        qed
      qed
    qed
  qed
qed

lemma update_mems_gm_fl_move:
  assumes "snd (update_mems_gm_fl rnd cfg s now data) = FMoveRel dx dy"
  shows "\<exists>s1 u v. snd (gyro_shape_fl rnd cfg s1 u v) = FMoveRel dx dy"
proof (cases "gyro_ingress data")
  case None
  with assms show ?thesis by (simp add: update_mems_gm_fl_def)
next
  case (Some p)
  obtain gx gz where p: "p = (gx, gz)" by (cases p) auto
  show ?thesis
  proof (cases "int (accum_count_gmf s) < neutral_samples_gmf cfg")
    case True
    with assms Some p gyro_calibrate_fl_event[of rnd cfg s gx gz dx dy] show ?thesis
      by (simp add: update_mems_gm_fl_def)
  next
    case False
    show ?thesis
    proof (cases "pf_less (rnd (now - last_update_ts_gmf s)) (update_interval_sec_gmf cfg)")
      case True
      with assms Some p False show ?thesis by (simp add: update_mems_gm_fl_def)
    next
      case late: False
      show ?thesis
      proof (cases "gyro_still_fl rnd cfg (s\<lparr>last_update_ts_gmf := now\<rparr>) now gx gz")
        case (Inl r)
        with assms Some p False late gyro_gates_fl_event(1)[OF Inl, of dx dy] show ?thesis
          by (simp add: update_mems_gm_fl_def Let_def)
      next
        case st: (Inr s2)
        show ?thesis
        proof (cases "gyro_center_fl rnd cfg s2 gx gz (fl_sub rnd (Fin gz) (neutral_gz_gmf s))
                        (fl_sub rnd (Fin gx) (neutral_gx_gmf s))")
          case (Inl r)
          with assms Some p False late st gyro_gates_fl_event(2)[OF Inl, of dx dy]
          show ?thesis by (simp add: update_mems_gm_fl_def Let_def)
        next
          case (Inr s3)
          with assms Some p False late st
          have "snd (gyro_shape_fl rnd cfg s3 (fl_sub rnd (Fin gz) (neutral_gz_gmf s))
                       (fl_sub rnd (Fin gx) (neutral_gx_gmf s))) = FMoveRel dx dy"
            by (simp add: update_mems_gm_fl_def Let_def)
          then show ?thesis by blast
        qed
      qed
    qed
  qed
qed

lemma mems_fl_bounded:
  assumes "pf_le (Fin 0) (max_step_px_fl cfg)"
    and "snd (update_mems_fl rnd cfg s now data) = FMoveRel dx dy"
  shows "(dx = NaN \<or> pf_le (pf_abs dx) (max_step_px_fl cfg))
         \<and> (dy = NaN \<or> pf_le (pf_abs dy) (max_step_px_fl cfg))"
proof -
  from update_mems_fl_move[OF assms(2)] obtain s1 ax ay
    where "snd (mems_shape_fl rnd cfg s1 ax ay) = FMoveRel dx dy" by blast
  from mems_shape_fl_event[OF this] obtain a b
    where "dx = clamp_step_fl (max_step_px_fl cfg) a" "dy = clamp_step_fl (max_step_px_fl cfg) b"
    by blast
  with clamp_step_fl_bound[OF assms(1)] show ?thesis by simp
qed

lemma online_fl_bounded:
  assumes "pf_le (Fin 0) (max_step_px_onf cfg)"
    and "snd (update_mems_on_fl rnd cfg s now data) = FMoveRel dx dy"
  shows "(dx = NaN \<or> pf_le (pf_abs dx) (max_step_px_onf cfg))
         \<and> (dy = NaN \<or> pf_le (pf_abs dy) (max_step_px_onf cfg))"
proof -
  from update_mems_on_fl_move[OF assms(2)] obtain s1 u v
    where "snd (online_shape_fl rnd cfg s1 u v) = FMoveRel dx dy" by blast
  from online_shape_fl_event[OF this] obtain a b
    where "dx = clamp_step_fl (max_step_px_onf cfg) a" "dy = clamp_step_fl (max_step_px_onf cfg) b"
    by blast
  with clamp_step_fl_bound[OF assms(1)] show ?thesis by simp
qed

lemma gyro_fl_bounded:
  assumes "pf_le (Fin 0) (max_step_px_gmf cfg)"
    and "snd (update_mems_gm_fl rnd cfg s now data) = FMoveRel dx dy"
  shows "(dx = NaN \<or> pf_le (pf_abs dx) (max_step_px_gmf cfg))
         \<and> (dy = NaN \<or> pf_le (pf_abs dy) (max_step_px_gmf cfg))"
proof -
  from update_mems_gm_fl_move[OF assms(2)] obtain s1 u v
    where "snd (gyro_shape_fl rnd cfg s1 u v) = FMoveRel dx dy" by blast
  from gyro_shape_fl_event[OF this] obtain a b
    where "dx = clamp_step_fl (max_step_px_gmf cfg) a" "dy = clamp_step_fl (max_step_px_gmf cfg) b"
    by blast
  with clamp_step_fl_bound[OF assms(1)] show ?thesis by simp
qed

text \<open>
  Claim C1, as amended. In float arithmetic, whatever its rounding: for every controller
  variant, every configuration whose \<open>max_step_px\<close> is at least 0 (so not NaN), every
  controller state and every packet, each component of a displacement that \<open>update_mems\<close>
  passes to \<open>moveRel\<close> is NaN or has a magnitude of at most \<open>max_step_px\<close>.
\<close>

theorem displacement_within_max_step:
  "(pf_le (Fin 0) (max_step_px_fl cfg)
      \<and> snd (update_mems_fl rnd cfg s now data) = FMoveRel dx dy
      \<longrightarrow> (dx = NaN \<or> pf_le (pf_abs dx) (max_step_px_fl cfg))
          \<and> (dy = NaN \<or> pf_le (pf_abs dy) (max_step_px_fl cfg)))
   \<and> (pf_le (Fin 0) (max_step_px_onf cfgo)
      \<and> snd (update_mems_on_fl rnd cfgo so nowo datao) = FMoveRel dxo dyo
      \<longrightarrow> (dxo = NaN \<or> pf_le (pf_abs dxo) (max_step_px_onf cfgo))
          \<and> (dyo = NaN \<or> pf_le (pf_abs dyo) (max_step_px_onf cfgo)))
   \<and> (pf_le (Fin 0) (max_step_px_gmf cfgg)
      \<and> snd (update_mems_gm_fl rnd cfgg sg nowg datag) = FMoveRel dxg dyg
      \<longrightarrow> (dxg = NaN \<or> pf_le (pf_abs dxg) (max_step_px_gmf cfgg))
          \<and> (dyg = NaN \<or> pf_le (pf_abs dyg) (max_step_px_gmf cfgg)))"
  using mems_fl_bounded[of cfg rnd s now data dx dy]
    online_fl_bounded[of cfgo rnd so nowo datao dxo dyo]
    gyro_fl_bounded[of cfgg rnd sg nowg datag dxg dyg]
  by blast

subsection \<open>Runs in float arithmetic\<close>

lemma ideal_small: "\<bar>x\<bar> \<le> 1000000 \<Longrightarrow> ideal x = Fin x"
proof -
  have "(1000000::real) < 2 ^ 1024 - 2 ^ 970" by simp
  then show "\<bar>x\<bar> \<le> 1000000 \<Longrightarrow> ideal x = Fin x" by (simp add: ideal_def)
qed

lemma big_large: "1000000 < big"
  by (simp add: big_def)

lemma ideal_big: "ideal big = Fin big" "ideal (- big) = Fin (- big)"
proof -
  have "(2::real) ^ 1023 < 2 ^ 1024 - 2 ^ 970" by simp
  then show "ideal big = Fin big" "ideal (- big) = Fin (- big)"
    by (simp_all add: ideal_def big_def)
qed

lemma ideal_overflow: "ideal (2 * big) = PInf"
proof -
  have "\<not> (2 * 2 ^ 1023 < (2::real) ^ 1024 - 2 ^ 970)" by simp
  moreover have "(0::real) < 2 * 2 ^ 1023" by simp
  ultimately show ?thesis unfolding ideal_def big_def by (simp only: abs_of_pos if_False if_True)
qed

lemma mems_fl_step_example:
  "snd (update_mems_fl ideal default_mems_config_fl mems_locked_fl 1
          [mems_sample 1.06 0 1 10 0 0]) = FMoveRel (Fin 40) (Fin 0)"
  by (simp add: update_mems_fl_def mems_ingress_sample default_mems_config_fl_def
      mems_locked_fl_def mems_init_fl_def mems_gates_fl_def gyro_dist_fl_def mems_still_fl_def
      mems_shape_fl_def mems_recenter_fl_def mems_output_fl_def joystick_curve_fl_def
      dead_zone_fl_def smooth_fl_def fl_add_def fl_sub_def fl_mul_def fl_pow_def fl_sqrt_def
      sqrt_100 ideal_small clamp_step_fl_def emit_fl_def Let_def)

lemma online_fl_step_example:
  "snd (update_mems_on_fl ideal default_online_config_fl online_locked_fl 1
          [mems_sample 0 0 1 10 0 10]) = FMoveRel (Fin (- 50)) (Fin (- 50))"
  by (simp add: update_mems_on_fl_def gyro_ingress_sample default_online_config_fl_def
      online_locked_fl_def online_init_fl_def online_fast_filter_fl_def online_still_fl_def
      online_center_fl_def online_shape_fl_def dead_zone_fl_def smooth_fl_def fl_add_def
      fl_sub_def fl_mul_def ideal_small clamp_step_fl_def emit_fl_def Let_def)

lemma gyro_fl_step_example:
  "snd (update_mems_gm_fl ideal sample_gyro_config_fl gyro_locked_fl 1
          [mems_sample 0 0 1 0 0 2]) = FMoveRel (Fin (- 8)) (Fin 0)"
  by (simp add: update_mems_gm_fl_def gyro_ingress_sample sample_gyro_config_fl_def
      gyro_locked_fl_def gyro_init_fl_def gyro_still_fl_def gyro_center_fl_def
      gyro_shape_fl_def stick_curve_fl_def dead_zone_fl_def smooth_fl_def fl_add_def
      fl_sub_def fl_mul_def fl_pow_def ideal_small clamp_step_fl_def emit_fl_def Let_def)

theorem displacement_within_max_step_witness:
  "pf_le (Fin 0) (max_step_px_fl default_mems_config_fl)
   \<and> snd (update_mems_fl ideal default_mems_config_fl mems_locked_fl 1
            [mems_sample 1.06 0 1 10 0 0]) = FMoveRel (Fin 40) (Fin 0)
   \<and> pf_le (pf_abs (Fin 40)) (max_step_px_fl default_mems_config_fl)
   \<and> pf_le (pf_abs (Fin 0)) (max_step_px_fl default_mems_config_fl)
   \<and> pf_le (Fin 0) (max_step_px_onf default_online_config_fl)
   \<and> snd (update_mems_on_fl ideal default_online_config_fl online_locked_fl 1
            [mems_sample 0 0 1 10 0 10]) = FMoveRel (Fin (- 50)) (Fin (- 50))
   \<and> pf_le (pf_abs (Fin (- 50))) (max_step_px_onf default_online_config_fl)
   \<and> pf_le (Fin 0) (max_step_px_gmf sample_gyro_config_fl)
   \<and> snd (update_mems_gm_fl ideal sample_gyro_config_fl gyro_locked_fl 1
            [mems_sample 0 0 1 0 0 2]) = FMoveRel (Fin (- 8)) (Fin 0)
   \<and> pf_le (pf_abs (Fin (- 8))) (max_step_px_gmf sample_gyro_config_fl)
   \<and> pf_le (pf_abs (Fin 0)) (max_step_px_gmf sample_gyro_config_fl)"
  using displacement_within_max_step[of default_mems_config_fl ideal mems_locked_fl 1
          "[mems_sample 1.06 0 1 10 0 0]" "Fin 40" "Fin 0"
          default_online_config_fl online_locked_fl 1 "[mems_sample 0 0 1 10 0 10]"
          "Fin (- 50)" "Fin (- 50)"
          sample_gyro_config_fl gyro_locked_fl 1 "[mems_sample 0 0 1 0 0 2]" "Fin (- 8)" "Fin 0"]
  unfolding mems_fl_step_example online_fl_step_example gyro_fl_step_example
  by (simp add: default_mems_config_fl_def default_online_config_fl_def
      sample_gyro_config_fl_def)

lemma online_fl_negative_step:
  "snd (update_mems_on_fl ideal (default_online_config_fl\<lparr>max_step_px_onf := Fin (- 1)\<rparr>)
          online_locked_fl 1 [mems_sample 0 0 1 10 0 10]) = FMoveRel (Fin 1) (Fin 1)"
  by (simp add: update_mems_on_fl_def gyro_ingress_sample default_online_config_fl_def
      online_locked_fl_def online_init_fl_def online_fast_filter_fl_def online_still_fl_def
      online_center_fl_def online_shape_fl_def dead_zone_fl_def smooth_fl_def fl_add_def
      fl_sub_def fl_mul_def ideal_small clamp_step_fl_def emit_fl_def Let_def)

text \<open>
  The three calls of \<open>overflow_run\<close>: the neutral is captured at \<open>- big\<close>; the deviation
  \<open>big - (- big)\<close> overflows to infinity and the clamp cuts the infinite step to \<open>- 50\<close>;
  then \<open>(1.0 - a) * vx\<close> is zero times infinity, NaN, which the clamp lets through.
\<close>

lemma overflow_step_1:
  "update_mems_on_fl ideal unsmoothed_online_config_fl online_init_fl 1
       [mems_sample 0 0 1 0 0 (- big)]
     = (online_init_fl\<lparr>accum_gz_onf := Fin (- big), accum_count_onf := 1,
                       neutral_gz_onf := Fin (- big)\<rparr>, FNeutralCaptured)"
  by (simp add: update_mems_on_fl_def gyro_ingress_sample unsmoothed_online_config_fl_def
      default_online_config_fl_def online_init_fl_def online_calibrate_fl_def fl_add_def
      fl_div_count_def ideal_small ideal_big Let_def)

lemma overflow_step_2:
  "update_mems_on_fl ideal unsmoothed_online_config_fl
       (online_init_fl\<lparr>accum_gz_onf := Fin (- big), accum_count_onf := 1,
                       neutral_gz_onf := Fin (- big)\<rparr>) 2
       [mems_sample 0 0 1 0 0 big]
     = (online_init_fl\<lparr>accum_gz_onf := Fin (- big), accum_count_onf := 1,
                       neutral_gz_onf := Fin (- big), last_update_ts_onf := 2,
                       last_gyro_time_onf := 2, last_gz_onf := Fin big, vx_onf := PInf\<rparr>,
        FMoveRel (Fin (- 50)) (Fin 0))"
  using big_large
  by (simp add: update_mems_on_fl_def gyro_ingress_sample unsmoothed_online_config_fl_def
      default_online_config_fl_def online_init_fl_def online_fast_filter_fl_def
      online_still_fl_def online_center_fl_def online_shape_fl_def dead_zone_fl_def
      smooth_fl_def fl_add_def fl_sub_def fl_mul_def pf_sub_def ideal_small ideal_big
      ideal_overflow inf_of_sign_def clamp_step_fl_def emit_fl_def Let_def)

lemma overflow_step_3:
  "update_mems_on_fl ideal unsmoothed_online_config_fl
       (online_init_fl\<lparr>accum_gz_onf := Fin (- big), accum_count_onf := 1,
                       neutral_gz_onf := Fin (- big), last_update_ts_onf := 2,
                       last_gyro_time_onf := 2, last_gz_onf := Fin big, vx_onf := PInf\<rparr>) 3
       [mems_sample 0 0 1 0 0 big]
     = (online_init_fl\<lparr>accum_gz_onf := Fin (- big), accum_count_onf := 1,
                       neutral_gz_onf := Fin (- big), last_update_ts_onf := 3,
                       last_gyro_time_onf := 3, last_gz_onf := Fin big, vx_onf := NaN,
                       still_since_onf := 3\<rparr>,
        FMoveRel NaN (Fin 0))"
  using big_large
  by (simp add: update_mems_on_fl_def gyro_ingress_sample unsmoothed_online_config_fl_def
      default_online_config_fl_def online_init_fl_def online_fast_filter_fl_def
      online_still_fl_def online_center_fl_def online_shape_fl_def dead_zone_fl_def
      smooth_fl_def fl_add_def fl_sub_def fl_mul_def pf_sub_def ideal_small ideal_big
      ideal_overflow inf_of_sign_def clamp_step_fl_def emit_fl_def Let_def)

theorem displacement_within_max_step_counterexample:
  "snd (update_mems_on_fl ideal (default_online_config_fl\<lparr>max_step_px_onf := Fin (- 1)\<rparr>)
          online_locked_fl 1 [mems_sample 0 0 1 10 0 10]) = FMoveRel (Fin 1) (Fin 1)
   \<and> \<not> pf_le (pf_abs (Fin 1))
          (max_step_px_onf (default_online_config_fl\<lparr>max_step_px_onf := Fin (- 1)\<rparr>))
   \<and> snd (run_online_fl ideal unsmoothed_online_config_fl online_init_fl overflow_run)
       = [FNeutralCaptured, FMoveRel (Fin (- 50)) (Fin 0), FMoveRel NaN (Fin 0)]
   \<and> pf_le (Fin 0) (max_step_px_onf unsmoothed_online_config_fl)
   \<and> \<not> pf_le (pf_abs NaN) (max_step_px_onf unsmoothed_online_config_fl)"
proof -
  have run: "snd (run_online_fl ideal unsmoothed_online_config_fl online_init_fl overflow_run)
               = [FNeutralCaptured, FMoveRel (Fin (- 50)) (Fin 0), FMoveRel NaN (Fin 0)]"
    unfolding overflow_run_def
    by (simp only: run_online_fl.simps overflow_step_1 overflow_step_2 overflow_step_3
        prod.case snd_conv)
  show ?thesis
    unfolding run online_fl_negative_step
    by (simp add: unsmoothed_online_config_fl_def default_online_config_fl_def)
qed

end
